theory Spec2Isabelle
  imports Complex_Main "HOL-Library.Sublist"
begin

section \<open>Strings and numbers of the host language\<close>

text \<open>
  A JavaScript string is a sequence of UTF-16 code units; a code unit is modelled as a
  natural number, so that the currency signs of the price patterns (the euro sign is
  U+20AC) are ordinary characters.  A JavaScript \<^verbatim>\<open>number\<close> is an IEEE double: a finite
  value, an infinity or NaN, with every operation rounded to the nearest double.
\<close>

type_synonym jschar = nat
type_synonym jsstring = "jschar list"

definition asc :: "string \<Rightarrow> jsstring" where
  "asc s = map of_char s"

subsection \<open>Character classes\<close>

definition isDigit :: "jschar \<Rightarrow> bool" where
  "isDigit c = (48 \<le> c \<and> c \<le> 57)"

definition isUpperAZ :: "jschar \<Rightarrow> bool" where
  "isUpperAZ c = (65 \<le> c \<and> c \<le> 90)"

definition isLowerAZ :: "jschar \<Rightarrow> bool" where
  "isLowerAZ c = (97 \<le> c \<and> c \<le> 122)"

definition isLetterAZ :: "jschar \<Rightarrow> bool" where
  "isLetterAZ c = (isLowerAZ c \<or> isUpperAZ c)"

text \<open>\<^verbatim>\<open>\w\<close> is \<^verbatim>\<open>[A-Za-z0-9_]\<close>.\<close>

definition isWordChar :: "jschar \<Rightarrow> bool" where
  "isWordChar c = (isLowerAZ c \<or> isUpperAZ c \<or> isDigit c \<or> c = 95)"

text \<open>
  \<^verbatim>\<open>\s\<close>, and the characters \<^verbatim>\<open>trim\<close> strips: tab, LF, VT, FF, CR, space, U+00A0,
  U+1680, U+2000 to U+200A, U+2028, U+2029, U+202F, U+205F, U+3000, U+FEFF.
\<close>

definition isSpace :: "jschar \<Rightarrow> bool" where
  "isSpace c = (c = 32 \<or> (9 \<le> c \<and> c \<le> 13) \<or> c = 160 \<or> c = 5760 \<or> (8192 \<le> c \<and> c \<le> 8202)
      \<or> c = 8232 \<or> c = 8233 \<or> c = 8239 \<or> c = 8287 \<or> c = 12288 \<or> c = 65279)"

text \<open>The class of the four currency signs: dollar, euro (U+20AC), pound (U+00A3), yen (U+00A5).\<close>

definition isCurrency :: "jschar \<Rightarrow> bool" where
  "isCurrency c = (c = 36 \<or> c = 8364 \<or> c = 163 \<or> c = 165)"

text \<open>\<^verbatim>\<open>[.,]\<close>\<close>

definition isDotComma :: "jschar \<Rightarrow> bool" where
  "isDotComma c = (c = 46 \<or> c = 44)"

text \<open>\<^verbatim>\<open>.\<close> matches every code unit but the line terminators LF, CR, U+2028, U+2029.\<close>

definition isAnyChar :: "jschar \<Rightarrow> bool" where
  "isAnyChar c = (c \<noteq> 10 \<and> c \<noteq> 13 \<and> c \<noteq> 8232 \<and> c \<noteq> 8233)"

definition ascLower :: "jschar \<Rightarrow> jschar" where
  "ascLower c = (if isUpperAZ c then c + 32 else c)"

definition ascUpper :: "jschar \<Rightarrow> jschar" where
  "ascUpper c = (if isLowerAZ c then c - 32 else c)"

subsection \<open>Regular expressions with the backtracking semantics of ECMAScript\<close>

text \<open>
  The patterns of the source use character classes, sequence, alternation, greedy and
  lazy bounded repetition, capture groups, the anchors \<^verbatim>\<open>^\<close> and \<^verbatim>\<open>$\<close> (never with the
  multiline flag), \<^verbatim>\<open>\b\<close>, and the two one-character lookarounds \<^verbatim>\<open>(?<!c)\<close> and
  \<^verbatim>\<open>(?!c)\<close> for a class \<^verbatim>\<open>c\<close>.
\<close>

datatype re =
    Cls "jschar \<Rightarrow> bool"
  | Eps
  | Seq re re
  | Alt re re
  | Rep nat "nat option" bool re
  | Grp nat re
  | Bol
  | Eol
  | WordB
  | NotAfter "jschar \<Rightarrow> bool"
  | NotBefore "jschar \<Rightarrow> bool"

text \<open>
  A matcher state: the index reached in the subject, the code unit before it (none at
  index 0), the rest of the subject, and the captures made so far (group number, start,
  end).
\<close>

type_synonym captures = "(nat \<times> nat \<times> nat) list"
type_synonym mstate = "nat \<times> jschar option \<times> jsstring \<times> captures"

text \<open>
  With the \<^verbatim>\<open>i\<close> flag a class matches a code unit when it holds a character with the
  same canonical form.  Without the \<^verbatim>\<open>u\<close> flag no character beyond ASCII is canonically
  equal to an ASCII one, and every class of an \<^verbatim>\<open>i\<close> pattern of the source is made of
  ASCII letters and caseless characters.
\<close>

definition cmatch :: "bool \<Rightarrow> (jschar \<Rightarrow> bool) \<Rightarrow> jschar \<Rightarrow> bool" where
  "cmatch ci P c = (P c \<or> (ci \<and> (P (ascLower c) \<or> P (ascUpper c))))"

definition decMax :: "nat option \<Rightarrow> nat option" where
  "decMax mx = (case mx of None \<Rightarrow> None | Some n \<Rightarrow> Some (n - 1))"

definition restLen :: "mstate \<Rightarrow> nat" where
  "restLen st = (case st of (k, p, r, cs) \<Rightarrow> length r)"

text \<open>
  A matcher yields every way it can match from a state, in the order backtracking
  tries them; the first one that lets the rest of the pattern match is the match.
  \<^verbatim>\<open>RepeatMatcher\<close> of the language definition: a repetition that has done its minimum
  refuses an iteration that matched the empty string; a greedy one tries another
  iteration before stopping, a lazy one stops first.
\<close>

function repeatMatcher ::
  "(mstate \<Rightarrow> mstate list) \<Rightarrow> bool \<Rightarrow> nat \<Rightarrow> nat option \<Rightarrow> mstate \<Rightarrow> mstate list" where
  "repeatMatcher m greedy mn mx x =
     (if mx = Some 0 then [x]
      else
        let iter = concat (map (\<lambda>y.
                      if restLen y < restLen x \<or> (0 < mn \<and> restLen y = restLen x)
                      then repeatMatcher m greedy (mn - 1) (decMax mx) y
                      else [])
                    (m x))
        in if mn \<noteq> 0 then iter
           else if greedy then iter @ [x]
           else x # iter)"
  by pat_completeness auto
termination
  by (relation "measure (\<lambda>(m, g, mn, mx, x). restLen x + mn)") auto

fun optPred :: "(jschar \<Rightarrow> bool) \<Rightarrow> jschar option \<Rightarrow> bool" where
  "optPred P None = False"
| "optPred P (Some c) = P c"

fun headOpt :: "'a list \<Rightarrow> 'a option" where
  "headOpt [] = None"
| "headOpt (x # xs) = Some x"

primrec rmatch :: "bool \<Rightarrow> re \<Rightarrow> mstate \<Rightarrow> mstate list" where
  "rmatch ci (Cls P) st =
     (case st of (k, p, r, cs) \<Rightarrow>
        (case r of [] \<Rightarrow> []
         | c # r' \<Rightarrow> if cmatch ci P c then [(Suc k, Some c, r', cs)] else []))"
| "rmatch ci Eps st = [st]"
| "rmatch ci (Seq a b) st = concat (map (rmatch ci b) (rmatch ci a st))"
| "rmatch ci (Alt a b) st = rmatch ci a st @ rmatch ci b st"
| "rmatch ci (Rep mn mx greedy a) st = repeatMatcher (rmatch ci a) greedy mn mx st"
| "rmatch ci (Grp n a) st =
     (case st of (k, p, r, cs) \<Rightarrow>
        map (\<lambda>(k', p', r', cs'). (k', p', r', (n, k, k') # cs')) (rmatch ci a st))"
| "rmatch ci Bol st = (case st of (k, p, r, cs) \<Rightarrow> if p = None then [st] else [])"
| "rmatch ci Eol st = (case st of (k, p, r, cs) \<Rightarrow> if r = [] then [st] else [])"
| "rmatch ci WordB st =
     (case st of (k, p, r, cs) \<Rightarrow>
        if optPred isWordChar p \<noteq> optPred isWordChar (headOpt r) then [st] else [])"
| "rmatch ci (NotAfter P) st =
     (case st of (k, p, r, cs) \<Rightarrow> if optPred (cmatch ci P) p then [] else [st])"
| "rmatch ci (NotBefore P) st =
     (case st of (k, p, r, cs) \<Rightarrow> if optPred (cmatch ci P) (headOpt r) then [] else [st])"

text \<open>
  \<^verbatim>\<open>RegExpBuiltinExec\<close>: the leftmost index at or after the current one where the
  pattern matches, with the state its first match ends in.
\<close>

fun rsearch :: "bool \<Rightarrow> re \<Rightarrow> nat \<Rightarrow> jschar option \<Rightarrow> jsstring \<Rightarrow> (nat \<times> mstate) option" where
  "rsearch ci r k p rest =
     (case rmatch ci r (k, p, rest, []) of
        y # ys \<Rightarrow> Some (k, y)
      | [] \<Rightarrow> (case rest of [] \<Rightarrow> None | c # rest' \<Rightarrow> rsearch ci r (Suc k) (Some c) rest'))"

text \<open>\<^verbatim>\<open>regex.test(s)\<close> for a pattern without the \<^verbatim>\<open>g\<close> flag, or one created at the call.\<close>

definition regexTest :: "bool \<Rightarrow> re \<Rightarrow> jsstring \<Rightarrow> bool" where
  "regexTest ci r s = (rsearch ci r 0 None s \<noteq> None)"

definition prevAt :: "jsstring \<Rightarrow> nat \<Rightarrow> jschar option" where
  "prevAt s i = (if i = 0 then None else Some (s ! (i - 1)))"

text \<open>
  \<^verbatim>\<open>regex.test(s)\<close> for a pattern object with the \<^verbatim>\<open>g\<close> flag that outlives the call:
  the search starts at the object's \<^verbatim>\<open>lastIndex\<close>; a match stores its end there, a
  failure stores 0.  The result is the answer and the new \<^verbatim>\<open>lastIndex\<close>.
\<close>

definition regexTestG :: "bool \<Rightarrow> re \<Rightarrow> jsstring \<Rightarrow> nat \<Rightarrow> bool \<times> nat" where
  "regexTestG ci r s lastIndex =
     (if lastIndex > length s then (False, 0)
      else (case rsearch ci r lastIndex (prevAt s lastIndex) (drop lastIndex s) of
              None \<Rightarrow> (False, 0)
            | Some (b, e, p, rest, cs) \<Rightarrow> (True, e)))"

text \<open>
  \<^verbatim>\<open>patterns.some(pattern => pattern.test(s))\<close> over an array of such pattern objects:
  the patterns are tested in order up to the first that matches; the others keep
  their \<^verbatim>\<open>lastIndex\<close>.
\<close>

fun someTest :: "(bool \<times> re) list \<Rightarrow> jsstring \<Rightarrow> nat list \<Rightarrow> bool \<times> nat list" where
  "someTest [] s idxs = (False, idxs)"
| "someTest ((ci, r) # ps) s idxs =
     (case regexTestG ci r s (case idxs of [] \<Rightarrow> 0 | i # js \<Rightarrow> i) of
        (True, i') \<Rightarrow> (True, i' # tl idxs)
      | (False, i') \<Rightarrow> (case someTest ps s (tl idxs) of (b, idxs') \<Rightarrow> (b, i' # idxs')))"

text \<open>
  \<^verbatim>\<open>s.replace(regex, rep)\<close> for a \<^verbatim>\<open>g\<close> pattern and a replacement without \<^verbatim>\<open>$\<close>: the
  matches are found left to right on the subject, each search starting where the last
  match ended (one further after an empty match).  The pattern's \<^verbatim>\<open>lastIndex\<close> is 0
  afterwards.
\<close>

function replaceFrom ::
  "bool \<Rightarrow> re \<Rightarrow> jsstring \<Rightarrow> nat \<Rightarrow> jschar option \<Rightarrow> jsstring \<Rightarrow> jsstring" where
  "replaceFrom ci r rep k p rest =
     (case rmatch ci r (k, p, rest, []) of
        [] \<Rightarrow> (case rest of [] \<Rightarrow> []
               | c # rest2 \<Rightarrow> c # replaceFrom ci r rep (Suc k) (Some c) rest2)
      | y # ys \<Rightarrow>
          (case y of (k', p', rest', cs) \<Rightarrow>
             if length rest' < length rest then rep @ replaceFrom ci r rep k' p' rest'
             else rep @ (case rest of [] \<Rightarrow> []
                         | c # rest2 \<Rightarrow> c # replaceFrom ci r rep (Suc k) (Some c) rest2)))"
  by pat_completeness auto
termination
  by (relation "measure (\<lambda>(ci, r, rep, k, p, rest). length rest)") auto

definition replaceAll :: "bool \<Rightarrow> re \<Rightarrow> jsstring \<Rightarrow> jsstring \<Rightarrow> jsstring" where
  "replaceAll ci r rep s = replaceFrom ci r rep 0 None s"

text \<open>
  The successive results of \<^verbatim>\<open>regex.exec(s)\<close> for a \<^verbatim>\<open>g\<close> pattern, up to the first
  null: each match with its start index and the state it ends in.  \<^verbatim>\<open>s.match(regex)\<close>
  returns the matched substrings; \<^verbatim>\<open>capture\<close> is the text of a group of a match.
\<close>

function execAllFrom :: "bool \<Rightarrow> re \<Rightarrow> nat \<Rightarrow> jschar option \<Rightarrow> jsstring \<Rightarrow> (nat \<times> mstate) list" where
  "execAllFrom ci r k p rest =
     (case rmatch ci r (k, p, rest, []) of
        [] \<Rightarrow> (case rest of [] \<Rightarrow> []
               | c # rest2 \<Rightarrow> execAllFrom ci r (Suc k) (Some c) rest2)
      | y # ys \<Rightarrow>
          (case y of (k', p', rest', cs) \<Rightarrow>
             if length rest' < length rest then (k, y) # execAllFrom ci r k' p' rest'
             else (k, y) # (case rest of [] \<Rightarrow> []
                            | c # rest2 \<Rightarrow> execAllFrom ci r (Suc k) (Some c) rest2)))"
  by pat_completeness auto
termination
  by (relation "measure (\<lambda>(ci, r, k, p, rest). length rest)") auto

definition substring :: "jsstring \<Rightarrow> nat \<Rightarrow> nat \<Rightarrow> jsstring" where
  "substring s b e = take (e - b) (drop b s)"

definition matchAll :: "bool \<Rightarrow> re \<Rightarrow> jsstring \<Rightarrow> jsstring list" where
  "matchAll ci r s = map (\<lambda>(b, e, p, rest, cs). substring s b e) (execAllFrom ci r 0 None s)"

fun capture :: "jsstring \<Rightarrow> captures \<Rightarrow> nat \<Rightarrow> jsstring" where
  "capture s [] n = []"
| "capture s ((g, b, e) # cs) n = (if g = n then substring s b e else capture s cs n)"

definition trim :: "jsstring \<Rightarrow> jsstring" where
  "trim s = rev (dropWhile isSpace (rev (dropWhile isSpace s)))"

text \<open>
  \<^verbatim>\<open>s.split(regex)\<close> for a pattern without capture groups (\<^verbatim>\<open>SplitMatcher\<close> of the
  language definition): at each index the pattern is tried at that index only; a match
  that ends where the last piece ended is skipped.  \<^verbatim>\<open>acc\<close> is the piece collected since
  the last separator.
\<close>

function splitFrom ::
  "bool \<Rightarrow> re \<Rightarrow> jsstring \<Rightarrow> nat \<Rightarrow> jschar option \<Rightarrow> jsstring \<Rightarrow> jsstring list" where
  "splitFrom ci r acc k p rest =
     (case rest of
        [] \<Rightarrow> [acc]
      | c # rest2 \<Rightarrow>
          (case rmatch ci r (k, p, rest, []) of
             [] \<Rightarrow> splitFrom ci r (acc @ [c]) (Suc k) (Some c) rest2
           | y # ys \<Rightarrow>
               (case y of (k', p', rest', cs) \<Rightarrow>
                  if length rest' < length rest then acc # splitFrom ci r [] k' p' rest'
                  else if acc = [] then splitFrom ci r [c] (Suc k) (Some c) rest2
                  else acc # splitFrom ci r [c] (Suc k) (Some c) rest2)))"
  by pat_completeness auto
termination
  by (relation "measure (\<lambda>(ci, r, acc, k, p, rest). length rest)") auto

definition split :: "bool \<Rightarrow> re \<Rightarrow> jsstring \<Rightarrow> jsstring list" where
  "split ci r s =
     (if s = [] then (if rmatch ci r (0, None, [], []) = [] then [[]] else [])
      else splitFrom ci r [] 0 None s)"

text \<open>\<^verbatim>\<open>s.split(/\s+/)\<close>\<close>

definition splitSpaces :: "jsstring \<Rightarrow> jsstring list" where
  "splitSpaces s = split False (Rep 1 None True (Cls isSpace)) s"

text \<open>
  \<^verbatim>\<open>toLowerCase\<close> and \<^verbatim>\<open>toUpperCase\<close> follow the Unicode case mappings.  The model
  has them for Basic Latin and Latin-1 Supplement, and for the two characters outside
  these blocks whose lower case is an ASCII letter (U+212A, the Kelvin sign, and
  U+0130); every other code unit is left as it is.
\<close>

definition isUpperLatin1 :: "jschar \<Rightarrow> bool" where
  "isUpperLatin1 c = (192 \<le> c \<and> c \<le> 222 \<and> c \<noteq> 215)"

definition isLowerLatin1 :: "jschar \<Rightarrow> bool" where
  "isLowerLatin1 c = (224 \<le> c \<and> c \<le> 254 \<and> c \<noteq> 247)"

definition lowerChar :: "jschar \<Rightarrow> jsstring" where
  "lowerChar c =
     (if isUpperAZ c \<or> isUpperLatin1 c then [c + 32]
      else if c = 8490 then [107]
      else if c = 304 then [105, 775]
      else [c])"

definition upperChar :: "jschar \<Rightarrow> jsstring" where
  "upperChar c =
     (if isLowerAZ c \<or> isLowerLatin1 c then [c - 32]
      else if c = 223 then [83, 83]
      else if c = 255 then [376]
      else if c = 181 then [924]
      else [c])"

definition toLowerCase :: "jsstring \<Rightarrow> jsstring" where
  "toLowerCase s = concat (map lowerChar s)"

definition toUpperCase :: "jsstring \<Rightarrow> jsstring" where
  "toUpperCase s = concat (map upperChar s)"

text \<open>\<^verbatim>\<open>s.includes(t)\<close> and \<^verbatim>\<open>s.startsWith(t)\<close>\<close>

fun startsWith :: "jsstring \<Rightarrow> jsstring \<Rightarrow> bool" where
  "startsWith s [] = True"
| "startsWith [] (c # t) = False"
| "startsWith (d # s) (c # t) = (d = c \<and> startsWith s t)"

fun includesStr :: "jsstring \<Rightarrow> jsstring \<Rightarrow> bool" where
  "includesStr [] t = (t = [])"
| "includesStr (d # s) t = (startsWith (d # s) t \<or> includesStr s t)"

subsection \<open>Pattern notation\<close>

definition lit :: "jschar \<Rightarrow> re" where
  "lit c = Cls (\<lambda>x. x = c)"

fun lits :: "jsstring \<Rightarrow> re" where
  "lits [] = Eps"
| "lits [c] = lit c"
| "lits (c # cs) = Seq (lit c) (lits cs)"

fun seqs :: "re list \<Rightarrow> re" where
  "seqs [] = Eps"
| "seqs [r] = r"
| "seqs (r # rs) = Seq r (seqs rs)"

fun alts :: "re list \<Rightarrow> re" where
  "alts [] = Eps"
| "alts [r] = r"
| "alts (r # rs) = Alt r (alts rs)"

definition optional :: "re \<Rightarrow> re" where
  "optional r = Rep 0 (Some 1) True r"

definition many :: "re \<Rightarrow> re" where
  "many r = Rep 0 None True r"

definition many1 :: "re \<Rightarrow> re" where
  "many1 r = Rep 1 None True r"

definition lazyMany1 :: "re \<Rightarrow> re" where
  "lazyMany1 r = Rep 1 None False r"

definition lazyMany :: "re \<Rightarrow> re" where
  "lazyMany r = Rep 0 None False r"

definition between :: "nat \<Rightarrow> nat \<Rightarrow> re \<Rightarrow> re" where
  "between m n r = Rep m (Some n) True r"

text \<open>\<^verbatim>\<open>(?:[.,]\d{2})\<close>\<close>

definition decimals :: re where
  "decimals = Seq (Cls isDotComma) (between 2 2 (Cls isDigit))"

subsection \<open>Numbers\<close>

text \<open>
  A number of the host language is a double: not-a-number, an infinity, or a finite
  value.  An arithmetic operation on finite values is the exact operation followed by
  rounding to the nearest double, ties to the even significand (\<^verbatim>\<open>fl\<close>); a result
  too large for a double is an infinity.  \<^verbatim>\<open>bexp\<close> is the binary exponent of a positive
  real and \<^verbatim>\<open>ulp\<close> the distance between the doubles around it.  The sign of a zero is
  not represented.  A decimal literal \<^verbatim>\<open>d\<close> of the source is \<^verbatim>\<open>fl d\<close>.
\<close>

datatype jsnum = NaN | PInf | NInf | Fin real

function bexp :: "real \<Rightarrow> int" where
  "bexp x = (if x \<le> 0 then 0 else if 2 \<le> x then bexp (x / 2) + 1 else if x < 1 then bexp (2 * x) - 1 else 0)"
  by pat_completeness auto
termination
proof (relation "measure (\<lambda>x. nat \<bar>\<lfloor>log 2 x\<rfloor>\<bar>)")
  show "wf (measure (\<lambda>x. nat \<bar>\<lfloor>log 2 x\<rfloor>\<bar>))" by simp
next
  fix x :: real assume a: "\<not> x \<le> 0" "2 \<le> x"
  have "log 2 (x / 2) = log 2 x - 1" using a by (simp add: log_divide)
  then have e: "\<lfloor>log 2 (x / 2)\<rfloor> = \<lfloor>log 2 x\<rfloor> - 1" by simp
  have "1 \<le> log 2 x" using a by (simp add: le_log_iff)
  then have f: "1 \<le> \<lfloor>log 2 x\<rfloor>" by (simp add: le_floor_iff)
  show "(x / 2, x) \<in> measure (\<lambda>x. nat \<bar>\<lfloor>log 2 x\<rfloor>\<bar>)"
    by (simp only: in_measure e) (use f in arith)
next
  fix x :: real assume a: "\<not> x \<le> 0" "\<not> 2 \<le> x" "x < 1"
  have "log 2 (2 * x) = log 2 x + 1" using a by (simp add: log_mult)
  then have e: "\<lfloor>log 2 (2 * x)\<rfloor> = \<lfloor>log 2 x\<rfloor> + 1" by simp
  have "log 2 x < 0" using a by simp
  then have f: "\<lfloor>log 2 x\<rfloor> < 0" by (simp add: floor_less_iff)
  show "(2 * x, x) \<in> measure (\<lambda>x. nat \<bar>\<lfloor>log 2 x\<rfloor>\<bar>)"
    by (simp only: in_measure e) (use f in arith)
qed

definition pow2 :: "int \<Rightarrow> real" where
  "pow2 e = (if 0 \<le> e then 2 ^ nat e else 1 / 2 ^ nat (- e))"

definition roundEven :: "real \<Rightarrow> int" where
  "roundEven y =
     (if y - of_int \<lfloor>y\<rfloor> < 1 / 2 then \<lfloor>y\<rfloor>
      else if 1 / 2 < y - of_int \<lfloor>y\<rfloor> then \<lfloor>y\<rfloor> + 1
      else if even \<lfloor>y\<rfloor> then \<lfloor>y\<rfloor> else \<lfloor>y\<rfloor> + 1)"

definition ulp :: "real \<Rightarrow> real" where
  "ulp x = pow2 (max (- 1022) (bexp \<bar>x\<bar>) - 52)"

definition fl :: "real \<Rightarrow> jsnum" where
  "fl x =
     (if 2 ^ 1024 - 2 ^ 970 \<le> \<bar>x\<bar> then (if 0 < x then PInf else NInf)
      else Fin (ulp x * of_int (roundEven (x / ulp x))))"

text \<open>A length or a count: an integer below \<^verbatim>\<open>2^53\<close>, which is a double.\<close>

definition ofNat :: "nat \<Rightarrow> jsnum" where
  "ofNat n = Fin (real n)"

fun jneg :: "jsnum \<Rightarrow> jsnum" where
  "jneg NaN = NaN"
| "jneg PInf = NInf"
| "jneg NInf = PInf"
| "jneg (Fin x) = Fin (- x)"

fun jadd :: "jsnum \<Rightarrow> jsnum \<Rightarrow> jsnum" where
  "jadd (Fin x) (Fin y) = fl (x + y)"
| "jadd NaN b = NaN"
| "jadd a NaN = NaN"
| "jadd PInf NInf = NaN"
| "jadd NInf PInf = NaN"
| "jadd PInf b = PInf"
| "jadd NInf b = NInf"
| "jadd a PInf = PInf"
| "jadd a NInf = NInf"

definition jsub :: "jsnum \<Rightarrow> jsnum \<Rightarrow> jsnum" where
  "jsub a b = jadd a (jneg b)"

fun nonNegative :: "jsnum \<Rightarrow> bool" where
  "nonNegative (Fin x) = (0 \<le> x)"
| "nonNegative PInf = True"
| "nonNegative a = False"

fun jmul :: "jsnum \<Rightarrow> jsnum \<Rightarrow> jsnum" where
  "jmul (Fin x) (Fin y) = fl (x * y)"
| "jmul NaN b = NaN"
| "jmul a NaN = NaN"
| "jmul a b = (if a = Fin 0 \<or> b = Fin 0 then NaN else if nonNegative a = nonNegative b then PInf else NInf)"

fun jdiv :: "jsnum \<Rightarrow> jsnum \<Rightarrow> jsnum" where
  "jdiv (Fin x) (Fin y) =
     (if y = 0 then (if x = 0 then NaN else if 0 < x then PInf else NInf) else fl (x / y))"
| "jdiv NaN b = NaN"
| "jdiv a NaN = NaN"
| "jdiv (Fin x) b = Fin 0"
| "jdiv a (Fin y) = (if nonNegative a = (0 \<le> y) then PInf else NInf)"
| "jdiv a b = NaN"

text \<open>
  \<^verbatim>\<open>Math.sqrt\<close> and \<^verbatim>\<open>Math.exp\<close>, taken as correctly rounded.
\<close>

fun jsqrt :: "jsnum \<Rightarrow> jsnum" where
  "jsqrt (Fin x) = (if x < 0 then NaN else fl (sqrt x))"
| "jsqrt PInf = PInf"
| "jsqrt a = NaN"

fun jexp :: "jsnum \<Rightarrow> jsnum" where
  "jexp (Fin x) = fl (exp x)"
| "jexp PInf = PInf"
| "jexp NInf = Fin 0"
| "jexp NaN = NaN"

text \<open>The comparisons: every comparison with not-a-number is false.\<close>

fun jlt :: "jsnum \<Rightarrow> jsnum \<Rightarrow> bool" where
  "jlt (Fin x) (Fin y) = (x < y)"
| "jlt NaN b = False"
| "jlt a NaN = False"
| "jlt PInf b = False"
| "jlt a NInf = False"
| "jlt a b = True"

definition jgt :: "jsnum \<Rightarrow> jsnum \<Rightarrow> bool" where
  "jgt a b = jlt b a"

definition jle :: "jsnum \<Rightarrow> jsnum \<Rightarrow> bool" where
  "jle a b = (a \<noteq> NaN \<and> b \<noteq> NaN \<and> \<not> jlt b a)"

definition jge :: "jsnum \<Rightarrow> jsnum \<Rightarrow> bool" where
  "jge a b = jle b a"

text \<open>\<^verbatim>\<open>a === b\<close> on numbers.\<close>

definition jeq :: "jsnum \<Rightarrow> jsnum \<Rightarrow> bool" where
  "jeq a b = (a \<noteq> NaN \<and> a = b)"

text \<open>\<^verbatim>\<open>Math.max\<close> and \<^verbatim>\<open>Math.min\<close> of two numbers.\<close>

definition jmax :: "jsnum \<Rightarrow> jsnum \<Rightarrow> jsnum" where
  "jmax a b = (if a = NaN \<or> b = NaN then NaN else if jlt a b then b else a)"

definition jmin :: "jsnum \<Rightarrow> jsnum \<Rightarrow> jsnum" where
  "jmin a b = (if a = NaN \<or> b = NaN then NaN else if jlt b a then b else a)"

text \<open>A number in a condition: zero and not-a-number count as false.\<close>

definition truthy :: "jsnum \<Rightarrow> bool" where
  "truthy a = (a \<noteq> NaN \<and> a \<noteq> Fin 0)"

text \<open>\<^verbatim>\<open>score += d\<close> for each \<^verbatim>\<open>d\<close> of a list, in order.\<close>

definition addAll :: "jsnum \<Rightarrow> jsnum list \<Rightarrow> jsnum" where
  "addAll score ds = foldl jadd score ds"

section \<open>Price normaliser (priceRemoval.ts)\<close>

text \<open>
  The nine patterns of \<^verbatim>\<open>COMPREHENSIVE_PRICE_PATTERNS\<close>, in the array's order; \<^verbatim>\<open>C\<close>
  stands for the class of the four currency signs.
  \<^item> \<^verbatim>\<open>/C\s?\d{1,4}(?:[.,]\d{2})?/g\<close>
  \<^item> \<^verbatim>\<open>/\d{1,4}(?:[.,]\d{2})?\s?C/g\<close>
  \<^item> \<^verbatim>\<open>/\d{1,3}(?:[.,]\d{2})/g\<close>
  \<^item> \<^verbatim>\<open>/\d{1,4}(?:[.,]\d{2})?\s*$/g\<close>
  \<^item> \<^verbatim>\<open>/^\s*\d{1,4}(?:[.,]\d{2})?\s+/g\<close>
  \<^item> \<^verbatim>\<open>/\d{1,4}(?:[.,]\d{2})?\s*(?:euros?|dollars?|cents?|pounds?|yen)/gi\<close>
  \<^item> \<^verbatim>\<open>/(?<!\w)\d{3,4}(?!\w)/g\<close>
  \<^item> \<^verbatim>\<open>/\d{1,4}\s*[.,]\s*\d{2}/g\<close>
  \<^item> \<^verbatim>\<open>/\bmarket\s+price\b/gi\<close>
\<close>

definition cpp1 :: re where
  "cpp1 = seqs [Cls isCurrency, optional (Cls isSpace), between 1 4 (Cls isDigit), optional decimals]"

definition cpp2 :: re where
  "cpp2 = seqs [between 1 4 (Cls isDigit), optional decimals, optional (Cls isSpace), Cls isCurrency]"

definition cpp3 :: re where
  "cpp3 = seqs [between 1 3 (Cls isDigit), decimals]"

definition cpp4 :: re where
  "cpp4 = seqs [between 1 4 (Cls isDigit), optional decimals, many (Cls isSpace), Eol]"

definition cpp5 :: re where
  "cpp5 = seqs [Bol, many (Cls isSpace), between 1 4 (Cls isDigit), optional decimals, many1 (Cls isSpace)]"

definition currencyWord :: re where
  "currencyWord =
     alts [Seq (lits (asc ''euro'')) (optional (lit 115)),
           Seq (lits (asc ''dollar'')) (optional (lit 115)),
           Seq (lits (asc ''cent'')) (optional (lit 115)),
           Seq (lits (asc ''pound'')) (optional (lit 115)),
           lits (asc ''yen'')]"

definition cpp6 :: re where
  "cpp6 = seqs [between 1 4 (Cls isDigit), optional decimals, many (Cls isSpace), currencyWord]"

definition cpp7 :: re where
  "cpp7 = seqs [NotAfter isWordChar, between 3 4 (Cls isDigit), NotBefore isWordChar]"

definition cpp8 :: re where
  "cpp8 = seqs [between 1 4 (Cls isDigit), many (Cls isSpace), Cls isDotComma, many (Cls isSpace),
                between 2 2 (Cls isDigit)]"

definition marketPrice :: re where
  "marketPrice = seqs [WordB, lits (asc ''market''), many1 (Cls isSpace), lits (asc ''price''), WordB]"

definition COMPREHENSIVE_PRICE_PATTERNS :: "(bool \<times> re) list" where
  "COMPREHENSIVE_PRICE_PATTERNS =
     [(False, cpp1), (False, cpp2), (False, cpp3), (False, cpp4), (False, cpp5), (True, cpp6),
      (False, cpp7), (False, cpp8), (True, marketPrice)]"

text \<open>\<^verbatim>\<open>/\b\d{3,4}\b/g\<close> and \<^verbatim>\<open>/\b\d{2,4}\b/\<close>\<close>

definition standalone34 :: re where
  "standalone34 = seqs [WordB, between 3 4 (Cls isDigit), WordB]"

definition standalone24 :: re where
  "standalone24 = seqs [WordB, between 2 4 (Cls isDigit), WordB]"

text \<open>
  The \<^verbatim>\<open>lastIndex\<close> values of the nine pattern objects are the state the module keeps
  between calls.  \<^verbatim>\<open>removeAllPrices\<close> uses the patterns only in \<^verbatim>\<open>replace\<close>, which
  ignores \<^verbatim>\<open>lastIndex\<close> and leaves it at 0: its result depends on the text alone, and
  after it the state is \<^verbatim>\<open>freshIndexes\<close>.  (Its \<^verbatim>\<open>console.log\<close> calls are left out.)
\<close>

type_synonym lastIndexes = "nat list"

definition freshIndexes :: lastIndexes where
  "freshIndexes = [0, 0, 0, 0, 0, 0, 0, 0, 0]"

definition removeAllPrices :: "jsstring \<Rightarrow> jsstring" where
  "removeAllPrices text =
     (let cleanedText = foldl (\<lambda>t (ci, r). replaceAll ci r [] t) text COMPREHENSIVE_PRICE_PATTERNS;
          cleanedText = replaceAll False standalone34 [] cleanedText;
          cleanedText = replaceAll False (Cls isCurrency) [] cleanedText;
          cleanedText = trim (replaceAll False (many1 (Cls isSpace)) [32] cleanedText)
      in cleanedText)"

definition containsAnyPrice :: "lastIndexes \<Rightarrow> jsstring \<Rightarrow> bool \<times> lastIndexes" where
  "containsAnyPrice st text =
     (case someTest COMPREHENSIVE_PRICE_PATTERNS text st of
        (True, st') \<Rightarrow> (True, st')
      | (False, st') \<Rightarrow> (regexTest True marketPrice text, st'))"

text \<open>\<^verbatim>\<open>extractAllPrices\<close>: \<^verbatim>\<open>match\<close> leaves every \<^verbatim>\<open>lastIndex\<close> at 0 as well.\<close>

definition extractAllPrices :: "jsstring \<Rightarrow> jsstring list" where
  "extractAllPrices text =
     concat (map (\<lambda>(ci, r). matchAll ci r text) COMPREHENSIVE_PRICE_PATTERNS)
     @ matchAll True marketPrice text"

definition validateNoPrices :: "lastIndexes \<Rightarrow> jsstring \<Rightarrow> bool \<times> lastIndexes" where
  "validateNoPrices st text =
     (case containsAnyPrice st text of
        (hasPrices, st') \<Rightarrow>
          (let hasStandaloneNumbers = regexTest False standalone24 text;
               hasCurrencySymbols = regexTest False (Cls isCurrency) text;
               hasMarketPrice = regexTest True marketPrice text
           in (\<not> hasPrices \<and> \<not> hasStandaloneNumbers \<and> \<not> hasCurrencySymbols \<and> \<not> hasMarketPrice, st')))"

text \<open>The code unit before the end of a text \<^verbatim>\<open>w\<close> that follows a code unit \<^verbatim>\<open>p\<close>.\<close>

definition lastOr :: "jschar option \<Rightarrow> jsstring \<Rightarrow> jschar option" where
  "lastOr p w = (if w = [] then p else Some (last w))"

section \<open>Text utilities (regex.ts)\<close>

text \<open>
  The six patterns of \<^verbatim>\<open>PRICE_PATTERNS\<close>, all with the \<^verbatim>\<open>g\<close> flag; \<^verbatim>\<open>N\<close> stands for
  \<^verbatim>\<open>\d{1,3}(?:[.,]\d{2})?\<close>.
  \<^item> \<^verbatim>\<open>(?<!\w)(?:[$])\s?N(?!\w)\<close>
  \<^item> \<^verbatim>\<open>(?<!\w)(?:[E])\s?N(?!\w)|(?<!\w)N\s?[E](?!\w)\<close> for the euro sign \<^verbatim>\<open>E\<close>
  \<^item> \<^verbatim>\<open>(?<!\w)(?:[L])\s?N(?!\w)\<close> for the pound sign \<^verbatim>\<open>L\<close>
  \<^item> \<^verbatim>\<open>(?<!\w)(?:[Y])\s?\d{1,4}(?!\w)\<close> for the yen sign \<^verbatim>\<open>Y\<close>
  \<^item> \<^verbatim>\<open>(?<!\w)\d{1,3}(?:[.,]\d{2})(?!\w)\<close>
  \<^item> \<^verbatim>\<open>(?<!\w)\d{1,3}(?:[.,]\d{2})?\s*$\<close>
\<close>

definition symbolThenNumber :: "jschar \<Rightarrow> re" where
  "symbolThenNumber cur =
     seqs [NotAfter isWordChar, lit cur, optional (Cls isSpace), between 1 3 (Cls isDigit), optional decimals,
           NotBefore isWordChar]"

definition pp1 :: re where
  "pp1 = symbolThenNumber 36"

definition pp2 :: re where
  "pp2 = Alt (symbolThenNumber 8364)
             (seqs [NotAfter isWordChar, between 1 3 (Cls isDigit), optional decimals, optional (Cls isSpace),
                    lit 8364, NotBefore isWordChar])"

definition pp3 :: re where
  "pp3 = symbolThenNumber 163"

definition pp4 :: re where
  "pp4 = seqs [NotAfter isWordChar, lit 165, optional (Cls isSpace), between 1 4 (Cls isDigit),
               NotBefore isWordChar]"

definition pp5 :: re where
  "pp5 = seqs [NotAfter isWordChar, between 1 3 (Cls isDigit), decimals, NotBefore isWordChar]"

definition pp6 :: re where
  "pp6 = seqs [NotAfter isWordChar, between 1 3 (Cls isDigit), optional decimals, many (Cls isSpace), Eol]"

definition PRICE_PATTERNS :: "(bool \<times> re) list" where
  "PRICE_PATTERNS = [(False, pp1), (False, pp2), (False, pp3), (False, pp4), (False, pp5), (False, pp6)]"

definition freshPriceIndexes :: lastIndexes where
  "freshPriceIndexes = [0, 0, 0, 0, 0, 0]"

definition containsPrice :: "lastIndexes \<Rightarrow> jsstring \<Rightarrow> bool \<times> lastIndexes" where
  "containsPrice st text = someTest PRICE_PATTERNS text st"

subsection \<open>The price formats in the words of the specification\<close>

text \<open>
  A number of at most \<^verbatim>\<open>n\<close> digits; a decimal part, which is a point or a comma and two
  digits; at most one white-space character; and a piece of text that stands alone
  between \<^verbatim>\<open>pre\<close> and \<^verbatim>\<open>post\<close>: no word character comes directly before or after it.
\<close>

definition digitsUpTo :: "nat \<Rightarrow> jsstring \<Rightarrow> bool" where
  "digitsUpTo n ds = (ds \<noteq> [] \<and> length ds \<le> n \<and> list_all isDigit ds)"

definition decimalPart :: "jsstring \<Rightarrow> bool" where
  "decimalPart dec = (case dec of [s, d1, d2] \<Rightarrow> isDotComma s \<and> isDigit d1 \<and> isDigit d2 | _ \<Rightarrow> False)"

definition optionalDecimals :: "jsstring \<Rightarrow> bool" where
  "optionalDecimals dec = (dec = [] \<or> decimalPart dec)"

definition optionalSpace :: "jsstring \<Rightarrow> bool" where
  "optionalSpace sp = (length sp \<le> 1 \<and> list_all isSpace sp)"

definition standsAlone :: "jsstring \<Rightarrow> jsstring \<Rightarrow> bool" where
  "standsAlone pre post = (\<not> optPred isWordChar (lastOr None pre) \<and> \<not> optPred isWordChar (headOpt post))"

text \<open>The vocabularies of \<^verbatim>\<open>regex.ts\<close>; a code unit above 127 is written as its number.\<close>

definition SECTION_HEADERS :: "jsstring list" where
  "SECTION_HEADERS =
     [asc ''entrees'', asc ''entr'' @ [233] @ asc ''es'', asc ''mains'', asc ''main courses'',
      asc ''main'', asc ''specialties'', asc ''specialities'', asc ''plates'', asc ''plats'',
      asc ''platos'', asc ''secondi'', asc ''secondi piatti'', asc ''piatti principali'',
      asc ''a la carte'', asc ''a la carte menu'', asc ''from the grill'', asc ''chef's specials'',
      asc ''house specialties'', asc ''signature dishes'', asc ''featured items'',
      asc ''plats principaux'', asc ''plats'',
      asc ''sp'' @ [233] @ asc ''cialit'' @ [233] @ asc ''s'', asc ''specialites'',
      [224] @ asc '' la carte'', asc ''secondi'', asc ''piatti principali'',
      asc ''specialit'' @ [224], asc ''specialita'', asc ''alla griglia'',
      asc ''platos principales'', asc ''platos'', asc ''especialidades'', asc ''a la carta'']"

definition BLACKLISTED_TERMS :: "jsstring list" where
  "BLACKLISTED_TERMS =
     [asc ''appetizers'', asc ''appetisers'', asc ''starters'', asc ''hors d'oeuvres'',
      asc ''soups'', asc ''salads'', asc ''sides'', asc ''side dishes'', asc ''desserts'',
      asc ''beverages'', asc ''drinks'', asc ''beer'', asc ''cocktails'', asc ''coffee'',
      asc ''breakfast'', asc ''lunch'', asc ''gluten free'', asc ''contains nuts'',
      asc ''dairy free'', asc ''mild'', asc ''first course'', asc ''second course'',
      asc ''third course'', asc ''main course'', asc ''ask server'']"

definition STOP_WORDS :: "jsstring list" where
  "STOP_WORDS =
     [asc ''a'', asc ''an'', asc ''and'', asc ''the'', asc ''of'', asc ''in'', asc ''on'',
      asc ''at'', asc ''to'', asc ''for'', asc ''with'', asc ''by'', asc ''from'', asc ''up'',
      asc ''about'', asc ''into'', asc ''through'', asc ''during'', asc ''before'', asc ''after'',
      asc ''above'', asc ''below'', asc ''between'', asc ''among'', asc ''under'', asc ''over'',
      asc ''around'', asc ''near'', asc ''le'', asc ''la'', asc ''les'', asc ''un'', asc ''une'',
      asc ''des'', asc ''du'', asc ''de'', asc ''dans'', asc ''sur'', asc ''avec'', asc ''pour'',
      asc ''par'', asc ''sans'', asc ''sous'', asc ''entre'', asc ''chez'', asc ''vers'',
      asc ''depuis'', asc ''jusqu'', asc ''pendant'']"

definition FRENCH_DESCRIPTIVE_WORDS :: "jsstring list" where
  "FRENCH_DESCRIPTIVE_WORDS =
     [asc ''avec'', asc ''servi'', asc ''garni'', asc ''frais'', asc ''local'', asc ''bio'',
      asc ''organique'', asc ''ail'', asc ''citron'', asc ''beurre'', asc ''pain'',
      asc ''miettes'', asc ''grill'' @ [233], asc ''baguette'', asc ''assaisonn'' @ [233],
      asc ''marin'' @ [233], asc ''r'' @ [244] @ asc ''ti'', asc ''grill'' @ [233], asc ''frit'',
      asc ''cuit '' @ [224] @ asc '' la vapeur'', asc ''accompagn'' @ [233], asc ''arros'' @ [233],
      asc ''saut'' @ [233], asc ''fini'', asc ''garni'', asc ''sauce'', asc ''jus'', asc ''cuit'',
      asc ''pr'' @ [233] @ asc ''par'' @ [233], asc ''m'' @ [233] @ asc ''lang'' @ [233],
      asc ''hach'' @ [233], asc ''coup'' @ [233], [233] @ asc ''minc'' @ [233],
      asc ''tranch'' @ [233]]"

definition isSectionHeader :: "jsstring \<Rightarrow> bool" where
  "isSectionHeader text =
     (let normalizedText = trim (toLowerCase text)
      in list_ex (\<lambda>header. includesStr normalizedText header \<or> includesStr header normalizedText)
           SECTION_HEADERS)"

text \<open>
  \<^verbatim>\<open>containsBlacklistedTerms\<close> builds \<^verbatim>\<open>\bterm\b\<close> with the \<^verbatim>\<open>i\<close> flag for each term; no
  term holds a character that the escaping changes.
\<close>

definition containsBlacklistedTerms :: "jsstring \<Rightarrow> bool" where
  "containsBlacklistedTerms text =
     (let normalizedText = trim (toLowerCase text)
      in list_ex (\<lambda>term. regexTest True (seqs [WordB, lits term, WordB]) normalizedText)
           BLACKLISTED_TERMS)"

definition countMeaningfulWords :: "jsstring \<Rightarrow> nat" where
  "countMeaningfulWords text =
     length (filter (\<lambda>word. length word > 0 \<and> word \<notin> set STOP_WORDS) (splitSpaces (toLowerCase text)))"

text \<open>\<^verbatim>\<open>(text.match(/c/g) || []).length\<close> for a class \<^verbatim>\<open>c\<close>: the number of its occurrences.\<close>

definition countClass :: "(jschar \<Rightarrow> bool) \<Rightarrow> jsstring \<Rightarrow> nat" where
  "countClass P text = length (filter P text)"

definition calculatePunctuationDensity :: "jsstring \<Rightarrow> jsnum" where
  "calculatePunctuationDensity text =
     jdiv (ofNat (countClass (\<lambda>c. c = 44 \<or> c = 59 \<or> c = 58) text)) (ofNat (max (length text) 1))"

definition isAllCaps :: "jsstring \<Rightarrow> bool" where
  "isAllCaps text = (text = toUpperCase text \<and> list_ex isUpperAZ text)"

definition isTitleCase :: "jsstring \<Rightarrow> bool" where
  "isTitleCase text =
     list_all (\<lambda>word. case word of
                  [] \<Rightarrow> True
                | c # cs \<Rightarrow> [c] = toUpperCase [c] \<and> cs = toLowerCase cs)
       (splitSpaces text)"

definition calculateLetterRatio :: "jsstring \<Rightarrow> jsnum" where
  "calculateLetterRatio text = jdiv (ofNat (countClass isLetterAZ text)) (ofNat (max (length text) 1))"

definition calculateUppercaseRatio :: "jsstring \<Rightarrow> jsnum" where
  "calculateUppercaseRatio text =
     (let upperCount = countClass isUpperAZ text;
          letterCount = countClass isLetterAZ text
      in if letterCount > 0 then jdiv (ofNat upperCount) (ofNat letterCount) else Fin 0)"

text \<open>\<^verbatim>\<open>words[0]\<close> and \<^verbatim>\<open>words[words.length - 1]\<close> of a \<^verbatim>\<open>split\<close>, which is never empty here.\<close>

definition startsWithArticle :: "jsstring \<Rightarrow> bool" where
  "startsWithArticle text =
     (case splitSpaces (trim (toLowerCase text)) of
        [] \<Rightarrow> False
      | firstWord # ws \<Rightarrow> firstWord \<in> set [asc ''a'', asc ''an'', asc ''the'', asc ''le'', asc ''la'', asc ''les'', asc ''un'', asc ''une'', asc ''il'', asc ''lo'', asc ''la'', asc ''el'', asc ''los'', asc ''las''])"

definition endsWithStopWord :: "jsstring \<Rightarrow> bool" where
  "endsWithStopWord text =
     (case rev (splitSpaces (trim (toLowerCase text))) of
        [] \<Rightarrow> False
      | lastWord # ws \<Rightarrow> lastWord \<in> set STOP_WORDS)"

definition calculateAverageTokenLength :: "jsstring \<Rightarrow> jsnum" where
  "calculateAverageTokenLength text =
     (let tokens = filter (\<lambda>token. length token > 0) (splitSpaces text)
      in if length tokens = 0 then Fin 0
         else jdiv (ofNat (foldl (\<lambda>total token. total + length token) 0 tokens)) (ofNat (length tokens)))"

section \<open>Header and structure detector (headers.ts)\<close>

record SectionHeader =
  hdr_text :: jsstring
  hdr_confidence :: jsnum
  lineIndex :: nat

text \<open>\<^verbatim>\<open>text.toLowerCase().trim().replace(/[^\w\s]/g, '').replace(/\s+/g, ' ')\<close>\<close>

definition normalizeText :: "jsstring \<Rightarrow> jsstring" where
  "normalizeText text =
     replaceAll False (many1 (Cls isSpace)) [32]
       (replaceAll False (Cls (\<lambda>c. \<not> isWordChar c \<and> \<not> isSpace c)) [] (trim (toLowerCase text)))"

text \<open>
  A word frequency vector is a plain object: its own keys in the order they were added,
  each with its value.  \<^verbatim>\<open>vector[word] = (vector[word] || 0) + 1\<close> counts a word, with
  two exceptions that the object's prototype brings.  For a word that names an inherited
  method, \<^verbatim>\<open>vector[word]\<close> is a function at first, the sum is a string, and the value
  stays a string that is no number (\<^verbatim>\<open>NotANumber\<close>).  For the word \<^verbatim>\<open>__proto__\<close> the
  assignment of a string is ignored and the vector does not change.  A count stays below
  \<^verbatim>\<open>2^53\<close> and is exact.  The enumeration of an object lists index-like keys first; the
  order only matters to the rounding of sums beyond \<^verbatim>\<open>2^53\<close>.
\<close>

datatype slot = Count nat | NotANumber

type_synonym word_vector = "(jsstring \<times> slot) list"

definition inheritedMethods :: "jsstring list" where
  "inheritedMethods =
     [asc ''constructor'', asc ''__defineGetter__'', asc ''__defineSetter__'', asc ''hasOwnProperty'',
      asc ''__lookupGetter__'', asc ''__lookupSetter__'', asc ''isPrototypeOf'',
      asc ''propertyIsEnumerable'', asc ''toString'', asc ''valueOf'', asc ''toLocaleString'']"

fun bump :: "word_vector \<Rightarrow> jsstring \<Rightarrow> word_vector" where
  "bump [] word = (if word \<in> set inheritedMethods then [(word, NotANumber)] else [(word, Count 1)])"
| "bump ((k, v) # vector) word =
     (if k = word then (k, (case v of Count n \<Rightarrow> Count (n + 1) | NotANumber \<Rightarrow> NotANumber)) # vector
      else (k, v) # bump vector word)"

definition addWord :: "word_vector \<Rightarrow> jsstring \<Rightarrow> word_vector" where
  "addWord vector word = (if word = asc ''__proto__'' then vector else bump vector word)"

definition createWordVector :: "jsstring list \<Rightarrow> word_vector" where
  "createWordVector words = foldl addWord [] words"

text \<open>A value of a vector as a factor of a product.\<close>

fun slotNumber :: "slot \<Rightarrow> jsnum" where
  "slotNumber (Count n) = ofNat n"
| "slotNumber NotANumber = NaN"

text \<open>
  \<^verbatim>\<open>vector[key] || 0\<close> as a factor of a product: the value of an own key; for a key the
  vector does not own, what the prototype has under that name, which is no number, or 0.
\<close>

definition component :: "word_vector \<Rightarrow> jsstring \<Rightarrow> jsnum" where
  "component vector key =
     (case map_of vector key of
        Some v \<Rightarrow> slotNumber v
      | None \<Rightarrow> if key \<in> set inheritedMethods \<or> key = asc ''__proto__'' then NaN else Fin 0)"

text \<open>\<^verbatim>\<open>new Set([...keys1, ...keys2])\<close>: every key once, in the order of its first occurrence.\<close>

definition keySet :: "jsstring list \<Rightarrow> jsstring list" where
  "keySet ks = foldl (\<lambda>seen k. if k \<in> set seen then seen else seen @ [k]) [] ks"

definition calculateDotProduct :: "word_vector \<Rightarrow> word_vector \<Rightarrow> jsnum" where
  "calculateDotProduct vector1 vector2 =
     foldl (\<lambda>dotProduct key. jadd dotProduct (jmul (component vector1 key) (component vector2 key)))
       (Fin 0) (keySet (map fst vector1 @ map fst vector2))"

definition calculateMagnitude :: "word_vector \<Rightarrow> jsnum" where
  "calculateMagnitude vector =
     jsqrt (foldl (\<lambda>total v. jadd total (jmul (slotNumber v) (slotNumber v))) (Fin 0) (map snd vector))"

definition calculateSimilarity :: "jsstring \<Rightarrow> jsstring \<Rightarrow> jsnum" where
  "calculateSimilarity str1 str2 =
     (let words1 = filter (\<lambda>w. length w > 0) (splitSpaces str1);
          words2 = filter (\<lambda>w. length w > 0) (splitSpaces str2)
      in if length words1 = 0 \<or> length words2 = 0 then Fin 0
         else if jeq (calculateMagnitude (createWordVector words1)) (Fin 0)
                 \<or> jeq (calculateMagnitude (createWordVector words2)) (Fin 0) then Fin 0
         else jdiv (calculateDotProduct (createWordVector words1) (createWordVector words2))
                (jmul (calculateMagnitude (createWordVector words1)) (calculateMagnitude (createWordVector words2))))"

text \<open>\<^verbatim>\<open>/C\s?\d|^\d+[.,]\d{2}$/\<close>, the price test of the header detector.\<close>

definition headerPrice :: re where
  "headerPrice =
     Alt (seqs [Cls isCurrency, optional (Cls isSpace), Cls isDigit])
         (seqs [Bol, many1 (Cls isDigit), Cls isDotComma, between 2 2 (Cls isDigit), Eol])"

definition foodWords :: "jsstring list" where
  "foodWords =
     [asc ''chicken'', asc ''beef'', asc ''pork'', asc ''fish'', asc ''salmon'', asc ''pasta'',
      asc ''pizza'', asc ''soup'', asc ''salad'', asc ''bread'', asc ''rice'', asc ''noodles'']"

text \<open>
  \<^verbatim>\<open>let penalty = 0\<close> and the three \<^verbatim>\<open>if (c) penalty += d\<close>, as the list of the
  amounts added.
\<close>

definition penalties :: "bool \<Rightarrow> bool \<Rightarrow> bool \<Rightarrow> jsnum list" where
  "penalties hasPrice isShort containsFoodWords =
     (if hasPrice then [fl (1 / 2)] else []) @ (if \<not> isShort then [fl (3 / 10)] else [])
     @ (if containsFoodWords then [fl (2 / 5)] else [])"

definition calculateHeaderConfidence :: "jsstring \<Rightarrow> jsnum" where
  "calculateHeaderConfidence line =
     jmax (Fin 0)
       (jsub (foldl (\<lambda>maxSimilarity header. jmax maxSimilarity (calculateSimilarity (normalizeText line) header))
                (Fin 0) SECTION_HEADERS)
             (addAll (Fin 0)
                (penalties (regexTest False headerPrice line)
                   (length (filter (\<lambda>w. length w > 0) (splitSpaces (normalizeText line))) \<le> 4)
                   (list_ex (\<lambda>word. includesStr (normalizeText line) word) foodWords))))"

text \<open>The loop of \<^verbatim>\<open>detectSectionHeaders\<close> from index \<^verbatim>\<open>i\<close> on.\<close>

fun detectFrom :: "nat \<Rightarrow> jsstring list \<Rightarrow> SectionHeader list" where
  "detectFrom i [] = []"
| "detectFrom i (l # ls) =
     (if trim l = [] then detectFrom (Suc i) ls
      else if jgt (calculateHeaderConfidence (trim l)) (fl (1 / 2))
        then \<lparr>hdr_text = trim l, hdr_confidence = calculateHeaderConfidence (trim l), lineIndex = i\<rparr>
             # detectFrom (Suc i) ls
      else detectFrom (Suc i) ls)"

definition detectSectionHeaders :: "jsstring list \<Rightarrow> SectionHeader list" where
  "detectSectionHeaders lines = detectFrom 0 lines"

text \<open>
  \<^verbatim>\<open>findNearestHeaderAbove\<close>: \<^verbatim>\<open>minDistance\<close> starts at \<^verbatim>\<open>Infinity\<close>, here \<^verbatim>\<open>None\<close>.
\<close>

definition findNearestHeaderAbove :: "nat \<Rightarrow> SectionHeader list \<Rightarrow> nat \<Rightarrow> SectionHeader option" where
  "findNearestHeaderAbove i headers maxDistance =
     fst (foldl (\<lambda>(nearestHeader, minDistance) header.
                   if lineIndex header < i
                      \<and> i - lineIndex header \<le> maxDistance
                      \<and> (case minDistance of None \<Rightarrow> True | Some d \<Rightarrow> i - lineIndex header < d)
                   then (Some header, Some (i - lineIndex header))
                   else (nearestHeader, minDistance))
                (None, None) headers)"

definition entreeKeywords :: "jsstring list" where
  "entreeKeywords =
     [asc ''entree'', asc ''entr'' @ [233] @ asc ''es'', asc ''mains'', asc ''main courses'',
      asc ''secondi'', asc ''piatti principali'', asc ''plats principaux'',
      asc ''platos principales'']"

definition isUnderEntreeHeader :: "nat \<Rightarrow> SectionHeader list \<Rightarrow> bool" where
  "isUnderEntreeHeader i headers =
     (case findNearestHeaderAbove i headers 10 of
        None \<Rightarrow> False
      | Some nearestHeader \<Rightarrow>
          list_ex (\<lambda>keyword. includesStr (toLowerCase (hdr_text nearestHeader)) keyword) entreeKeywords)"

text \<open>\<^verbatim>\<open>getHeaderContext\<close> of \<^verbatim>\<open>extractCandidates.ts\<close>: the first header of the list that qualifies.\<close>

fun getHeaderContext :: "nat \<Rightarrow> SectionHeader list \<Rightarrow> jsstring option" where
  "getHeaderContext i [] = None"
| "getHeaderContext i (header # headers) =
     (if lineIndex header < i \<and> i - lineIndex header \<le> 10 then Some (hdr_text header)
      else getHeaderContext i headers)"

subsection \<open>The header score in the words of the specification\<close>

text \<open>
  The words of a text are its non-empty whitespace-separated pieces.  The cosine
  similarity of two word lists is that of their term-frequency vectors: the sum, over
  the words of either list, of the products of the two counts, divided by the product
  of the two Euclidean norms; the square roots, their product and the quotient are
  rounded to doubles; a list without words has similarity 0 to every list.  The maximum
  similarity is the largest of the similarities to the
  entries of the header vocabulary, taken in the vocabulary's order, and at least 0.
\<close>

definition wordsOf :: "jsstring \<Rightarrow> jsstring list" where
  "wordsOf s = filter (\<lambda>w. length w > 0) (splitSpaces s)"

definition cosineSimilarity :: "jsstring list \<Rightarrow> jsstring list \<Rightarrow> jsnum" where
  "cosineSimilarity ws1 ws2 =
     (if ws1 = [] \<or> ws2 = [] then Fin 0
      else jdiv (ofNat (\<Sum>w \<in> set ws1 \<union> set ws2. count_list ws1 w * count_list ws2 w))
             (jmul (jsqrt (ofNat (\<Sum>w \<in> set ws1. count_list ws1 w * count_list ws1 w)))
                   (jsqrt (ofNat (\<Sum>w \<in> set ws2. count_list ws2 w * count_list ws2 w)))))"

definition largest :: "jsnum list \<Rightarrow> jsnum" where
  "largest xs = foldl jmax (Fin 0) xs"

definition maxHeaderSimilarity :: "jsstring \<Rightarrow> jsnum" where
  "maxHeaderSimilarity line =
     largest (map (\<lambda>header. cosineSimilarity (wordsOf (normalizeText line)) (wordsOf header)) SECTION_HEADERS)"

text \<open>
  The score as the detector computes it: the penalty for length counts all the words
  of the normalised line, and the price penalty uses the detector's own pattern.  The
  penalties that apply are added up, in the order price, length, food, and the sum is
  subtracted from the maximum similarity; a negative score becomes 0.
\<close>

definition headerScore :: "jsstring \<Rightarrow> jsnum" where
  "headerScore line =
     jmax (Fin 0)
       (jsub (maxHeaderSimilarity line)
          (addAll (Fin 0)
             ((if regexTest False headerPrice line then [fl (1 / 2)] else [])
              @ (if length (wordsOf (normalizeText line)) > 4 then [fl (3 / 10)] else [])
              @ (if list_ex (\<lambda>word. includesStr (normalizeText line) word) foodWords then [fl (2 / 5)] else []))))"

text \<open>
  The score as the claim words it: the penalty for length counts the meaningful words
  of the line, those that are no stop words (\<^verbatim>\<open>countMeaningfulWords\<close>).
\<close>

definition claimedHeaderScore :: "jsstring \<Rightarrow> jsnum" where
  "claimedHeaderScore line =
     jmax (Fin 0)
       (jsub (maxHeaderSimilarity line)
          (addAll (Fin 0)
             ((if regexTest False headerPrice line then [fl (1 / 2)] else [])
              @ (if countMeaningfulWords line > 4 then [fl (3 / 10)] else [])
              @ (if list_ex (\<lambda>word. includesStr (normalizeText line) word) foodWords then [fl (2 / 5)] else []))))"

definition headerAt :: "nat \<times> jsstring \<Rightarrow> SectionHeader" where
  "headerAt il = \<lparr>hdr_text = trim (snd il), hdr_confidence = headerScore (trim (snd il)), lineIndex = fst il\<rparr>"

definition qualifies :: "nat \<Rightarrow> SectionHeader \<Rightarrow> bool" where
  "qualifies i header = (lineIndex header < i \<and> i - lineIndex header \<le> 10)"

text \<open>
  The word lists for which the detector's arithmetic is that of the formula: no word
  names a property that objects inherit, and there are fewer than \<^verbatim>\<open>2^26\<close> words, so
  that every sum of counts is below \<^verbatim>\<open>2^53\<close>.  A line is ordinary when the words of
  its normalised text are.
\<close>

definition plainWords :: "jsstring list \<Rightarrow> bool" where
  "plainWords ws =
     (length ws < 2 ^ 26 \<and> list_all (\<lambda>w. w \<notin> set inheritedMethods \<and> w \<noteq> asc ''__proto__'') ws)"

definition ordinaryWords :: "jsstring \<Rightarrow> bool" where
  "ordinaryWords line = plainWords (wordsOf (normalizeText line))"

section \<open>Data model (extractCandidates.ts, entreeLookup.ts)\<close>

datatype match_type = Exact | Partial | Fuzzy

record EntreeMatch =
  em_id :: jsstring
  em_name :: jsstring
  normalized_name :: jsstring
  category :: "jsstring option"
  popularity_score :: "jsnum option"
  confidence_boost :: jsnum
  match_type :: match_type

record CandidateFeatures =
  tokenCount :: jsnum
  hasDigits :: jsnum
  hasCurrency :: jsnum
  isAllCapsF :: jsnum
  isTitleCaseF :: jsnum
  priceSameLine :: jsnum
  priceNextLines1to3 :: jsnum
  underEntreeHeader :: jsnum
  punctDensity :: jsnum
  nextLineDescription :: jsnum
  prevLineHeader :: jsnum
  uppercaseRatio :: jsnum
  lettersRatio :: jsnum
  avgTokenLen :: jsnum
  startsWithArticleF :: jsnum
  endsWithStop :: jsnum
  fontSizeRatio :: jsnum
  confidenceF :: jsnum

text \<open>
  What an asynchronous function does for its caller: it returns a value, or it raises
  (the promise is rejected).
\<close>

datatype 'a outcome = Raised | Returned 'a

section \<open>Entree lookup (entreeLookup.ts)\<close>

text \<open>
  \<^verbatim>\<open>levenshteinDistance\<close> fills a matrix with one row for each character of
  \<^verbatim>\<open>str2\<close> and one column for each character of \<^verbatim>\<open>str1\<close>.  \<^verbatim>\<open>levCell\<close> is the value
  of a cell from its neighbours; \<^verbatim>\<open>levRow\<close> computes the cells of a row to the right of
  a cell with value \<^verbatim>\<open>left\<close>, from the row above.
\<close>

definition levCell :: "jschar \<Rightarrow> jschar \<Rightarrow> nat \<Rightarrow> nat \<Rightarrow> nat \<Rightarrow> nat" where
  "levCell c a diag left up = (if c = a then diag else min (diag + 1) (min (left + 1) (up + 1)))"

fun levRow :: "jschar \<Rightarrow> jsstring \<Rightarrow> nat list \<Rightarrow> nat \<Rightarrow> nat list" where
  "levRow c (a # rest1) (d # u # prevRow) left =
     levCell c a d left u # levRow c rest1 (u # prevRow) (levCell c a d left u)"
| "levRow c rest1 prevRow left = []"

definition levenshteinDistance :: "jsstring \<Rightarrow> jsstring \<Rightarrow> nat" where
  "levenshteinDistance str1 str2 =
     last (snd (foldl (\<lambda>(i, prevRow) c. (i + 1, (i + 1) # levRow c str1 prevRow (i + 1)))
                      (0, [0 ..< length str1 + 1]) str2))"

text \<open>
  \<^verbatim>\<open>(longer.length - distance) / longer.length\<close>: the difference of two lengths is exact,
  the quotient is rounded.
\<close>

definition calculatePartialMatchScore :: "jsstring \<Rightarrow> jsstring \<Rightarrow> jsnum" where
  "calculatePartialMatchScore text1 text2 =
     (let longer = (if length text1 > length text2 then text1 else text2);
          shorter = (if length text1 > length text2 then text2 else text1)
      in if length longer = 0 then Fin 1
         else jdiv (Fin (real (length longer) - real (levenshteinDistance longer shorter)))
                (ofNat (length longer)))"

definition calculateWordSimilarity :: "jsstring \<Rightarrow> jsstring \<Rightarrow> jsnum" where
  "calculateWordSimilarity word1 word2 =
     (let distance = levenshteinDistance word1 word2;
          maxLength = max (length word1) (length word2)
      in if maxLength = 0 then Fin 1 else jdiv (Fin (real maxLength - real distance)) (ofNat maxLength))"

text \<open>The two loops of \<^verbatim>\<open>calculateFuzzyMatchScore\<close>, with their accumulators.\<close>

definition bestWordMatch :: "jsstring \<Rightarrow> jsstring list \<Rightarrow> jsnum" where
  "bestWordMatch word1 words2 =
     foldl (\<lambda>bestMatch word2. jmax bestMatch (calculateWordSimilarity word1 word2)) (Fin 0) words2"

definition calculateFuzzyMatchScore :: "jsstring \<Rightarrow> jsstring \<Rightarrow> jsnum" where
  "calculateFuzzyMatchScore text1 text2 =
     (if text1 = [] \<or> text2 = [] then Fin 0
      else
        let words1 = filter (\<lambda>w. length w > 2) (splitSpaces text1);
            words2 = filter (\<lambda>w. length w > 2) (splitSpaces text2)
        in if words1 = [] \<or> words2 = [] then Fin 0
           else
             let totals =
                   foldl (\<lambda>(totalScore, matchCount) word1.
                            (jadd totalScore (bestWordMatch word1 words2),
                             if jgt (bestWordMatch word1 words2) (fl (7 / 10)) then matchCount + 1 else matchCount))
                         (Fin 0, 0 :: nat) words1
             in jadd (jmul (jdiv (fst totals) (ofNat (length words1))) (fl (7 / 10)))
                     (jmul (jdiv (ofNat (snd totals)) (ofNat (length words1))) (fl (3 / 10))))"

text \<open>
  The dictionary store is an external collaborator.  A query either rejects (the
  \<^verbatim>\<open>await\<close> throws the value of the rejection), or answers with an error, or answers
  with data, which may be null.  The \<^verbatim>\<open>catch\<close> of \<^verbatim>\<open>findEntreeMatch\<close> reads
  \<^verbatim>\<open>error.message\<close>, which throws when the value caught is null or undefined
  (\<^verbatim>\<open>Nullish\<close>) and does not for any other value (\<^verbatim>\<open>Value\<close>).  The four queries of
  \<^verbatim>\<open>findEntreeMatch\<close>: the connection test, the exact match on the normalised text
  (\<^verbatim>\<open>.single()\<close>), the partial match on it, and the unfiltered read of the fuzzy policy.
\<close>

datatype thrown = Nullish | Value

datatype 'a reply = Thrown thrown | Error | Data "'a option"

record entree_row =
  row_id :: jsstring
  entree_name :: jsstring
  row_category :: "jsstring option"
  row_popularity :: "jsnum option"

record entree_store =
  connectionTest :: "unit reply"
  exactQuery :: "jsstring \<Rightarrow> entree_row reply"
  partialQuery :: "jsstring \<Rightarrow> entree_row list reply"
  fuzzyQuery :: "entree_row list reply"

text \<open>
  \<^verbatim>\<open>createServiceClient()\<close> may throw; the regular client is then imported, which may
  fail as well, with an error object (\<^verbatim>\<open>None\<close>).
\<close>

record lookup_env =
  serviceClient :: "entree_store option"
  regularClient :: "entree_store option"

definition clientOf :: "lookup_env \<Rightarrow> entree_store option" where
  "clientOf env = (case serviceClient env of Some db \<Rightarrow> Some db | None \<Rightarrow> regularClient env)"

text \<open>\<^verbatim>\<open>text.toLowerCase().replace(/[^\w\s]/g, '').trim()\<close>\<close>

definition normalizeQuery :: "jsstring \<Rightarrow> jsstring" where
  "normalizeQuery text =
     trim (replaceAll False (Cls (\<lambda>c. \<not> isWordChar c \<and> \<not> isSpace c)) [] (toLowerCase text))"

definition toMatch :: "entree_row \<Rightarrow> jsnum \<Rightarrow> match_type \<Rightarrow> EntreeMatch" where
  "toMatch row boost ty =
     \<lparr>em_id = row_id row, em_name = entree_name row, normalized_name = entree_name row,
      category = row_category row, popularity_score = row_popularity row,
      confidence_boost = boost, match_type = ty\<rparr>"

text \<open>\<^verbatim>\<open>rows.reduce((best, current) => score(current) > score(best) ? current : best)\<close>\<close>

definition bestBy :: "(entree_row \<Rightarrow> jsnum) \<Rightarrow> entree_row \<Rightarrow> entree_row list \<Rightarrow> entree_row" where
  "bestBy score first others =
     foldl (\<lambda>best current. if jgt (score current) (score best) then current else best) first others"

text \<open>What the \<^verbatim>\<open>catch\<close> block does with the value it caught.\<close>

fun caught :: "thrown \<Rightarrow> EntreeMatch option outcome" where
  "caught Nullish = Raised"
| "caught Value = Returned None"

definition fuzzyPolicy :: "entree_store \<Rightarrow> jsstring \<Rightarrow> EntreeMatch option outcome" where
  "fuzzyPolicy db normalized =
     (let words = filter (\<lambda>w. length w > 2) (splitSpaces normalized)
      in if length words > 0 then
           (case fuzzyQuery db of
              Thrown e \<Rightarrow> caught e
            | Error \<Rightarrow> Returned None
            | Data None \<Rightarrow> Returned None
            | Data (Some []) \<Rightarrow> Returned None
            | Data (Some (first # others)) \<Rightarrow>
                (let bestFuzzyMatch = bestBy (\<lambda>row. calculateFuzzyMatchScore normalized (entree_name row)) first others;
                     fuzzyScore = calculateFuzzyMatchScore normalized (entree_name bestFuzzyMatch)
                 in if jgt fuzzyScore (fl (3 / 5)) then Returned (Some (toMatch bestFuzzyMatch (fl (7 / 10)) Fuzzy))
                    else Returned None))
         else Returned None)"

definition partialPolicy :: "entree_store \<Rightarrow> jsstring \<Rightarrow> EntreeMatch option outcome" where
  "partialPolicy db normalized =
     (case partialQuery db normalized of
        Thrown e \<Rightarrow> caught e
      | Error \<Rightarrow> fuzzyPolicy db normalized
      | Data None \<Rightarrow> fuzzyPolicy db normalized
      | Data (Some []) \<Rightarrow> fuzzyPolicy db normalized
      | Data (Some (first # others)) \<Rightarrow>
          (let bestMatch = bestBy (\<lambda>row. calculatePartialMatchScore normalized (entree_name row)) first others;
               matchScore = calculatePartialMatchScore normalized (entree_name bestMatch)
           in if jgt matchScore (fl (7 / 10)) then Returned (Some (toMatch bestMatch (fl (4 / 5)) Partial))
              else fuzzyPolicy db normalized))"

text \<open>
  \<^verbatim>\<open>findEntreeMatch\<close>: the whole body is inside \<^verbatim>\<open>try\<close>; the \<^verbatim>\<open>catch\<close> logs the value
  it caught and its \<^verbatim>\<open>message\<close>, and returns null.
\<close>

definition findEntreeMatch :: "lookup_env \<Rightarrow> jsstring \<Rightarrow> EntreeMatch option outcome" where
  "findEntreeMatch env text =
     (case clientOf env of
        None \<Rightarrow> Returned None
      | Some db \<Rightarrow>
          (case connectionTest db of
             Thrown e \<Rightarrow> caught e
           | Error \<Rightarrow> Returned None
           | Data t \<Rightarrow>
               (case exactQuery db (normalizeQuery text) of
                  Thrown e \<Rightarrow> caught e
                | Error \<Rightarrow> partialPolicy db (normalizeQuery text)
                | Data None \<Rightarrow> partialPolicy db (normalizeQuery text)
                | Data (Some exactMatch) \<Rightarrow> Returned (Some (toMatch exactMatch (fl (19 / 20)) Exact)))))"



section \<open>Confidence scorer (extractCandidates.ts)\<close>

text \<open>
  The trained weights are a \<^verbatim>\<open>Record<string, number>\<close>; \<^verbatim>\<open>Object.entries\<close>
  enumerates it as a list of key/weight pairs.  The module-level cache holds the last
  loaded mapping and the time it was loaded.
\<close>

type_synonym weights = "(jsstring \<times> jsnum) list"

record weight_cache =
  trainedWeightsCache :: "weights option"
  weightsCacheTimestamp :: int

definition CACHE_DURATION :: int where
  "CACHE_DURATION = 5 * 60 * 1000"

text \<open>
  \<^verbatim>\<open>getTrainedModelWeights\<close>: a cache that is still valid is returned; otherwise a
  refresh is started in the background and the function returns whatever the cache
  holds at that moment, without waiting.
\<close>

definition getTrainedModelWeights :: "weight_cache \<Rightarrow> int \<Rightarrow> weights option" where
  "getTrainedModelWeights c now =
     (if trainedWeightsCache c \<noteq> None \<and> now - weightsCacheTimestamp c < CACHE_DURATION
      then trainedWeightsCache c
      else trainedWeightsCache c)"

text \<open>
  \<^verbatim>\<open>features[key] || 0\<close> as a factor of a product: the value of the feature a key
  names, or 0 when that value is zero or not-a-number; for a key that names an inherited
  property of the object, a function or an object, which is no number; and 0 for any
  other key.
\<close>

definition orZero :: "jsnum \<Rightarrow> jsnum" where
  "orZero a = (if truthy a then a else Fin 0)"

definition featureValue :: "CandidateFeatures \<Rightarrow> jsstring \<Rightarrow> jsnum" where
  "featureValue f k =
     (if k = asc ''tokenCount'' then orZero (tokenCount f)
      else if k = asc ''hasDigits'' then orZero (hasDigits f)
      else if k = asc ''hasCurrency'' then orZero (hasCurrency f)
      else if k = asc ''isAllCaps'' then orZero (isAllCapsF f)
      else if k = asc ''isTitleCase'' then orZero (isTitleCaseF f)
      else if k = asc ''priceSameLine'' then orZero (priceSameLine f)
      else if k = asc ''priceNextLines1to3'' then orZero (priceNextLines1to3 f)
      else if k = asc ''underEntreeHeader'' then orZero (underEntreeHeader f)
      else if k = asc ''punctDensity'' then orZero (punctDensity f)
      else if k = asc ''nextLineDescription'' then orZero (nextLineDescription f)
      else if k = asc ''prevLineHeader'' then orZero (prevLineHeader f)
      else if k = asc ''uppercaseRatio'' then orZero (uppercaseRatio f)
      else if k = asc ''lettersRatio'' then orZero (lettersRatio f)
      else if k = asc ''avgTokenLen'' then orZero (avgTokenLen f)
      else if k = asc ''startsWithArticle'' then orZero (startsWithArticleF f)
      else if k = asc ''endsWithStop'' then orZero (endsWithStop f)
      else if k = asc ''fontSizeRatio'' then orZero (fontSizeRatio f)
      else if k = asc ''confidence'' then orZero (confidenceF f)
      else if k \<in> set inheritedMethods \<or> k = asc ''__proto__'' then NaN
      else Fin 0)"

text \<open>\<^verbatim>\<open>let score = 0.1\<close> and \<^verbatim>\<open>if (databaseMatch) score += databaseMatch.confidence_boost\<close>\<close>

definition baseScore :: "EntreeMatch option \<Rightarrow> jsnum" where
  "baseScore m = (case m of None \<Rightarrow> fl (1 / 10) | Some d \<Rightarrow> jadd (fl (1 / 10)) (confidence_boost d))"

definition sigmoid :: "jsnum \<Rightarrow> jsnum" where
  "sigmoid x = jdiv (Fin 1) (jadd (Fin 1) (jexp (jneg x)))"

definition calculateTrainedConfidenceScore ::
  "CandidateFeatures \<Rightarrow> weights \<Rightarrow> EntreeMatch option \<Rightarrow> jsnum" where
  "calculateTrainedConfidenceScore f w m =
     jmax (Fin 0)
       (jmin (Fin 1)
          (sigmoid (foldl (\<lambda>score (key, weight). jadd score (jmul (featureValue f key) weight)) (baseScore m) w)))"

text \<open>
  The heuristic mode of \<^verbatim>\<open>calculateConfidenceScore\<close>: the amounts that the statements
  \<^verbatim>\<open>score += d\<close> and \<^verbatim>\<open>score -= d\<close> of the source add, in the source's order.
  Subtracting \<^verbatim>\<open>d\<close> is adding its negative.
\<close>

definition heuristicAmounts :: "CandidateFeatures \<Rightarrow> jsnum list" where
  "heuristicAmounts f =
     (if jge (tokenCount f) (Fin 2) \<and> jle (tokenCount f) (Fin 6) then [fl (3 / 10)]
      else if jeq (tokenCount f) (Fin 1) \<or> jgt (tokenCount f) (Fin 8) then [jneg (fl (1 / 5))] else [])
     @ (if truthy (priceSameLine f) then [fl (1 / 5)] else [])
     @ (if truthy (priceNextLines1to3 f) then [fl (3 / 20)] else [])
     @ (if truthy (underEntreeHeader f) then [fl (1 / 4)] else [])
     @ (if truthy (isTitleCaseF f) then [fl (1 / 5)] else [])
     @ (if truthy (isAllCapsF f) then [fl (7 / 20)] else [])
     @ (if jgt (fontSizeRatio f) (fl (3 / 2)) then [fl (7 / 20)]
        else if jgt (fontSizeRatio f) (fl (13 / 10)) then [fl (3 / 10)]
        else if jgt (fontSizeRatio f) (fl (11 / 10)) then [fl (1 / 5)]
        else if jgt (fontSizeRatio f) (Fin 1) then [fl (3 / 20)]
        else if jlt (fontSizeRatio f) (fl (4 / 5)) then [jneg (fl (3 / 20))] else [])
     @ (if truthy (hasDigits f) then [jneg (fl (3 / 10))] else [])
     @ (if truthy (hasCurrency f) then [jneg (fl (1 / 5))] else [])
     @ (if jgt (punctDensity f) (fl (1 / 10)) then [jneg (fl (3 / 20))] else [])
     @ (if truthy (nextLineDescription f) then [fl (1 / 10)] else [])
     @ (if jlt (lettersRatio f) (fl (7 / 10)) then [jneg (fl (1 / 5))] else [])"

definition heuristicScore :: "CandidateFeatures \<Rightarrow> jsnum \<Rightarrow> jsnum" where
  "heuristicScore f score0 = jmax (Fin 0) (jmin (Fin 1) (addAll score0 (heuristicAmounts f)))"

definition calculateConfidenceScore ::
  "weight_cache \<Rightarrow> int \<Rightarrow> CandidateFeatures \<Rightarrow> EntreeMatch option \<Rightarrow> jsnum" where
  "calculateConfidenceScore cache now f m =
     (case getTrainedModelWeights cache now of
        Some w \<Rightarrow> calculateTrainedConfidenceScore f w m
      | None \<Rightarrow> heuristicScore f (baseScore m))"

text \<open>
  A feature vector and a weight mapping for the examples: three tokens of average
  length five, and the largest double as the weight of the first and its negative as
  the weight of the second.
\<close>

definition zeroFeatures :: CandidateFeatures where
  "zeroFeatures =
     \<lparr>tokenCount = Fin 0, hasDigits = Fin 0, hasCurrency = Fin 0, isAllCapsF = Fin 0, isTitleCaseF = Fin 0,
      priceSameLine = Fin 0, priceNextLines1to3 = Fin 0, underEntreeHeader = Fin 0, punctDensity = Fin 0,
      nextLineDescription = Fin 0, prevLineHeader = Fin 0, uppercaseRatio = Fin 0, lettersRatio = Fin 0,
      avgTokenLen = Fin 0, startsWithArticleF = Fin 0, endsWithStop = Fin 0, fontSizeRatio = Fin 0,
      confidenceF = Fin 0\<rparr>"

definition exampleFeatures :: CandidateFeatures where
  "exampleFeatures = zeroFeatures\<lparr>tokenCount := Fin 3, avgTokenLen := Fin 5, lettersRatio := Fin 1, fontSizeRatio := Fin 1\<rparr>"

definition MAX_VALUE :: real where
  "MAX_VALUE = (2 ^ 53 - 1) * 2 ^ 971"

definition extremeWeights :: weights where
  "extremeWeights = [(asc ''tokenCount'', Fin MAX_VALUE), (asc ''avgTokenLen'', Fin (- MAX_VALUE))]"

section \<open>Candidate extractor (extractCandidates.ts)\<close>

record OcrBoundingBox =
  box_x :: jsnum
  box_y :: jsnum
  box_w :: jsnum
  box_h :: jsnum

record OcrWord =
  word_text :: jsstring
  word_bbox :: OcrBoundingBox
  word_confidence :: jsnum

record OcrLine =
  line_text :: jsstring
  line_bbox :: OcrBoundingBox
  line_words :: "OcrWord list"
  line_confidence :: jsnum

record Candidate =
  cand_id :: jsstring
  cand_page :: nat
  cand_text :: jsstring
  cand_bbox :: "OcrBoundingBox option"
  cand_headerContext :: "jsstring option"
  cand_priceContext :: "jsstring list"
  cand_features :: CandidateFeatures
  cand_confidence :: jsnum
  cand_databaseMatch :: "EntreeMatch option"

text \<open>
  The functions below that test a text with \<^verbatim>\<open>containsAnyPrice\<close> take the \<^verbatim>\<open>lastIndex\<close>
  values of the price patterns and return the new ones with their result.  A function
  that receives a line object and looks it up with \<^verbatim>\<open>allLines.indexOf(line)\<close> takes the
  index instead: the lines of a page are distinct objects.  Calls of \<^verbatim>\<open>console.log\<close> are
  left out; a call that computes its argument with one of these functions is kept as
  what it does to the pattern state.
\<close>

definition calculateFontSizeRatio :: "OcrLine \<Rightarrow> OcrLine list \<Rightarrow> jsnum" where
  "calculateFontSizeRatio line allLines =
     (if \<not> truthy (box_h (line_bbox line)) then Fin 1
      else
        let heights = map (\<lambda>l. box_h (line_bbox l))
                        (filter (\<lambda>l. truthy (box_h (line_bbox l)) \<and> jgt (box_h (line_bbox l)) (Fin 0)) allLines)
        in if length heights = 0 then Fin 1
           else jdiv (box_h (line_bbox line)) (jdiv (foldl jadd (Fin 0) heights) (ofNat (length heights))))"

definition isBoldText :: "OcrLine \<Rightarrow> OcrLine list \<Rightarrow> bool" where
  "isBoldText line allLines =
     (if \<not> truthy (line_confidence line) then False
      else
        let confidences = map line_confidence allLines
        in if length confidences = 0 then False
           else jlt (line_confidence line)
                  (jmul (jdiv (foldl jadd (Fin 0) confidences) (ofNat (length confidences))) (fl (4 / 5)))
                \<or> jgt (calculateFontSizeRatio line allLines) (fl (11 / 10)))"

text \<open>\<^verbatim>\<open>[\s\-'&]\<close>, and the upper-case letters A to Z and U+00C0 to U+00DE without U+00D7.\<close>

definition isJoiner :: "jschar \<Rightarrow> bool" where
  "isJoiner c = (isSpace c \<or> c = 45 \<or> c = 39 \<or> c = 38)"

definition isCapsLetter :: "jschar \<Rightarrow> bool" where
  "isCapsLetter c = (isUpperAZ c \<or> isUpperLatin1 c)"

definition isAllCapsText :: "jsstring \<Rightarrow> bool" where
  "isAllCapsText text =
     (let cleanText = replaceAll False (Cls isJoiner) [] text
      in length cleanText > 0 \<and> cleanText = toUpperCase cleanText \<and> regexTest False (Cls isCapsLetter) cleanText)"

text \<open>
  The gap above a line: \<^verbatim>\<open>current.bbox.y - (previous.bbox.y + previous.bbox.h)\<close>.  The
  loop of \<^verbatim>\<open>calculateSpacingScore\<close> adds up the positive gaps and counts them.
\<close>

definition gapAbove :: "OcrLine \<Rightarrow> OcrLine \<Rightarrow> jsnum" where
  "gapAbove previous current =
     jsub (box_y (line_bbox current)) (jadd (box_y (line_bbox previous)) (box_h (line_bbox previous)))"

definition spacingTotals :: "OcrLine list \<Rightarrow> jsnum \<times> nat" where
  "spacingTotals allLines =
     foldl (\<lambda>(totalSpacing, spacingCount) (previous, current).
              if truthy (box_y (line_bbox current)) \<and> truthy (box_y (line_bbox previous))
                 \<and> truthy (box_h (line_bbox previous)) \<and> jgt (gapAbove previous current) (Fin 0)
              then (jadd totalSpacing (gapAbove previous current), spacingCount + 1)
              else (totalSpacing, spacingCount))
           (Fin 0, 0) (zip allLines (tl allLines))"

definition spacingBonus :: "jsnum \<Rightarrow> jsnum" where
  "spacingBonus spacingRatio =
     (if jgt spacingRatio (Fin 2) then fl (1 / 5)
      else if jgt spacingRatio (fl (3 / 2)) then fl (3 / 20)
      else if jgt spacingRatio (fl (6 / 5)) then fl (1 / 10)
      else Fin 0)"

definition calculateSpacingScore :: "nat \<Rightarrow> OcrLine list \<Rightarrow> jsnum" where
  "calculateSpacingScore i allLines =
     (if \<not> truthy (box_y (line_bbox (allLines ! i))) then Fin 0
      else if i = 0 then Fin 0
      else if \<not> truthy (box_y (line_bbox (allLines ! (i - 1))))
              \<or> \<not> truthy (box_h (line_bbox (allLines ! (i - 1)))) then Fin 0
      else if snd (spacingTotals allLines) = 0 then Fin 0
      else spacingBonus
             (jdiv (gapAbove (allLines ! (i - 1)) (allLines ! i))
                (jdiv (fst (spacingTotals allLines)) (ofNat (snd (spacingTotals allLines))))))"

text \<open>
  \<^verbatim>\<open>nearbyLines.some(l => l !== line && containsAnyPrice(l.text))\<close> over the lines with
  their indices.
\<close>

fun someNearbyPrice :: "lastIndexes \<Rightarrow> nat \<Rightarrow> (nat \<times> OcrLine) list \<Rightarrow> bool \<times> lastIndexes" where
  "someNearbyPrice st i [] = (False, st)"
| "someNearbyPrice st i ((j, l) # ls) =
     (if j = i then someNearbyPrice st i ls
      else (case containsAnyPrice st (line_text l) of
              (True, st') \<Rightarrow> (True, st')
            | (False, st') \<Rightarrow> someNearbyPrice st' i ls))"

definition fontSizeBonus :: "jsnum \<Rightarrow> jsnum list" where
  "fontSizeBonus ratio =
     (if jgt ratio (fl (3 / 2)) then [fl (2 / 5)]
      else if jgt ratio (fl (13 / 10)) then [fl (7 / 20)]
      else if jgt ratio (fl (11 / 10)) then [fl (1 / 4)]
      else if jgt ratio (Fin 1) then [fl (3 / 20)]
      else [])"

definition calculateVisualHierarchyScore :: "lastIndexes \<Rightarrow> nat \<Rightarrow> OcrLine list \<Rightarrow> jsnum \<times> lastIndexes" where
  "calculateVisualHierarchyScore st i allLines =
     (case containsAnyPrice st (line_text (allLines ! i)) of
        (hasPriceOnLine, st1) \<Rightarrow>
          (case someNearbyPrice st1 i
                  (drop (i - 2) (take (min (length allLines) (i + 3)) (List.enumerate 0 allLines))) of
             (hasNearbyPrice, st2) \<Rightarrow>
               (jmin (Fin 1)
                  (addAll (Fin 0)
                     ((if isAllCapsText (line_text (allLines ! i)) then [fl (1 / 2)] else [])
                      @ fontSizeBonus (calculateFontSizeRatio (allLines ! i) allLines)
                      @ (if isBoldText (allLines ! i) allLines then [fl (3 / 10)] else [])
                      @ (if hasPriceOnLine then [fl (3 / 10)] else [])
                      @ (if hasNearbyPrice then [fl (3 / 20)] else [])
                      @ [calculateSpacingScore i allLines])),
                st2)))"

definition invalidStartWords :: "jsstring list" where
  "invalidStartWords =
     [asc ''and'', asc ''or'', asc ''with'', asc ''including'', asc ''served'', asc ''topped'',
      asc ''garnished'']"

text \<open>\<^verbatim>\<open>/[.,]\s/\<close>\<close>

definition middlePunctuation :: re where
  "middlePunctuation = Seq (Cls isDotComma) (Cls isSpace)"

definition isValidEntreeName :: "lastIndexes \<Rightarrow> jsstring \<Rightarrow> bool \<times> lastIndexes" where
  "isValidEntreeName st text =
     (if list_ex (\<lambda>word. startsWith (trim (toLowerCase text)) (word @ [32])) invalidStartWords then (False, st)
      else if regexTest False middlePunctuation text then (False, st)
      else if length (trim (toLowerCase text)) < 4 then (False, st)
      else if length (filter (\<lambda>w. length w > 0) (splitSpaces (trim (toLowerCase text)))) < 2 then (False, st)
      else (case validateNoPrices st text of
              (False, st') \<Rightarrow> (False, st')
            | (True, st') \<Rightarrow> (True, st')))"

definition descriptiveWords :: "jsstring list" where
  "descriptiveWords =
     [asc ''with'', asc ''served'', asc ''topped'', asc ''garnished'', asc ''fresh'',
      asc ''local'', asc ''organic'', asc ''garlic'', asc ''lemon'', asc ''butter'',
      asc ''sourdough'', asc ''crumbs'', asc ''grilled'', asc ''baguette'', asc ''seasoned'',
      asc ''marinated'', asc ''roasted'', asc ''grilled'', asc ''fried'', asc ''steamed'',
      asc ''accompanied'', asc ''drizzled'', asc ''sprinkled'', asc ''finished'',
      asc ''garnished'']"

definition dishAnchors :: "jsstring list" where
  "dishAnchors =
     [asc ''crab'', asc ''scallop'', asc ''cake'', asc ''steak'', asc ''ribs'', asc ''skins'',
      asc ''platter'', asc ''newburg'']"

text \<open>\<^verbatim>\<open>/^[A-Z...\s\-'&]+$/\<close> over the upper-case letters and the joiners.\<close>

definition capsLine :: re where
  "capsLine = seqs [Bol, many1 (Cls (\<lambda>c. isCapsLetter c \<or> isJoiner c)), Eol]"

definition isDescriptionText ::
  "lastIndexes \<Rightarrow> jsstring \<Rightarrow> nat \<Rightarrow> jsstring list \<Rightarrow> bool \<times> lastIndexes" where
  "isDescriptionText st text i allLines =
     (case containsAnyPrice st text of
        (hasPrice, st1) \<Rightarrow>
          (let prevLine = (if i > 0 then trim (allLines ! (i - 1)) else []);
               nextLine = (if i + 1 < length allLines then trim (allLines ! (i + 1)) else [])
           in case containsAnyPrice st1 nextLine of
                (nextLineHasPrice, st2) \<Rightarrow>
                  (let normalizedText = trim (toLowerCase text);
                       ws = filter (\<lambda>w. length w > 0) (splitSpaces normalizedText);
                       isLong = (length ws > 6);
                       commaCount = countClass (\<lambda>c. c = 44) text;
                       hasHighCommaDensity = (commaCount \<ge> 2 \<or> (commaCount > 0 \<and> length ws > 4));
                       containsDescriptiveWords =
                         list_ex (\<lambda>word. includesStr normalizedText word) (descriptiveWords @ FRENCH_DESCRIPTIVE_WORDS);
                       prevLineIsShorter = jlt (ofNat (length prevLine)) (jmul (ofNat (length text)) (fl (4 / 5)));
                       prevLineIsAllCaps = (regexTest False capsLine prevLine \<and> length prevLine > 3);
                       nextLineIsAllCaps = (regexTest False capsLine nextLine \<and> length nextLine > 3);
                       isShortSimpleEntree =
                         (length ws \<le> 3 \<and> \<not> containsDescriptiveWords \<and> \<not> hasHighCommaDensity);
                       isClearEntreeName =
                         (length ws \<le> 5 \<and> \<not> containsDescriptiveWords \<and> \<not> hasHighCommaDensity
                          \<and> list_ex (\<lambda>w. toLowerCase w \<in> set dishAnchors) ws)
                   in (\<not> hasPrice \<and> \<not> isShortSimpleEntree \<and> \<not> isClearEntreeName
                       \<and> ((isLong \<and> containsDescriptiveWords)
                          \<or> hasHighCommaDensity
                          \<or> (prevLineIsShorter \<and> nextLineHasPrice)
                          \<or> (prevLineIsAllCaps \<and> isLong)
                          \<or> (prevLineIsAllCaps \<and> nextLineIsAllCaps \<and> isLong)),
                       st2))))"

text \<open>
  The patterns of \<^verbatim>\<open>isRestaurantNameOrHeader\<close>: \<^verbatim>\<open>/^[A-Z][a-z]+(\s+[A-Z][a-z]+)*$/\<close>,
  \<^verbatim>\<open>/^[A-Z\s]+$/\<close>, and the five name patterns, which carry the \<^verbatim>\<open>i\<close> flag:
  \<^item> \<^verbatim>\<open>/^[A-Z][a-z]*'?s\s+(V)$/i\<close>
  \<^item> \<^verbatim>\<open>/^[A-Z][a-z]+\s+&\s+[A-Z][a-z]+'?s$/i\<close>
  \<^item> \<^verbatim>\<open>/^[A-Z][a-z]+\s+(K)\s+(W)$/i\<close>
  \<^item> \<^verbatim>\<open>/^[A-Z][a-z]+\s+[A-Z][a-z]+\s+(V)$/i\<close>
  \<^item> \<^verbatim>\<open>/^(The\s+)?[A-Z][a-z]+\s+(V)$/i\<close>

  where \<^verbatim>\<open>V\<close> is the list of nine venue words, \<^verbatim>\<open>W\<close> its first seven and \<^verbatim>\<open>K\<close> the
  list of cuisines.
\<close>

definition capWord :: re where
  "capWord = Seq (Cls isUpperAZ) (many1 (Cls isLowerAZ))"

definition spaces1 :: re where
  "spaces1 = many1 (Cls isSpace)"

definition titleCaseLine :: re where
  "titleCaseLine = seqs [Bol, capWord, many (Grp 1 (Seq spaces1 capWord)), Eol]"

definition upperSpacesLine :: re where
  "upperSpacesLine = seqs [Bol, many1 (Cls (\<lambda>c. isUpperAZ c \<or> isSpace c)), Eol]"

definition venues9 :: re where
  "venues9 = alts (map lits
       [asc ''Restaurant'', asc ''Cafe'', asc ''Bistro'', asc ''Grill'', asc ''Kitchen'',
        asc ''Dining'', asc ''Eatery'', asc ''Bar'', asc ''Lounge''])"

definition venues7 :: re where
  "venues7 = alts (map lits
       [asc ''Restaurant'', asc ''Cafe'', asc ''Bistro'', asc ''Grill'', asc ''Kitchen'',
        asc ''Dining'', asc ''Eatery''])"

definition cuisines :: re where
  "cuisines = alts (map lits
       [asc ''Italian'', asc ''French'', asc ''Chinese'', asc ''Mexican'', asc ''Thai'',
        asc ''Indian'', asc ''Japanese'', asc ''American''])"

definition restaurantPatterns :: "re list" where
  "restaurantPatterns =
     [seqs [Bol, Cls isUpperAZ, many (Cls isLowerAZ), optional (lit 39), lit 115, spaces1, Grp 1 venues9, Eol],
      seqs [Bol, capWord, spaces1, lit 38, spaces1, capWord, optional (lit 39), lit 115, Eol],
      seqs [Bol, capWord, spaces1, Grp 1 cuisines, spaces1, Grp 2 venues7, Eol],
      seqs [Bol, capWord, spaces1, capWord, spaces1, Grp 1 venues9, Eol],
      seqs [Bol, optional (Grp 1 (Seq (lits (asc ''The'')) spaces1)), capWord, spaces1, Grp 2 venues9, Eol]]"

definition isRestaurantNameOrHeader ::
  "lastIndexes \<Rightarrow> jsstring \<Rightarrow> nat \<Rightarrow> SectionHeader list \<Rightarrow> jsstring list \<Rightarrow> bool \<times> lastIndexes" where
  "isRestaurantNameOrHeader st text i sectionHeaders allLines =
     (if isSectionHeader text then (True, st)
      else
        (case containsAnyPrice st text of
           (hasPrice, st1) \<Rightarrow>
             (case isDescriptionText st1 text i allLines of
                (isDescription, st2) \<Rightarrow>
                  (let ws = filter (\<lambda>w. length w > 0) (splitSpaces (trim (toLowerCase text)));
                       isShort = (length ws \<le> 4);
                       isEarly = jlt (ofNat i) (jmul (ofNat (length allLines)) (fl (1 / 5)));
                       hasSectionHeaderAfter =
                         list_ex (\<lambda>header. lineIndex header > i \<and> lineIndex header \<le> i + 5) sectionHeaders;
                       isRestaurantName =
                         (isShort \<and> isEarly
                          \<and> (regexTest False titleCaseLine text \<or> regexTest False upperSpacesLine text)
                          \<and> \<not> hasPrice \<and> hasSectionHeaderAfter);
                       matchesRestaurantPattern = list_ex (\<lambda>pattern. regexTest True pattern text) restaurantPatterns
                   in (isRestaurantName \<or> matchesRestaurantPattern \<or> isDescription, st2)))))"

text \<open>
  \<^verbatim>\<open>detectCompoundMenuItems\<close>.  The price at the end of the text is found with
  \<^verbatim>\<open>/(.*?)\s*(C\s?\d{1,4}(?:[.,]\d{2})?)\s*$/i\<close>; the nine splitting patterns, all with the
  \<^verbatim>\<open>i\<close> flag and two groups, are, in order:
  \<^item> \<^verbatim>\<open>/^(combination\s+platter)\s+(.+)$/\<close>
  \<^item> \<^verbatim>\<open>/^(.+?)\s+(.+?\s+rolls?)$/\<close>, and the same with \<^verbatim>\<open>pasta\<close>, \<^verbatim>\<open>steak\<close>, \<^verbatim>\<open>salad\<close>,
    \<^verbatim>\<open>newburg\<close> for \<^verbatim>\<open>rolls?\<close>
  \<^item> \<^verbatim>\<open>/^(.+?)\s+(greek\s+.+)$/\<close> and \<^verbatim>\<open>/^(.+?)\s+(kale\s+.+)$/\<close>
  \<^item> \<^verbatim>\<open>/^([a-z]+\s+[a-z]+)\s+([a-z]+\s+[a-z]+(?:\s+[a-z]+)?)$/\<close>
\<close>

definition trailingPrice :: re where
  "trailingPrice = seqs [Grp 1 (lazyMany (Cls isAnyChar)), many (Cls isSpace), Grp 2 cpp1, many (Cls isSpace), Eol]"

definition splitBefore :: "re \<Rightarrow> re" where
  "splitBefore ending =
     seqs [Bol, Grp 1 (lazyMany1 (Cls isAnyChar)), spaces1,
           Grp 2 (seqs [lazyMany1 (Cls isAnyChar), spaces1, ending]), Eol]"

definition splitAt :: "jsstring \<Rightarrow> re" where
  "splitAt word =
     seqs [Bol, Grp 1 (lazyMany1 (Cls isAnyChar)), spaces1,
           Grp 2 (seqs [lits word, spaces1, many1 (Cls isAnyChar)]), Eol]"

definition letters1 :: re where
  "letters1 = many1 (Cls isLowerAZ)"

definition compoundPatterns :: "re list" where
  "compoundPatterns =
     [seqs [Bol, Grp 1 (seqs [lits (asc ''combination''), spaces1, lits (asc ''platter'')]), spaces1,
            Grp 2 (many1 (Cls isAnyChar)), Eol],
      splitBefore (Seq (lits (asc ''roll'')) (optional (lit 115))),
      splitBefore (lits (asc ''pasta'')),
      splitBefore (lits (asc ''steak'')),
      splitBefore (lits (asc ''salad'')),
      splitBefore (lits (asc ''newburg'')),
      splitAt (asc ''greek''),
      splitAt (asc ''kale''),
      seqs [Bol, Grp 1 (seqs [letters1, spaces1, letters1]), spaces1,
            Grp 2 (seqs [letters1, spaces1, letters1, optional (Seq spaces1 letters1)]), Eol]]"

text \<open>The loop over the patterns: the first pattern whose two parts are substantial decides.\<close>

fun splitCompound :: "jsstring \<Rightarrow> jsstring \<Rightarrow> re list \<Rightarrow> jsstring list option" where
  "splitCompound baseText price [] = None"
| "splitCompound baseText price (pattern # patterns) =
     (case rsearch True pattern 0 None baseText of
        None \<Rightarrow> splitCompound baseText price patterns
      | Some (b, e, p, rest, cs) \<Rightarrow>
          if length (trim (capture baseText cs 1)) \<ge> 3 \<and> length (trim (capture baseText cs 2)) \<ge> 3
             \<and> regexTest False (Cls isLetterAZ) (capture baseText cs 1)
             \<and> regexTest False (Cls isLetterAZ) (capture baseText cs 2)
          then Some (map (\<lambda>item. if price \<noteq> [] then trim item @ [32] @ price else trim item)
                       [capture baseText cs 1, capture baseText cs 2])
          else splitCompound baseText price patterns)"

definition detectCompoundMenuItems :: "jsstring \<Rightarrow> jsstring list" where
  "detectCompoundMenuItems text =
     (let priceMatch = rsearch True trailingPrice 0 None text;
          baseText = (case priceMatch of None \<Rightarrow> text | Some (b, e, p, rest, cs) \<Rightarrow> trim (capture text cs 1));
          price = (case priceMatch of None \<Rightarrow> [] | Some (b, e, p, rest, cs) \<Rightarrow> trim (capture text cs 2))
      in case splitCompound baseText price compoundPatterns of
           Some itemsWithPrice \<Rightarrow> itemsWithPrice
         | None \<Rightarrow> [text])"

text \<open>
  The patterns of \<^verbatim>\<open>splitLineByPrices\<close>:
  \<^item> \<^verbatim>\<open>/([A-Za-z][A-Za-z\s\-'&]+?)\s*(C\s?\d{1,4}(?:[.,]\d{2})?)/g\<close>, a name and its price
  \<^item> the separator of the fallback split,
    \<^verbatim>\<open>/(?<!\w)(?:C)\s?\d{1,4}(?:[.,]\d{2})?(?!\w)|(?<!\w)\d{1,3}(?:[.,]\d{2})(?!\w)|(?<!\w)\d{1,4}(?:[.,]\d{2})?\s*$/g\<close>
  \<^item> \<^verbatim>\<open>/^[\d\s\$C\.\,\-\/]+$/\<close>, a part made of digits and punctuation only
  \<^item> \<^verbatim>\<open>/^[^\w\s\-'&]+|[^\w\s\-'&]+$/g\<close> and \<^verbatim>\<open>/\s+[^\w\s\-'&]+\s+/g\<close>, the punctuation
    that the cleaning removes
\<close>

definition menuItemWithPricePattern :: re where
  "menuItemWithPricePattern =
     seqs [Grp 1 (Seq (Cls isLetterAZ) (lazyMany1 (Cls (\<lambda>c. isLetterAZ c \<or> isJoiner c)))),
           many (Cls isSpace), Grp 2 cpp1]"

definition pricePattern :: re where
  "pricePattern =
     alts [seqs [NotAfter isWordChar, Cls isCurrency, optional (Cls isSpace), between 1 4 (Cls isDigit),
                 optional decimals, NotBefore isWordChar],
           seqs [NotAfter isWordChar, between 1 3 (Cls isDigit), decimals, NotBefore isWordChar],
           seqs [NotAfter isWordChar, between 1 4 (Cls isDigit), optional decimals, many (Cls isSpace), Eol]]"

definition isPricePunct :: "jschar \<Rightarrow> bool" where
  "isPricePunct c = (isDigit c \<or> isSpace c \<or> isCurrency c \<or> c = 46 \<or> c = 44 \<or> c = 45 \<or> c = 47)"

definition digitsOnly :: re where
  "digitsOnly = seqs [Bol, many1 (Cls isPricePunct), Eol]"

definition isOtherPunct :: "jschar \<Rightarrow> bool" where
  "isOtherPunct c = (\<not> (isWordChar c \<or> isJoiner c))"

definition edgePunctuation :: re where
  "edgePunctuation = Alt (Seq Bol (many1 (Cls isOtherPunct))) (Seq (many1 (Cls isOtherPunct)) Eol)"

definition innerPunctuation :: re where
  "innerPunctuation = seqs [spaces1, many1 (Cls isOtherPunct), spaces1]"

definition cleanPart :: "jsstring \<Rightarrow> jsstring" where
  "cleanPart part =
     trim (replaceAll False innerPunctuation [32]
             (replaceAll False spaces1 [32] (replaceAll False edgePunctuation [] part)))"

text \<open>The loop over the parts of the fallback split.\<close>

fun fallbackParts ::
  "lastIndexes \<Rightarrow> OcrBoundingBox \<Rightarrow> jsstring list \<Rightarrow> (jsstring \<times> OcrBoundingBox) list \<times> lastIndexes" where
  "fallbackParts st bbox [] = ([], st)"
| "fallbackParts st bbox (part # parts) =
     (if length part < 2 \<or> regexTest False digitsOnly part then fallbackParts st bbox parts
      else if length (trim part) < 3 then fallbackParts st bbox parts
      else if length (cleanPart part) \<ge> 2 \<and> regexTest False (Cls isLetterAZ) (cleanPart part)
        then (case isValidEntreeName st (cleanPart part) of
                (True, st') \<Rightarrow> (case fallbackParts st' bbox parts of
                                 (results, st'') \<Rightarrow> ((cleanPart part, bbox) # results, st''))
              | (False, st') \<Rightarrow> fallbackParts st' bbox parts)
      else fallbackParts st bbox parts)"

definition menuItemNames :: "jsstring \<Rightarrow> jsstring list" where
  "menuItemNames text =
     filter (\<lambda>menuItemName. length menuItemName \<ge> 3 \<and> regexTest False (Cls isLetterAZ) menuItemName)
       (map (\<lambda>(b, e, p, rest, cs). trim (capture text cs 1)) (execAllFrom False menuItemWithPricePattern 0 None text))"

text \<open>
  \<^verbatim>\<open>splitLineByPrices\<close> starts with \<^verbatim>\<open>extractAllPrices\<close>, which leaves the pattern state
  fresh; only the validation of the fallback parts changes it afterwards.
\<close>

definition splitLineByPrices ::
  "OcrLine \<Rightarrow> (jsstring \<times> OcrBoundingBox) list \<times> lastIndexes" where
  "splitLineByPrices line =
     (let text = trim (line_text line); bbox = line_bbox line
      in if length (extractAllPrices text) = 0 then ([(text, bbox)], freshIndexes)
         else if length (menuItemNames text) > 0
           then (map (\<lambda>menuItemName. (menuItemName, bbox)) (menuItemNames text), freshIndexes)
         else if length (detectCompoundMenuItems text) > 1
           then (map (\<lambda>item. (item, bbox)) (detectCompoundMenuItems text), freshIndexes)
         else
           let parts = filter (\<lambda>part. length part > 0) (map trim (split False pricePattern text))
           in if length parts \<le> 1 then ([(text, bbox)], freshIndexes)
              else (case fallbackParts freshIndexes bbox parts of
                      (fallbackResults, st) \<Rightarrow>
                        (if length fallbackResults > 0 then fallbackResults else [(text, bbox)], st)))"

text \<open>\<^verbatim>\<open>checkPriceInNextLines\<close>: the lines \<^verbatim>\<open>i + 1\<close> to \<^verbatim>\<open>i + maxLines\<close>, as far as they exist.\<close>

fun priceInLines :: "lastIndexes \<Rightarrow> jsstring list \<Rightarrow> bool \<times> lastIndexes" where
  "priceInLines st [] = (False, st)"
| "priceInLines st (l # ls) =
     (if trim l = [] then priceInLines st ls
      else (case containsAnyPrice st (trim l) of
              (True, st') \<Rightarrow> (True, st')
            | (False, st') \<Rightarrow> priceInLines st' ls))"

definition checkPriceInNextLines :: "lastIndexes \<Rightarrow> jsstring list \<Rightarrow> nat \<Rightarrow> nat \<Rightarrow> bool \<times> lastIndexes" where
  "checkPriceInNextLines st allLines i maxLines = priceInLines st (take maxLines (drop (i + 1) allLines))"

text \<open>\<^verbatim>\<open>/\b(and|with|served|topped|garnished|fresh|local|organic)\b/i\<close>\<close>

definition ingredientWord :: re where
  "ingredientWord =
     seqs [WordB, Grp 1 (alts (map lits
      [asc ''and'', asc ''with'', asc ''served'', asc ''topped'', asc ''garnished'', asc ''fresh'',
       asc ''local'', asc ''organic''])), WordB]"

definition checkNextLineDescription :: "jsstring list \<Rightarrow> nat \<Rightarrow> bool" where
  "checkNextLineDescription allLines i =
     (if i + 1 \<ge> length allLines then False
      else if trim (allLines ! (i + 1)) = [] then False
      else list_ex (\<lambda>c. c = 44 \<or> c = 59 \<or> c = 58) (trim (allLines ! (i + 1)))
           \<and> jlt (ofNat (length (trim (allLines ! (i + 1))))) (jmul (ofNat (length (allLines ! i))) (fl (4 / 5)))
           \<and> regexTest True ingredientWord (trim (allLines ! (i + 1))))"

definition checkPrevLineHeader :: "nat \<Rightarrow> SectionHeader list \<Rightarrow> bool" where
  "checkPrevLineHeader i sectionHeaders =
     (if i = 0 then False else list_ex (\<lambda>header. lineIndex header = i - 1) sectionHeaders)"

text \<open>\<^verbatim>\<open>b ? 1 : 0\<close>\<close>

definition flag :: "bool \<Rightarrow> jsnum" where
  "flag b = (if b then Fin 1 else Fin 0)"

definition extractFeatures ::
  "lastIndexes \<Rightarrow> jsstring \<Rightarrow> jsstring list \<Rightarrow> nat \<Rightarrow> SectionHeader list \<Rightarrow> OcrLine list
   \<Rightarrow> CandidateFeatures \<times> lastIndexes" where
  "extractFeatures st text allLines i sectionHeaders ocrLines =
     (case containsAnyPrice st text of
        (hasPrice, st1) \<Rightarrow>
          (case checkPriceInNextLines st1 allLines i 3 of
             (priceNext, st2) \<Rightarrow>
               (\<lparr>tokenCount = ofNat (countMeaningfulWords text),
                  hasDigits = flag (regexTest False (Cls isDigit) text),
                  hasCurrency = flag hasPrice,
                  isAllCapsF = flag (isAllCaps text),
                  isTitleCaseF = flag (isTitleCase text),
                  priceSameLine = flag hasPrice,
                  priceNextLines1to3 = flag priceNext,
                  underEntreeHeader = flag (isUnderEntreeHeader i sectionHeaders),
                  punctDensity = calculatePunctuationDensity text,
                  nextLineDescription = flag (checkNextLineDescription allLines i),
                  prevLineHeader = flag (checkPrevLineHeader i sectionHeaders),
                  uppercaseRatio = calculateUppercaseRatio text,
                  lettersRatio = calculateLetterRatio text,
                  avgTokenLen = calculateAverageTokenLength text,
                  startsWithArticleF = flag (startsWithArticle text),
                  endsWithStop = flag (endsWithStopWord text),
                  fontSizeRatio = (if i < length ocrLines then calculateFontSizeRatio (ocrLines ! i) ocrLines else Fin 1),
                  confidenceF = Fin 0\<rparr>,
                st2)))"

text \<open>
  What an extraction run is given besides the lines.  A lookup in the dictionary store
  and the scoring after it happen at a site of the run: the index of the line, the path
  (0 for a line in capitals, 1 for a line of high visual hierarchy, 2 for the default
  path) and the index of the item among the items of the line on that path.  The store,
  the weight cache and the clock may differ from site to site; \<^verbatim>\<open>uuidv4()\<close> hands out
  the identifiers, by the number of candidates emitted before.
\<close>

type_synonym site = "nat \<times> nat \<times> nat"

record extractor_env =
  env_lookup :: "site \<Rightarrow> lookup_env"
  env_cache :: "site \<Rightarrow> weight_cache"
  env_now :: "site \<Rightarrow> int"
  env_uuid :: "nat \<Rightarrow> jsstring"

definition scoreAt :: "extractor_env \<Rightarrow> site \<Rightarrow> CandidateFeatures \<Rightarrow> EntreeMatch option \<Rightarrow> jsnum" where
  "scoreAt env s fs dbMatch = calculateConfidenceScore (env_cache env s) (env_now env s) fs dbMatch"

definition makeCandidate ::
  "extractor_env \<Rightarrow> nat \<Rightarrow> nat \<Rightarrow> jsstring \<Rightarrow> OcrBoundingBox \<Rightarrow> jsstring option \<Rightarrow> CandidateFeatures
   \<Rightarrow> jsnum \<Rightarrow> EntreeMatch option \<Rightarrow> Candidate" where
  "makeCandidate env n pageNumber text bbox context fs conf dbMatch =
     \<lparr>cand_id = env_uuid env n, cand_page = pageNumber, cand_text = text, cand_bbox = Some bbox,
      cand_headerContext = context, cand_priceContext = [], cand_features = fs,
      cand_confidence = conf, cand_databaseMatch = dbMatch\<rparr>"

text \<open>
  The guard of every \<^verbatim>\<open>candidates.push\<close>:
  \<^verbatim>\<open>confidence > threshold && isValidEntreeName(text)\<close>; the name is validated only
  when the confidence passes.
\<close>

definition emitIfValid :: "lastIndexes \<Rightarrow> jsnum \<Rightarrow> Candidate \<Rightarrow> Candidate option \<times> lastIndexes" where
  "emitIfValid st threshold candidate =
     (if jgt (cand_confidence candidate) threshold
      then (case isValidEntreeName st (cand_text candidate) of
              (True, st') \<Rightarrow> (Some candidate, st')
            | (False, st') \<Rightarrow> (None, st'))
      else (None, st))"

text \<open>
  What a path of the loop body does with a line: it goes on to the next line, with the
  candidates it pushed, or it falls through to the code below it, or a lookup raises.
\<close>

datatype path_result = NextLine "Candidate list" lastIndexes | FallThrough lastIndexes | LookupRaised

definition tracedText :: "jsstring \<Rightarrow> bool" where
  "tracedText text = (includesStr text (asc ''Combination Platter'') \<or> includesStr text (asc ''Lobster Newburg''))"

definition allCapsPath ::
  "extractor_env \<Rightarrow> lastIndexes \<Rightarrow> nat \<Rightarrow> OcrLine list \<Rightarrow> jsstring list \<Rightarrow> SectionHeader list \<Rightarrow> nat
   \<Rightarrow> nat \<Rightarrow> jsnum \<Rightarrow> path_result" where
  "allCapsPath env st n ocrLines allLines sectionHeaders pageNumber i visualHierarchyScore =
     (let text = trim (line_text (ocrLines ! i))
      in if isAllCapsText text then
           (let cleanText = removeAllPrices text
            in if length cleanText < 3 then NextLine [] freshIndexes
               else
                 (case extractFeatures freshIndexes cleanText allLines i sectionHeaders ocrLines of
                    (fs, st1) \<Rightarrow>
                      (case findEntreeMatch (env_lookup env (i, 0, 0)) cleanText of
                         Raised \<Rightarrow> LookupRaised
                       | Returned databaseMatch \<Rightarrow>
                           (case emitIfValid st1 (fl (1 / 10))
                                   (makeCandidate env n pageNumber cleanText (line_bbox (ocrLines ! i))
                                      (getHeaderContext i sectionHeaders) fs
                                      (jmin (Fin 1)
                                         (jadd (jadd (scoreAt env (i, 0, 0) fs databaseMatch) (fl (2 / 5)))
                                               (jmul visualHierarchyScore (fl (3 / 10)))))
                                      databaseMatch) of
                              (Some candidate, st2) \<Rightarrow> NextLine [candidate] st2
                            | (None, st2) \<Rightarrow> FallThrough st2))))
         else FallThrough st)"

text \<open>The loop over the compound items of a line of high visual hierarchy, from item \<^verbatim>\<open>j\<close> on.\<close>

fun compoundCandidates ::
  "extractor_env \<Rightarrow> lastIndexes \<Rightarrow> nat \<Rightarrow> OcrLine list \<Rightarrow> jsstring list \<Rightarrow> SectionHeader list \<Rightarrow> nat
   \<Rightarrow> nat \<Rightarrow> jsnum \<Rightarrow> nat \<Rightarrow> jsstring list \<Rightarrow> (Candidate list \<times> lastIndexes) outcome" where
  "compoundCandidates env st n ocrLines allLines sectionHeaders pageNumber i visualHierarchyScore j [] =
     Returned ([], st)"
| "compoundCandidates env st n ocrLines allLines sectionHeaders pageNumber i visualHierarchyScore j
     (compoundItem # compoundItems) =
     (if length (removeAllPrices compoundItem) \<ge> 3 then
        (case extractFeatures freshIndexes (removeAllPrices compoundItem) allLines i sectionHeaders ocrLines of
           (fs, st1) \<Rightarrow>
             (case findEntreeMatch (env_lookup env (i, 1, j)) (removeAllPrices compoundItem) of
                Raised \<Rightarrow> Raised
              | Returned databaseMatch \<Rightarrow>
                  (case emitIfValid st1 (fl (1 / 10))
                          (makeCandidate env n pageNumber (removeAllPrices compoundItem) (line_bbox (ocrLines ! i))
                             (getHeaderContext i sectionHeaders) fs
                             (jmin (Fin 1)
                                (jadd (scoreAt env (i, 1, j) fs databaseMatch)
                                      (jmul visualHierarchyScore (fl (2 / 5)))))
                             databaseMatch) of
                     (Some candidate, st2) \<Rightarrow>
                       (case compoundCandidates env st2 (n + 1) ocrLines allLines sectionHeaders pageNumber i
                               visualHierarchyScore (j + 1) compoundItems of
                          Raised \<Rightarrow> Raised
                        | Returned (cs, st3) \<Rightarrow> Returned (candidate # cs, st3))
                   | (None, st2) \<Rightarrow>
                       compoundCandidates env st2 n ocrLines allLines sectionHeaders pageNumber i
                         visualHierarchyScore (j + 1) compoundItems)))
      else compoundCandidates env freshIndexes n ocrLines allLines sectionHeaders pageNumber i
             visualHierarchyScore (j + 1) compoundItems)"

definition shouldCheckCompoundsHigh :: "jsstring \<Rightarrow> bool" where
  "shouldCheckCompoundsHigh text =
     (includesStr text (asc ''Combination Platter'')
      \<or> includesStr text (asc ''Tomato Pasta'')
      \<or> includesStr text (asc ''Salmon Rolls'')
      \<or> includesStr text (asc ''Lobster Newburg'')
      \<or> includesStr text (asc ''Combination Platter Lobster Newburg'')
      \<or> includesStr text (asc ''Tomato Pasta Salmon Rolls'')
      \<or> includesStr text (asc ''Chicken Fajita'')
      \<or> includesStr text (asc ''Greek Steak'')
      \<or> includesStr text (asc ''Thai Chicken'')
      \<or> includesStr text (asc ''Kale Crunch'')
      \<or> (length (splitSpaces text) \<ge> 4 \<and> regexTest False (Cls isUpperAZ) text))"

definition tracedHighText :: "jsstring \<Rightarrow> bool" where
  "tracedHighText text =
     (includesStr text (asc ''Lamb'')
      \<or> includesStr text (asc ''Loin'')
      \<or> includesStr text (asc ''Persillade'')
      \<or> includesStr text (asc ''Fish Fillet''))"

definition highVisualPath ::
  "extractor_env \<Rightarrow> lastIndexes \<Rightarrow> nat \<Rightarrow> OcrLine list \<Rightarrow> jsstring list \<Rightarrow> SectionHeader list \<Rightarrow> nat
   \<Rightarrow> nat \<Rightarrow> jsnum \<Rightarrow> path_result" where
  "highVisualPath env st n ocrLines allLines sectionHeaders pageNumber i visualHierarchyScore =
     (let text = trim (line_text (ocrLines ! i))
      in if jgt visualHierarchyScore (fl (1 / 2)) then
           (if shouldCheckCompoundsHigh text \<and> length (detectCompoundMenuItems text) > 1
            then (case compoundCandidates env st n ocrLines allLines sectionHeaders pageNumber i
                         visualHierarchyScore 0 (detectCompoundMenuItems text) of
                    Raised \<Rightarrow> LookupRaised
                  | Returned (cs, st1) \<Rightarrow> NextLine cs st1)
            else
              (let cleanText = removeAllPrices text;
                   st0 = (if tracedHighText text then snd (containsAnyPrice freshIndexes text) else freshIndexes)
               in if length cleanText < 3 then NextLine [] st0
                  else
                    (case extractFeatures st0 cleanText allLines i sectionHeaders ocrLines of
                       (fs, st1) \<Rightarrow>
                         (case emitIfValid st1 (fl (1 / 10))
                                 (makeCandidate env n pageNumber cleanText (line_bbox (ocrLines ! i))
                                    (getHeaderContext i sectionHeaders) fs
                                    (jmin (Fin 1)
                                       (jadd (scoreAt env (i, 1, 0) fs None)
                                             (jmul visualHierarchyScore (fl (2 / 5)))))
                                    None) of
                            (Some candidate, st2) \<Rightarrow> NextLine [candidate] st2
                          | (None, st2) \<Rightarrow> FallThrough st2))))
         else FallThrough st)"

definition shouldCheckCompounds :: "jsstring \<Rightarrow> bool" where
  "shouldCheckCompounds text =
     (includesStr text (asc ''Combination Platter'')
      \<or> includesStr text (asc ''Tomato Pasta'')
      \<or> includesStr text (asc ''Salmon Rolls'')
      \<or> includesStr text (asc ''Lobster Newburg'')
      \<or> includesStr text (asc ''Combination Platter Lobster Newburg'')
      \<or> includesStr text (asc ''Tomato Pasta Salmon Rolls''))"

definition tracedCandidate :: "jsstring \<Rightarrow> bool" where
  "tracedCandidate partText =
     (includesStr partText (asc ''Lobster Newburg'')
      \<or> includesStr partText (asc ''New York Steak'')
      \<or> includesStr partText (asc ''Goat Cheese'')
      \<or> includesStr partText (asc ''Potato Skins'')
      \<or> includesStr partText (asc ''Combination Platter'')
      \<or> includesStr partText (asc ''Beef Ribs'')
      \<or> includesStr partText (asc ''Crab and Scallop Cake''))"

text \<open>
  The validations that the trace output of the default path performs before the guard
  (\<^verbatim>\<open>tracedBefore\<close>) and after a rejection (\<^verbatim>\<open>tracedAfter\<close>), as changes of the pattern
  state.
\<close>

definition tracedBefore :: "lastIndexes \<Rightarrow> jsstring \<Rightarrow> jsnum \<Rightarrow> lastIndexes" where
  "tracedBefore st partText conf =
     (let st1 = (if tracedCandidate partText then snd (isValidEntreeName st partText) else st);
          st2 = (if tracedText partText then snd (isValidEntreeName st1 partText) else st1);
          st3 = (if tracedText partText \<and> jgt conf (fl (3 / 100)) then snd (isValidEntreeName st2 partText) else st2)
      in st3)"

definition tracedAfter :: "lastIndexes \<Rightarrow> jsstring \<Rightarrow> lastIndexes" where
  "tracedAfter st partText = (if tracedText partText then snd (isValidEntreeName st partText) else st)"

text \<open>The loop over the parts of a line on the default path, from part \<^verbatim>\<open>j\<close> on.\<close>

fun partCandidates ::
  "extractor_env \<Rightarrow> lastIndexes \<Rightarrow> nat \<Rightarrow> OcrLine list \<Rightarrow> jsstring list \<Rightarrow> SectionHeader list \<Rightarrow> nat
   \<Rightarrow> nat \<Rightarrow> nat \<Rightarrow> (jsstring \<times> OcrBoundingBox) list \<Rightarrow> (Candidate list \<times> lastIndexes) outcome" where
  "partCandidates env st n ocrLines allLines sectionHeaders pageNumber i j [] = Returned ([], st)"
| "partCandidates env st n ocrLines allLines sectionHeaders pageNumber i j (part # parts) =
     (if length (removeAllPrices (fst part)) < 2 \<or> regexTest False digitsOnly (removeAllPrices (fst part))
      then partCandidates env freshIndexes n ocrLines allLines sectionHeaders pageNumber i (j + 1) parts
      else
        (case isRestaurantNameOrHeader freshIndexes (removeAllPrices (fst part)) i sectionHeaders allLines of
           (True, st1) \<Rightarrow> partCandidates env st1 n ocrLines allLines sectionHeaders pageNumber i (j + 1) parts
         | (False, st1) \<Rightarrow>
             (case extractFeatures st1 (removeAllPrices (fst part)) allLines i sectionHeaders ocrLines of
                (fs, st2) \<Rightarrow>
                  (case findEntreeMatch (env_lookup env (i, 2, j)) (removeAllPrices (fst part)) of
                     Raised \<Rightarrow> Raised
                   | Returned databaseMatch \<Rightarrow>
                       (case emitIfValid
                               (tracedBefore st2 (removeAllPrices (fst part)) (scoreAt env (i, 2, j) fs databaseMatch))
                               (fl (3 / 100))
                               (makeCandidate env n pageNumber (removeAllPrices (fst part)) (snd part)
                                  (getHeaderContext i sectionHeaders) fs
                                  (scoreAt env (i, 2, j) fs databaseMatch) databaseMatch) of
                          (Some candidate, st3) \<Rightarrow>
                            (case partCandidates env st3 (n + 1) ocrLines allLines sectionHeaders pageNumber i
                                    (j + 1) parts of
                               Raised \<Rightarrow> Raised
                             | Returned (cs, st4) \<Rightarrow> Returned (candidate # cs, st4))
                        | (None, st3) \<Rightarrow>
                            partCandidates env (tracedAfter st3 (removeAllPrices (fst part))) n ocrLines allLines
                              sectionHeaders pageNumber i (j + 1) parts)))))"

definition defaultPath ::
  "extractor_env \<Rightarrow> lastIndexes \<Rightarrow> nat \<Rightarrow> OcrLine list \<Rightarrow> jsstring list \<Rightarrow> SectionHeader list \<Rightarrow> nat
   \<Rightarrow> nat \<Rightarrow> (Candidate list \<times> lastIndexes) outcome" where
  "defaultPath env st n ocrLines allLines sectionHeaders pageNumber i =
     (let text = trim (line_text (ocrLines ! i))
      in case splitLineByPrices (ocrLines ! i) of
           (lineParts, st1) \<Rightarrow>
             (if shouldCheckCompounds text \<and> length (detectCompoundMenuItems text) > 1
              then partCandidates env freshIndexes n ocrLines allLines sectionHeaders pageNumber i 0
                     (map (\<lambda>item. (removeAllPrices item, line_bbox (ocrLines ! i))) (detectCompoundMenuItems text))
              else partCandidates env st1 n ocrLines allLines sectionHeaders pageNumber i 0 lineParts))"

text \<open>The body of the loop of \<^verbatim>\<open>extractCandidates\<close> for the line with index \<^verbatim>\<open>i\<close>.\<close>

definition processLine ::
  "extractor_env \<Rightarrow> lastIndexes \<Rightarrow> nat \<Rightarrow> OcrLine list \<Rightarrow> jsstring list \<Rightarrow> SectionHeader list \<Rightarrow> nat
   \<Rightarrow> nat \<Rightarrow> (Candidate list \<times> lastIndexes) outcome" where
  "processLine env st n ocrLines allLines sectionHeaders pageNumber i =
     (let text = trim (line_text (ocrLines ! i))
      in if text = [] \<or> length text < 2 then Returned ([], st)
         else if containsBlacklistedTerms text \<or> isSectionHeader text then Returned ([], st)
         else
           (case isRestaurantNameOrHeader
                   (if tracedText text then snd (isRestaurantNameOrHeader st text i sectionHeaders allLines) else st)
                   text i sectionHeaders allLines of
              (True, st1) \<Rightarrow> Returned ([], st1)
            | (False, st1) \<Rightarrow>
                (case calculateVisualHierarchyScore
                        (if tracedText text then snd (calculateVisualHierarchyScore st1 i ocrLines) else st1)
                        i ocrLines of
                   (visualHierarchyScore, st2) \<Rightarrow>
                     (case allCapsPath env st2 n ocrLines allLines sectionHeaders pageNumber i visualHierarchyScore of
                        NextLine cs st3 \<Rightarrow> Returned (cs, st3)
                      | LookupRaised \<Rightarrow> Raised
                      | FallThrough st3 \<Rightarrow>
                          (case highVisualPath env st3 n ocrLines allLines sectionHeaders pageNumber i
                                  visualHierarchyScore of
                             NextLine cs st4 \<Rightarrow> Returned (cs, st4)
                           | LookupRaised \<Rightarrow> Raised
                           | FallThrough st4 \<Rightarrow>
                               defaultPath env st4 n ocrLines allLines sectionHeaders pageNumber i)))))"

text \<open>The loop over the lines, from the line with index \<^verbatim>\<open>i\<close> on, with the candidates so far.\<close>

fun linesFrom ::
  "extractor_env \<Rightarrow> OcrLine list \<Rightarrow> nat \<Rightarrow> Candidate list \<Rightarrow> lastIndexes \<Rightarrow> nat list
   \<Rightarrow> (Candidate list \<times> lastIndexes) outcome" where
  "linesFrom env ocrLines pageNumber candidates st [] = Returned (candidates, st)"
| "linesFrom env ocrLines pageNumber candidates st (i # indices) =
     (case processLine env st (length candidates) ocrLines (map line_text ocrLines)
             (detectSectionHeaders (map line_text ocrLines)) pageNumber i of
        Raised \<Rightarrow> Raised
      | Returned (cs, st') \<Rightarrow> linesFrom env ocrLines pageNumber (candidates @ cs) st' indices)"

definition collectCandidates ::
  "extractor_env \<Rightarrow> lastIndexes \<Rightarrow> OcrLine list \<Rightarrow> nat \<Rightarrow> (Candidate list \<times> lastIndexes) outcome" where
  "collectCandidates env st ocrLines pageNumber =
     linesFrom env ocrLines pageNumber [] st [0 ..< length ocrLines]"

text \<open>
  \<^verbatim>\<open>candidates.sort((a, b) => b.confidence - a.confidence).slice(0, topN)\<close>.  The
  confidence of a candidate passed a comparison with a threshold and a minimum with 1
  or a clamp to the unit interval, so it is a finite double; the difference of two
  doubles is not rounded to zero, and the sort, which is stable, orders the candidates
  by descending confidence.  \<^verbatim>\<open>topN\<close> is an integer here; a negative end of a slice
  counts from the end of the list.
\<close>

fun finiteValue :: "jsnum \<Rightarrow> real" where
  "finiteValue (Fin x) = x"
| "finiteValue a = 0"

definition sortByConfidence :: "Candidate list \<Rightarrow> Candidate list" where
  "sortByConfidence candidates = sort_key (\<lambda>c. - finiteValue (cand_confidence c)) candidates"

definition sliceTo :: "int \<Rightarrow> 'a list \<Rightarrow> 'a list" where
  "sliceTo n xs = (if n < 0 then take (nat (int (length xs) + n)) xs else take (nat n) xs)"

definition extractCandidates ::
  "extractor_env \<Rightarrow> lastIndexes \<Rightarrow> OcrLine list \<Rightarrow> nat \<Rightarrow> int \<Rightarrow> (Candidate list \<times> lastIndexes) outcome" where
  "extractCandidates env st ocrLines pageNumber topN =
     (case collectCandidates env st ocrLines pageNumber of
        Raised \<Rightarrow> Raised
      | Returned (candidates, st') \<Rightarrow> Returned (sliceTo topN (sortByConfidence candidates), st'))"

text \<open>
  What holds of a candidate that the loop body emits for the line with index \<^verbatim>\<open>i\<close>: its
  header context is the one of that line, its text passed the validation in some state
  of the price patterns, and its confidence is a finite number.
\<close>

definition emittedFor :: "nat \<Rightarrow> SectionHeader list \<Rightarrow> Candidate \<Rightarrow> bool" where
  "emittedFor i sectionHeaders c =
     (cand_headerContext c = getHeaderContext i sectionHeaders
      \<and> (\<exists>st. fst (isValidEntreeName st (cand_text c)))
      \<and> (\<exists>r. cand_confidence c = Fin r))"

text \<open>An environment without dictionary store and without trained weights, for the examples.\<close>

definition offlineEnv :: extractor_env where
  "offlineEnv =
     \<lparr>env_lookup = (\<lambda>s. \<lparr>serviceClient = None, regularClient = None\<rparr>),
      env_cache = (\<lambda>s. \<lparr>trainedWeightsCache = None, weightsCacheTimestamp = 0\<rparr>),
      env_now = (\<lambda>s. 0),
      env_uuid = (\<lambda>n. asc ''id'')\<rparr>"

definition plainBox :: OcrBoundingBox where
  "plainBox = \<lparr>box_x = Fin 0, box_y = Fin 0, box_w = Fin 100, box_h = Fin 10\<rparr>"

definition plainLine :: "jsstring \<Rightarrow> OcrLine" where
  "plainLine text = \<lparr>line_text = text, line_bbox = plainBox, line_words = [], line_confidence = fl (9 / 10)\<rparr>"

section \<open>Properties\<close>

declare repeatMatcher.simps [simp del]
declare rsearch.simps [simp del]
declare replaceFrom.simps [simp del]
declare execAllFrom.simps [simp del]
declare splitFrom.simps [simp del]
declare bexp.simps [simp del]

lemmas num_eval =
  fl_def ulp_def pow2_def roundEven_def bexp.simps ofNat_def jsub_def jgt_def jle_def jge_def jeq_def
  jmax_def jmin_def truthy_def addAll_def

lemmas class_eval =
  isDigit_def isUpperAZ_def isLowerAZ_def isLetterAZ_def isWordChar_def isSpace_def isCurrency_def
  isDotComma_def isAnyChar_def ascLower_def ascUpper_def cmatch_def

lemmas rx_eval =
  repeatMatcher.simps rsearch.simps replaceFrom.simps execAllFrom.simps splitFrom.simps substring_def
  split_def splitSpaces_def isUpperLatin1_def isLowerLatin1_def lowerChar_def upperChar_def
  toLowerCase_def toUpperCase_def
  asc_def class_eval decMax_def restLen_def regexTest_def prevAt_def regexTestG_def replaceAll_def
  matchAll_def trim_def lit_def optional_def many_def many1_def lazyMany1_def lazyMany_def between_def decimals_def

lemmas price_eval =
  cpp1_def cpp2_def cpp3_def cpp4_def cpp5_def cpp6_def cpp7_def cpp8_def currencyWord_def
  marketPrice_def COMPREHENSIVE_PRICE_PATTERNS_def standalone34_def standalone24_def
  freshIndexes_def freshPriceIndexes_def symbolThenNumber_def pp1_def pp2_def pp3_def pp4_def pp5_def pp6_def
  PRICE_PATTERNS_def

lemma removeAllPrices_12_34_a: "removeAllPrices (asc ''12 34 a'') = asc ''34 a''"
  by (simp add: removeAllPrices_def rx_eval price_eval)

lemma removeAllPrices_34_a: "removeAllPrices (asc ''34 a'') = asc ''a''"
  by (simp add: removeAllPrices_def rx_eval price_eval)

text \<open>
  C2 (idempotence of \<^verbatim>\<open>removeAllPrices\<close>), evaluated at the text \<^verbatim>\<open>12 34 a\<close>: the
  pattern for a number at the start of the line is anchored, so one pass removes
  \<^verbatim>\<open>12\<close> only and a second pass removes the \<^verbatim>\<open>34\<close> the first one exposed.
\<close>

theorem removeAllPrices_second_pass_differs:
  "removeAllPrices (asc ''12 34 a'') = asc ''34 a'' \<and>
   removeAllPrices (removeAllPrices (asc ''12 34 a'')) = asc ''a''"
  by (simp add: removeAllPrices_12_34_a removeAllPrices_34_a)

text \<open>
  C3 (validator soundness), evaluated at the same text: what \<^verbatim>\<open>removeAllPrices\<close>
  returns for \<^verbatim>\<open>12 34 a\<close> still starts with a number, and \<^verbatim>\<open>validateNoPrices\<close>,
  called right after it, answers false.
\<close>

theorem validateNoPrices_rejects_removeAllPrices_output:
  "fst (validateNoPrices freshIndexes (removeAllPrices (asc ''12 34 a''))) = False"
  by (simp add: removeAllPrices_12_34_a) (simp add: validateNoPrices_def containsAnyPrice_def rx_eval price_eval)

text \<open>
  C5 (determinism of the price predicates), evaluated at the text \<^verbatim>\<open>$12 steak\<close>: the
  pattern objects carry the \<^verbatim>\<open>g\<close> flag, so a successful \<^verbatim>\<open>test\<close> leaves its end index
  in \<^verbatim>\<open>lastIndex\<close> and the next call on the same text starts searching there.  From
  fresh pattern objects the first call answers true and the second call answers
  false, for \<^verbatim>\<open>containsPrice\<close> and for \<^verbatim>\<open>containsAnyPrice\<close>.
\<close>

theorem price_predicates_depend_on_lastIndex:
  "fst (containsPrice freshPriceIndexes (asc ''$12 steak'')) = True \<and>
   fst (containsPrice (snd (containsPrice freshPriceIndexes (asc ''$12 steak''))) (asc ''$12 steak'')) = False \<and>
   fst (containsAnyPrice freshIndexes (asc ''$12 steak'')) = True \<and>
   fst (containsAnyPrice (snd (containsAnyPrice freshIndexes (asc ''$12 steak''))) (asc ''$12 steak'')) = False"
  by (simp add: containsPrice_def containsAnyPrice_def rx_eval price_eval)


subsection \<open>The phrase "market price"\<close>

lemma rsearch_finds:
  "rmatch ci r (k + length pre, lastOr p pre, rest, []) \<noteq> [] \<Longrightarrow> rsearch ci r k p (pre @ rest) \<noteq> None"
proof (induction pre arbitrary: k p)
  case Nil
  then show ?case by (subst rsearch.simps) (auto simp: lastOr_def split: list.splits)
next
  case (Cons c pre)
  have "lastOr (Some c) pre = lastOr p (c # pre)" by (simp add: lastOr_def)
  with Cons.prems have "rmatch ci r (Suc k + length pre, lastOr (Some c) pre, rest, []) \<noteq> []" by simp
  from Cons.IH[OF this] show ?case
    by (subst rsearch.simps) (auto split: list.splits)
qed

lemma rmatch_Seq_mem:
  "y \<in> set (rmatch ci a x) \<Longrightarrow> z \<in> set (rmatch ci b y) \<Longrightarrow> z \<in> set (rmatch ci (Seq a b) x)"
  by auto

lemma rmatch_lits_ci:
  "w \<noteq> [] \<Longrightarrow> (k + length w, Some (last w), rest, cs) \<in> set (rmatch True (lits (map ascLower w)) (k, p, w @ rest, cs))"
proof (induction w arbitrary: k p)
  case Nil then show ?case by simp
next
  case (Cons c w)
  show ?case
  proof (cases w)
    case Nil
    then show ?thesis by (simp add: lit_def cmatch_def)
  next
    case (Cons d w')
    have step: "(Suc k, Some c, w @ rest, cs) \<in> set (rmatch True (lit (ascLower c)) (k, p, (c # w) @ rest, cs))"
      by (simp add: lit_def cmatch_def)
    have "w \<noteq> []" using Cons by simp
    from Cons.IH[OF this, of "Suc k" "Some c"]
    have "(Suc k + length w, Some (last w), rest, cs) \<in> set (rmatch True (lits (map ascLower w)) (Suc k, Some c, w @ rest, cs))" .
    with step have "(Suc k + length w, Some (last w), rest, cs) \<in> set (rmatch True (Seq (lit (ascLower c)) (lits (map ascLower w))) (k, p, (c # w) @ rest, cs))"
      by (rule rmatch_Seq_mem)
    then show ?thesis using Cons by simp
  qed
qed

lemma repeat_spaces:
  "list_all isSpace ws \<Longrightarrow> mn \<le> length ws \<Longrightarrow>
   (k + length ws, lastOr p ws, rest, cs) \<in> set (repeatMatcher (rmatch ci (Cls isSpace)) True mn None (k, p, ws @ rest, cs))"
proof (induction ws arbitrary: k p mn)
  case Nil
  then show ?case by (subst repeatMatcher.simps) (simp add: lastOr_def Let_def)
next
  case (Cons c ws)
  have c: "isSpace c" and ws: "list_all isSpace ws" using Cons.prems by auto
  have "mn - 1 \<le> length ws" using Cons.prems by simp
  from Cons.IH[OF ws this, of "Suc k" "Some c"]
  have ih: "(Suc k + length ws, lastOr (Some c) ws, rest, cs)
      \<in> set (repeatMatcher (rmatch ci (Cls isSpace)) True (mn - 1) None (Suc k, Some c, ws @ rest, cs))" .
  have l: "lastOr (Some c) ws = lastOr p (c # ws)" by (simp add: lastOr_def)
  show ?case
    apply (subst repeatMatcher.simps)
    using ih c l by (auto simp add: Let_def cmatch_def restLen_def decMax_def)
qed

lemma rmatch_WordB_mem:
  "optPred isWordChar p \<noteq> optPred isWordChar (headOpt r) \<Longrightarrow> (k, p, r, cs) \<in> set (rmatch ci WordB (k, p, r, cs))"
  by simp

lemma marketPrice_matches:
  assumes w1: "map ascLower w1 = asc ''market''" and w2: "map ascLower w2 = asc ''price''"
    and ws: "ws \<noteq> []" "list_all isSpace ws"
    and pre: "\<not> optPred isWordChar p"
    and post: "\<not> optPred isWordChar (headOpt post)"
  shows "rmatch True marketPrice (k, p, w1 @ ws @ w2 @ post, []) \<noteq> []"
proof -
  have n1: "w1 \<noteq> []" and n2: "w2 \<noteq> []" using w1 w2 by (auto simp: asc_def)
  have l1: "length w1 = 6" using arg_cong[OF w1, of length] by (simp add: asc_def)
  have h1: "isWordChar (hd w1)" using w1 by (cases w1) (auto simp: asc_def class_eval split: if_splits)
  have e2: "isWordChar (last w2)" using w2 n2
    by (cases w2 rule: rev_cases) (auto simp: asc_def class_eval split: if_splits)
  have b1: "(k, p, w1 @ ws @ w2 @ post, []) \<in> set (rmatch True WordB (k, p, w1 @ ws @ w2 @ post, []))"
    using pre h1 n1 by (cases w1) auto
  have m1: "(k + length w1, Some (last w1), ws @ w2 @ post, [])
      \<in> set (rmatch True (lits (asc ''market'')) (k, p, w1 @ ws @ w2 @ post, []))"
    using rmatch_lits_ci[OF n1, of k "ws @ w2 @ post" "[]" p] w1 by simp
  have s1: "(k + length w1 + length ws, lastOr (Some (last w1)) ws, w2 @ post, [])
      \<in> set (rmatch True (many1 (Cls isSpace)) (k + length w1, Some (last w1), ws @ w2 @ post, []))"
    using repeat_spaces[OF ws(2), of 1 "k + length w1" "Some (last w1)" "w2 @ post" "[]" True] ws(1)
    by (cases ws) (auto simp: many1_def)
  have m2: "(k + length w1 + length ws + length w2, Some (last w2), post, [])
      \<in> set (rmatch True (lits (asc ''price'')) (k + length w1 + length ws, lastOr (Some (last w1)) ws, w2 @ post, []))"
    using rmatch_lits_ci[OF n2, of "k + length w1 + length ws" post "[]"] w2 by simp
  have b2: "(k + length w1 + length ws + length w2, Some (last w2), post, [])
      \<in> set (rmatch True WordB (k + length w1 + length ws + length w2, Some (last w2), post, []))"
    using post e2 by simp
  have "(k + length w1 + length ws + length w2, Some (last w2), post, [])
      \<in> set (rmatch True marketPrice (k, p, w1 @ ws @ w2 @ post, []))"
    unfolding marketPrice_def seqs.simps
    by (rule rmatch_Seq_mem[OF b1] rmatch_Seq_mem[OF m1] rmatch_Seq_mem[OF s1] rmatch_Seq_mem[OF m2] b2)+
  then show ?thesis by auto
qed


subsection \<open>Price formats of the text utilities\<close>

lemma cmatch_False [simp]: "cmatch False P c = P c"
  by (simp add: cmatch_def)

lemma optPred_cmatch_False [simp]: "optPred (cmatch False P) p = optPred P p"
  by (cases p) simp_all

lemma rmatch_NotAfter_mem:
  "\<not> optPred P p \<Longrightarrow> (k, p, r, cs) \<in> set (rmatch False (NotAfter P) (k, p, r, cs))"
  by simp

lemma rmatch_NotBefore_mem:
  "\<not> optPred P (headOpt r) \<Longrightarrow> (k, p, r, cs) \<in> set (rmatch False (NotBefore P) (k, p, r, cs))"
  by simp

lemma rmatch_Eol_mem: "(k, p, [], cs) \<in> set (rmatch ci Eol (k, p, [], cs))"
  by simp

lemma rmatch_Cls_mem:
  "P c \<Longrightarrow> (Suc k, Some c, r, cs) \<in> set (rmatch False (Cls P) (k, p, c # r, cs))"
  by simp

lemma rmatch_lit_mem: "(Suc k, Some c, r, cs) \<in> set (rmatch False (lit c) (k, p, c # r, cs))"
  by (simp add: lit_def)

lemma repeat_class:
  "list_all P ws \<Longrightarrow> mn \<le> length ws \<Longrightarrow> (case mx of None \<Rightarrow> True | Some n \<Rightarrow> length ws \<le> n) \<Longrightarrow>
   (k + length ws, lastOr p ws, rest, cs)
     \<in> set (repeatMatcher (rmatch False (Cls P)) True mn mx (k, p, ws @ rest, cs))"
proof (induction ws arbitrary: k p mn mx)
  case Nil
  then show ?case by (subst repeatMatcher.simps) (simp add: lastOr_def Let_def)
next
  case (Cons c ws)
  have c: "P c" and ws: "list_all P ws" using Cons.prems by auto
  have mn: "mn - 1 \<le> length ws" using Cons.prems by simp
  have mx: "(case decMax mx of None \<Rightarrow> True | Some n \<Rightarrow> length ws \<le> n)"
    using Cons.prems(3) by (cases mx) (auto simp: decMax_def)
  have nz: "mx \<noteq> Some 0" using Cons.prems(3) by (cases mx) auto
  from Cons.IH[OF ws mn mx, of "Suc k" "Some c"]
  have ih: "(Suc k + length ws, lastOr (Some c) ws, rest, cs)
      \<in> set (repeatMatcher (rmatch False (Cls P)) True (mn - 1) (decMax mx) (Suc k, Some c, ws @ rest, cs))" .
  have l: "lastOr (Some c) ws = lastOr p (c # ws)" by (simp add: lastOr_def)
  show ?case
    apply (subst repeatMatcher.simps)
    using ih c nz by (auto simp: Let_def restLen_def l)
qed

lemma between_mem:
  "list_all P ws \<Longrightarrow> mn \<le> length ws \<Longrightarrow> length ws \<le> mx \<Longrightarrow>
   (k + length ws, lastOr p ws, rest, cs) \<in> set (rmatch False (between mn mx (Cls P)) (k, p, ws @ rest, cs))"
  using repeat_class[of P ws mn "Some mx" k p rest cs] by (simp add: between_def)

lemma many_mem:
  "list_all P ws \<Longrightarrow>
   (k + length ws, lastOr p ws, rest, cs) \<in> set (rmatch False (many (Cls P)) (k, p, ws @ rest, cs))"
  using repeat_class[of P ws 0 None k p rest cs] by (simp add: many_def)

lemma optionalSpace_mem:
  "optionalSpace sp \<Longrightarrow>
   (k + length sp, lastOr p sp, rest, cs) \<in> set (rmatch False (optional (Cls isSpace)) (k, p, sp @ rest, cs))"
  using repeat_class[of isSpace sp 0 "Some 1" k p rest cs] by (simp add: optional_def optionalSpace_def)

lemma optional_skip: "x \<in> set (rmatch ci (optional r) x)"
  by (subst optional_def, simp, subst repeatMatcher.simps, simp add: Let_def)

lemma repeat_zero: "repeatMatcher m g mn (Some 0) y = [y]"
  by (subst repeatMatcher.simps) simp

lemma optional_take:
  assumes "y \<in> set (rmatch ci r x)" and "restLen y < restLen x"
  shows "y \<in> set (rmatch ci (optional r) x)"
proof -
  have "rmatch ci (optional r) x
      = concat (map (\<lambda>y. if restLen y < restLen x then [y] else []) (rmatch ci r x)) @ [x]"
    by (simp add: optional_def, subst repeatMatcher.simps) (simp add: Let_def decMax_def repeat_zero cong: if_cong)
  then show ?thesis using assms by auto
qed

lemma decimals_mem:
  assumes "decimalPart dec"
  shows "(k + length dec, lastOr p dec, rest, cs) \<in> set (rmatch False decimals (k, p, dec @ rest, cs))"
proof -
  from assms obtain s d1 d2 where d: "dec = [s, d1, d2]" "isDotComma s" "isDigit d1" "isDigit d2"
    by (auto simp: decimalPart_def split: list.splits)
  have a: "(Suc k, Some s, [d1, d2] @ rest, cs) \<in> set (rmatch False (Cls isDotComma) (k, p, s # [d1, d2] @ rest, cs))"
    using d(2) by (rule rmatch_Cls_mem)
  have b: "(Suc k + length [d1, d2], lastOr (Some s) [d1, d2], rest, cs)
      \<in> set (rmatch False (between 2 2 (Cls isDigit)) (Suc k, Some s, [d1, d2] @ rest, cs))"
    by (rule between_mem) (use d in simp_all)
  have "(Suc k + length [d1, d2], lastOr (Some s) [d1, d2], rest, cs)
      \<in> set (rmatch False decimals (k, p, s # [d1, d2] @ rest, cs))"
    unfolding decimals_def by (rule rmatch_Seq_mem[OF a b])
  then show ?thesis by (simp add: d lastOr_def)
qed

lemma optionalDecimals_mem:
  assumes "optionalDecimals dec"
  shows "(k + length dec, lastOr p dec, rest, cs) \<in> set (rmatch False (optional decimals) (k, p, dec @ rest, cs))"
proof (cases "dec = []")
  case True
  then show ?thesis using optional_skip[of "(k, p, rest, cs)" False decimals] by (simp add: lastOr_def)
next
  case False
  then have d: "decimalPart dec" using assms by (simp add: optionalDecimals_def)
  then have "length dec = 3" by (auto simp: decimalPart_def split: list.splits)
  then show ?thesis
    by (intro optional_take decimals_mem[OF d]) (simp add: restLen_def)
qed

lemma digits_mem:
  "digitsUpTo n ds \<Longrightarrow>
   (k + length ds, lastOr p ds, rest, cs) \<in> set (rmatch False (between 1 n (Cls isDigit)) (k, p, ds @ rest, cs))"
  by (rule between_mem) (auto simp: digitsUpTo_def Suc_le_eq)

lemma lastOr_append: "lastOr (lastOr p a) b = lastOr p (a @ b)"
  by (simp add: lastOr_def)

lemma lastOr_digits: "digitsUpTo n ds \<Longrightarrow> optPred isWordChar (lastOr p ds)"
  by (auto simp: digitsUpTo_def lastOr_def isWordChar_def list_all_iff)

lemma someTest_fresh:
  "(ci, r) \<in> set ps \<Longrightarrow> list_all (\<lambda>i. i = 0) idxs \<Longrightarrow> rsearch ci r 0 None s \<noteq> None \<Longrightarrow>
   fst (someTest ps s idxs)"
proof (induction ps arbitrary: idxs)
  case Nil then show ?case by simp
next
  case (Cons q ps)
  obtain ci' r' where q: "q = (ci', r')" by (cases q)
  have z: "(case idxs of [] \<Rightarrow> 0 | i # js \<Rightarrow> i) = 0" using Cons.prems(2) by (cases idxs) auto
  have t: "list_all (\<lambda>i. i = 0) (tl idxs)" using Cons.prems(2) by (cases idxs) auto
  show ?case
  proof (cases "fst (regexTestG ci' r' s 0)")
    case True
    then show ?thesis by (auto simp: q z split: prod.splits bool.splits)
  next
    case False
    have "(ci, r) \<noteq> (ci', r')"
    proof
      assume "(ci, r) = (ci', r')"
      then have "rsearch ci' r' 0 None s \<noteq> None" using Cons.prems(3) by simp
      then have "fst (regexTestG ci' r' s 0)"
        by (auto simp: regexTestG_def prevAt_def split: option.splits)
      with False show False by simp
    qed
    then have "(ci, r) \<in> set ps" using Cons.prems(1) q by auto
    from Cons.IH[OF this t Cons.prems(3)] show ?thesis
      by (auto simp: q z split: prod.splits bool.splits)
  qed
qed

lemma containsPrice_fresh:
  assumes "(False, r) \<in> set PRICE_PATTERNS"
    and "rmatch False r (0 + length pre, lastOr None pre, rest, []) \<noteq> []"
  shows "fst (containsPrice freshPriceIndexes (pre @ rest))"
proof -
  have s: "rsearch False r 0 None (pre @ rest) \<noteq> None" using assms(2) by (rule rsearch_finds)
  have f: "list_all (\<lambda>i. i = 0) freshPriceIndexes" by (simp add: freshPriceIndexes_def)
  show ?thesis
    unfolding containsPrice_def by (rule someTest_fresh[OF assms(1) f s])
qed

lemma nonempty_mem: "x \<in> set xs \<Longrightarrow> xs \<noteq> []"
  by auto

lemma symbolThenNumber_matches:
  assumes sp: "optionalSpace sp" and ds: "digitsUpTo 3 ds" and dec: "optionalDecimals dec"
    and pre: "\<not> optPred isWordChar p" and post: "\<not> optPred isWordChar (headOpt post)"
  shows "rmatch False (symbolThenNumber cur) (k, p, cur # sp @ ds @ dec @ post, []) \<noteq> []"
proof -
  let ?k1 = "Suc k" let ?k2 = "Suc k + length sp" let ?k3 = "Suc k + length sp + length ds"
  let ?k4 = "Suc k + length sp + length ds + length dec"
  let ?p2 = "lastOr (Some cur) sp" let ?p3 = "lastOr ?p2 ds" let ?p4 = "lastOr ?p3 dec"
  have m0: "(k, p, cur # sp @ ds @ dec @ post, []) \<in> set (rmatch False (NotAfter isWordChar) (k, p, cur # sp @ ds @ dec @ post, []))"
    using pre by (rule rmatch_NotAfter_mem)
  have m1: "(?k1, Some cur, sp @ ds @ dec @ post, []) \<in> set (rmatch False (lit cur) (k, p, cur # sp @ ds @ dec @ post, []))"
    by (rule rmatch_lit_mem)
  have m2: "(?k2, ?p2, ds @ dec @ post, []) \<in> set (rmatch False (optional (Cls isSpace)) (?k1, Some cur, sp @ ds @ dec @ post, []))"
    using sp by (rule optionalSpace_mem)
  have m3: "(?k3, ?p3, dec @ post, []) \<in> set (rmatch False (between 1 3 (Cls isDigit)) (?k2, ?p2, ds @ dec @ post, []))"
    using ds by (rule digits_mem)
  have m4: "(?k4, ?p4, post, []) \<in> set (rmatch False (optional decimals) (?k3, ?p3, dec @ post, []))"
    using dec by (rule optionalDecimals_mem)
  have m5: "(?k4, ?p4, post, []) \<in> set (rmatch False (NotBefore isWordChar) (?k4, ?p4, post, []))"
    using post by (rule rmatch_NotBefore_mem)
  have "(?k4, ?p4, post, []) \<in> set (rmatch False (symbolThenNumber cur) (k, p, cur # sp @ ds @ dec @ post, []))"
    unfolding symbolThenNumber_def seqs.simps
    by (rule rmatch_Seq_mem[OF m0] rmatch_Seq_mem[OF m1] rmatch_Seq_mem[OF m2] rmatch_Seq_mem[OF m3]
        rmatch_Seq_mem[OF m4] m5)+
  then show ?thesis by (rule nonempty_mem)
qed

lemma yenThenNumber_matches:
  assumes sp: "optionalSpace sp" and ds: "digitsUpTo 4 ds"
    and pre: "\<not> optPred isWordChar p" and post: "\<not> optPred isWordChar (headOpt post)"
  shows "rmatch False pp4 (k, p, 165 # sp @ ds @ post, []) \<noteq> []"
proof -
  let ?k1 = "Suc k" let ?k2 = "Suc k + length sp" let ?k3 = "Suc k + length sp + length ds"
  let ?p2 = "lastOr (Some 165) sp" let ?p3 = "lastOr ?p2 ds"
  have m0: "(k, p, 165 # sp @ ds @ post, []) \<in> set (rmatch False (NotAfter isWordChar) (k, p, 165 # sp @ ds @ post, []))"
    using pre by (rule rmatch_NotAfter_mem)
  have m1: "(?k1, Some 165, sp @ ds @ post, []) \<in> set (rmatch False (lit 165) (k, p, 165 # sp @ ds @ post, []))"
    by (rule rmatch_lit_mem)
  have m2: "(?k2, ?p2, ds @ post, []) \<in> set (rmatch False (optional (Cls isSpace)) (?k1, Some 165, sp @ ds @ post, []))"
    using sp by (rule optionalSpace_mem)
  have m3: "(?k3, ?p3, post, []) \<in> set (rmatch False (between 1 4 (Cls isDigit)) (?k2, ?p2, ds @ post, []))"
    using ds by (rule digits_mem)
  have m5: "(?k3, ?p3, post, []) \<in> set (rmatch False (NotBefore isWordChar) (?k3, ?p3, post, []))"
    using post by (rule rmatch_NotBefore_mem)
  have "(?k3, ?p3, post, []) \<in> set (rmatch False pp4 (k, p, 165 # sp @ ds @ post, []))"
    unfolding pp4_def seqs.simps
    by (rule rmatch_Seq_mem[OF m0] rmatch_Seq_mem[OF m1] rmatch_Seq_mem[OF m2] rmatch_Seq_mem[OF m3] m5)+
  then show ?thesis by (rule nonempty_mem)
qed

lemma numberThenEuro_matches:
  assumes sp: "optionalSpace sp" and ds: "digitsUpTo 3 ds" and dec: "optionalDecimals dec"
    and pre: "\<not> optPred isWordChar p" and post: "\<not> optPred isWordChar (headOpt post)"
  shows "rmatch False pp2 (k, p, ds @ dec @ sp @ 8364 # post, []) \<noteq> []"
proof -
  let ?k1 = "k + length ds" let ?k2 = "k + length ds + length dec" let ?k3 = "k + length ds + length dec + length sp"
  let ?p1 = "lastOr p ds" let ?p2 = "lastOr ?p1 dec" let ?p3 = "lastOr ?p2 sp"
  let ?x = "(k, p, ds @ dec @ sp @ 8364 # post, [])"
  have m0: "?x \<in> set (rmatch False (NotAfter isWordChar) ?x)"
    using pre by (rule rmatch_NotAfter_mem)
  have m1: "(?k1, ?p1, dec @ sp @ 8364 # post, []) \<in> set (rmatch False (between 1 3 (Cls isDigit)) ?x)"
    using ds by (rule digits_mem)
  have m2: "(?k2, ?p2, sp @ 8364 # post, []) \<in> set (rmatch False (optional decimals) (?k1, ?p1, dec @ sp @ 8364 # post, []))"
    using dec by (rule optionalDecimals_mem)
  have m3: "(?k3, ?p3, 8364 # post, []) \<in> set (rmatch False (optional (Cls isSpace)) (?k2, ?p2, sp @ 8364 # post, []))"
    using sp by (rule optionalSpace_mem)
  have m4: "(Suc ?k3, Some 8364, post, []) \<in> set (rmatch False (lit 8364) (?k3, ?p3, 8364 # post, []))"
    by (rule rmatch_lit_mem)
  have m5: "(Suc ?k3, Some 8364, post, []) \<in> set (rmatch False (NotBefore isWordChar) (Suc ?k3, Some 8364, post, []))"
    using post by (rule rmatch_NotBefore_mem)
  have "(Suc ?k3, Some 8364, post, [])
      \<in> set (rmatch False (seqs [NotAfter isWordChar, between 1 3 (Cls isDigit), optional decimals, optional (Cls isSpace),
                    lit 8364, NotBefore isWordChar]) ?x)"
    unfolding seqs.simps
    by (rule rmatch_Seq_mem[OF m0] rmatch_Seq_mem[OF m1] rmatch_Seq_mem[OF m2] rmatch_Seq_mem[OF m3]
        rmatch_Seq_mem[OF m4] m5)+
  then have "(Suc ?k3, Some 8364, post, []) \<in> set (rmatch False pp2 ?x)"
    unfolding pp2_def by simp
  then show ?thesis by (rule nonempty_mem)
qed

lemma bareDecimal_matches:
  assumes ds: "digitsUpTo 3 ds" and dec: "decimalPart dec"
    and pre: "\<not> optPred isWordChar p" and post: "\<not> optPred isWordChar (headOpt post)"
  shows "rmatch False pp5 (k, p, ds @ dec @ post, []) \<noteq> []"
proof -
  let ?k1 = "k + length ds" let ?k2 = "k + length ds + length dec"
  let ?p1 = "lastOr p ds" let ?p2 = "lastOr ?p1 dec"
  let ?x = "(k, p, ds @ dec @ post, [])"
  have m0: "?x \<in> set (rmatch False (NotAfter isWordChar) ?x)"
    using pre by (rule rmatch_NotAfter_mem)
  have m1: "(?k1, ?p1, dec @ post, []) \<in> set (rmatch False (between 1 3 (Cls isDigit)) ?x)"
    using ds by (rule digits_mem)
  have m2: "(?k2, ?p2, post, []) \<in> set (rmatch False decimals (?k1, ?p1, dec @ post, []))"
    using dec by (rule decimals_mem)
  have m5: "(?k2, ?p2, post, []) \<in> set (rmatch False (NotBefore isWordChar) (?k2, ?p2, post, []))"
    using post by (rule rmatch_NotBefore_mem)
  have "(?k2, ?p2, post, []) \<in> set (rmatch False pp5 ?x)"
    unfolding pp5_def seqs.simps
    by (rule rmatch_Seq_mem[OF m0] rmatch_Seq_mem[OF m1] rmatch_Seq_mem[OF m2] m5)+
  then show ?thesis by (rule nonempty_mem)
qed

lemma numberAtEnd_matches:
  assumes ds: "digitsUpTo 3 ds" and dec: "optionalDecimals dec" and ws: "list_all isSpace ws"
    and pre: "\<not> optPred isWordChar p"
  shows "rmatch False pp6 (k, p, ds @ dec @ ws, []) \<noteq> []"
proof -
  let ?k1 = "k + length ds" let ?k2 = "k + length ds + length dec" let ?k3 = "k + length ds + length dec + length ws"
  let ?p1 = "lastOr p ds" let ?p2 = "lastOr ?p1 dec" let ?p3 = "lastOr ?p2 ws"
  let ?x = "(k, p, ds @ dec @ ws, [])"
  have m0: "?x \<in> set (rmatch False (NotAfter isWordChar) ?x)"
    using pre by (rule rmatch_NotAfter_mem)
  have m1: "(?k1, ?p1, dec @ ws, []) \<in> set (rmatch False (between 1 3 (Cls isDigit)) ?x)"
    using ds by (rule digits_mem)
  have m2: "(?k2, ?p2, ws, []) \<in> set (rmatch False (optional decimals) (?k1, ?p1, dec @ ws, []))"
    using dec by (rule optionalDecimals_mem)
  have m3: "(?k3, ?p3, [], []) \<in> set (rmatch False (many (Cls isSpace)) (?k2, ?p2, ws @ [], []))"
    using ws by (rule many_mem)
  have m5: "(?k3, ?p3, [], []) \<in> set (rmatch False Eol (?k3, ?p3, [], []))"
    by (rule rmatch_Eol_mem)
  have "(?k3, ?p3, [], []) \<in> set (rmatch False pp6 ?x)"
    unfolding pp6_def seqs.simps
    by (rule rmatch_Seq_mem[OF m0] rmatch_Seq_mem[OF m1] rmatch_Seq_mem[OF m2] rmatch_Seq_mem[OF m3[simplified]] m5)+
  then show ?thesis by (rule nonempty_mem)
qed

lemma patterns_mem:
  "(False, pp1) \<in> set PRICE_PATTERNS" "(False, pp2) \<in> set PRICE_PATTERNS" "(False, pp3) \<in> set PRICE_PATTERNS"
  "(False, pp4) \<in> set PRICE_PATTERNS" "(False, pp5) \<in> set PRICE_PATTERNS" "(False, pp6) \<in> set PRICE_PATTERNS"
  by (simp_all add: PRICE_PATTERNS_def)


text \<open>
  C7, as stated, fails.  From fresh pattern objects \<^verbatim>\<open>containsPrice\<close> answers false on
  the text \<^verbatim>\<open>market price\<close>: none of the six patterns of \<^verbatim>\<open>PRICE_PATTERNS\<close> mentions
  the phrase.  It also answers false on a number at the start of a line and on a number
  followed by a dollar, pound or yen sign: no pattern is anchored at the start, and only
  the euro sign has a pattern with the number first.
\<close>

theorem containsPrice_unrecognised_formats:
  "fst (containsPrice freshPriceIndexes (asc ''market price'')) = False
   \<and> fst (containsPrice freshPriceIndexes (asc ''12 apples'')) = False
   \<and> fst (containsPrice freshPriceIndexes (asc ''12$ steak'')) = False
   \<and> fst (containsPrice freshPriceIndexes (asc ''12'' @ [163] @ asc '' steak'')) = False
   \<and> fst (containsPrice freshPriceIndexes (asc ''12'' @ [165] @ asc '' steak'')) = False"
  by (simp add: containsPrice_def rx_eval price_eval)


text \<open>
  C7, amended.  From fresh pattern objects (every \<^verbatim>\<open>lastIndex\<close> is 0), \<^verbatim>\<open>containsPrice\<close>
  answers true on every text that holds, standing alone,
  \<^item> a dollar, euro or pound sign, at most one white-space character and a number of one
    to three digits with or without a decimal part;
  \<^item> a yen sign, at most one white-space character and a number of one to four digits;
  \<^item> a number of one to three digits with or without a decimal part, at most one
    white-space character and a euro sign;
  \<^item> a number of one to three digits with a decimal part;
  \<^item> a number of one to three digits with or without a decimal part, followed by
    nothing but white space up to the end of the text.

  The phrase is recognised by the price normaliser's predicate: in every state of its
  pattern objects, \<^verbatim>\<open>containsAnyPrice\<close> answers true on every text that holds, standing
  alone, the word \<^verbatim>\<open>market\<close>, one or more white-space characters and the word
  \<^verbatim>\<open>price\<close>, in any mix of upper and lower case.
\<close>

theorem price_recognition:
  "(\<forall>pre cur sp ds dec post.
      cur \<in> {36, 8364, 163} \<and> optionalSpace sp \<and> digitsUpTo 3 ds \<and> optionalDecimals dec \<and> standsAlone pre post
      \<longrightarrow> fst (containsPrice freshPriceIndexes (pre @ cur # sp @ ds @ dec @ post)))
   \<and> (\<forall>pre sp ds post.
      optionalSpace sp \<and> digitsUpTo 4 ds \<and> standsAlone pre post
      \<longrightarrow> fst (containsPrice freshPriceIndexes (pre @ 165 # sp @ ds @ post)))
   \<and> (\<forall>pre ds dec sp post.
      digitsUpTo 3 ds \<and> optionalDecimals dec \<and> optionalSpace sp \<and> standsAlone pre post
      \<longrightarrow> fst (containsPrice freshPriceIndexes (pre @ ds @ dec @ sp @ 8364 # post)))
   \<and> (\<forall>pre ds dec post.
      digitsUpTo 3 ds \<and> decimalPart dec \<and> standsAlone pre post
      \<longrightarrow> fst (containsPrice freshPriceIndexes (pre @ ds @ dec @ post)))
   \<and> (\<forall>pre ds dec ws.
      digitsUpTo 3 ds \<and> optionalDecimals dec \<and> list_all isSpace ws \<and> standsAlone pre []
      \<longrightarrow> fst (containsPrice freshPriceIndexes (pre @ ds @ dec @ ws)))
   \<and> (\<forall>st pre w1 ws w2 post.
      map ascLower w1 = asc ''market'' \<and> map ascLower w2 = asc ''price'' \<and> ws \<noteq> [] \<and> list_all isSpace ws
      \<and> standsAlone pre post
      \<longrightarrow> fst (containsAnyPrice st (pre @ w1 @ ws @ w2 @ post)))"
proof (intro conjI allI impI)
  fix pre sp ds dec post :: jsstring and cur :: jschar
  assume a: "cur \<in> {36, 8364, 163} \<and> optionalSpace sp \<and> digitsUpTo 3 ds \<and> optionalDecimals dec \<and> standsAlone pre post"
  then have m: "rmatch False (symbolThenNumber cur) (0 + length pre, lastOr None pre, cur # sp @ ds @ dec @ post, []) \<noteq> []"
    by (intro symbolThenNumber_matches) (simp_all add: standsAlone_def)
  from a consider "cur = 36" | "cur = 8364" | "cur = 163" by auto
  then show "fst (containsPrice freshPriceIndexes (pre @ cur # sp @ ds @ dec @ post))"
  proof cases
    case 1
    show ?thesis by (rule containsPrice_fresh[OF patterns_mem(1)]) (use m 1 in \<open>simp add: pp1_def\<close>)
  next
    case 2
    show ?thesis by (rule containsPrice_fresh[OF patterns_mem(2)]) (use m 2 in \<open>simp add: pp2_def\<close>)
  next
    case 3
    show ?thesis by (rule containsPrice_fresh[OF patterns_mem(3)]) (use m 3 in \<open>simp add: pp3_def\<close>)
  qed
next
  fix pre sp ds post :: jsstring
  assume "optionalSpace sp \<and> digitsUpTo 4 ds \<and> standsAlone pre post"
  then have "rmatch False pp4 (0 + length pre, lastOr None pre, 165 # sp @ ds @ post, []) \<noteq> []"
    by (intro yenThenNumber_matches) (simp_all add: standsAlone_def)
  then show "fst (containsPrice freshPriceIndexes (pre @ 165 # sp @ ds @ post))"
    by (rule containsPrice_fresh[OF patterns_mem(4)])
next
  fix pre ds dec sp post :: jsstring
  assume "digitsUpTo 3 ds \<and> optionalDecimals dec \<and> optionalSpace sp \<and> standsAlone pre post"
  then have "rmatch False pp2 (0 + length pre, lastOr None pre, ds @ dec @ sp @ 8364 # post, []) \<noteq> []"
    by (intro numberThenEuro_matches) (simp_all add: standsAlone_def)
  then show "fst (containsPrice freshPriceIndexes (pre @ ds @ dec @ sp @ 8364 # post))"
    by (rule containsPrice_fresh[OF patterns_mem(2)])
next
  fix pre ds dec post :: jsstring
  assume "digitsUpTo 3 ds \<and> decimalPart dec \<and> standsAlone pre post"
  then have "rmatch False pp5 (0 + length pre, lastOr None pre, ds @ dec @ post, []) \<noteq> []"
    by (intro bareDecimal_matches) (simp_all add: standsAlone_def)
  then show "fst (containsPrice freshPriceIndexes (pre @ ds @ dec @ post))"
    by (rule containsPrice_fresh[OF patterns_mem(5)])
next
  fix pre ds dec ws :: jsstring
  assume "digitsUpTo 3 ds \<and> optionalDecimals dec \<and> list_all isSpace ws \<and> standsAlone pre []"
  then have "rmatch False pp6 (0 + length pre, lastOr None pre, ds @ dec @ ws, []) \<noteq> []"
    by (intro numberAtEnd_matches) (simp_all add: standsAlone_def)
  then show "fst (containsPrice freshPriceIndexes (pre @ ds @ dec @ ws))"
    by (rule containsPrice_fresh[OF patterns_mem(6)])
next
  fix st :: lastIndexes and pre w1 ws w2 post :: jsstring
  assume a: "map ascLower w1 = asc ''market'' \<and> map ascLower w2 = asc ''price'' \<and> ws \<noteq> [] \<and> list_all isSpace ws
      \<and> standsAlone pre post"
  then have "rmatch True marketPrice (0 + length pre, lastOr None pre, w1 @ ws @ w2 @ post, []) \<noteq> []"
    by (intro marketPrice_matches) (simp_all add: standsAlone_def)
  then have "rsearch True marketPrice 0 None (pre @ w1 @ ws @ w2 @ post) \<noteq> None"
    by (rule rsearch_finds)
  then have "regexTest True marketPrice (pre @ w1 @ ws @ w2 @ post)"
    by (simp add: regexTest_def)
  then show "fst (containsAnyPrice st (pre @ w1 @ ws @ w2 @ post))"
    by (simp add: containsAnyPrice_def split: prod.splits bool.splits)
qed


lemmas format_eval =
  optionalSpace_def digitsUpTo_def optionalDecimals_def decimalPart_def standsAlone_def lastOr_def
  isDigit_def isSpace_def isWordChar_def isDotComma_def isLowerAZ_def isUpperAZ_def ascLower_def asc_def

theorem price_recognition_witness:
  "fst (containsPrice freshPriceIndexes (asc ''Steak $12.50 each''))
   \<and> fst (containsPrice freshPriceIndexes (asc ''Ramen '' @ [165] @ asc ''1200''))
   \<and> fst (containsPrice freshPriceIndexes (asc ''Moules 12,50 '' @ [8364] @ asc '' ce soir''))
   \<and> fst (containsPrice freshPriceIndexes (asc ''Soup 7.50 or salad''))
   \<and> fst (containsPrice freshPriceIndexes (asc ''Plat du jour 18 ''))
   \<and> fst (containsAnyPrice freshIndexes (asc ''Lobster Market  Price today''))"
proof -
  note p = price_recognition
  have "fst (containsPrice freshPriceIndexes (asc ''Steak '' @ 36 # [] @ asc ''12'' @ asc ''.50'' @ asc '' each''))"
    by (rule p[THEN conjunct1, rule_format]) (simp add: format_eval)
  moreover have "fst (containsPrice freshPriceIndexes (asc ''Ramen '' @ 165 # [] @ asc ''1200'' @ []))"
    by (rule p[THEN conjunct2, THEN conjunct1, rule_format]) (simp add: format_eval)
  moreover have "fst (containsPrice freshPriceIndexes (asc ''Moules '' @ asc ''12'' @ asc '',50'' @ asc '' '' @ 8364 # asc '' ce soir''))"
    by (rule p[THEN conjunct2, THEN conjunct2, THEN conjunct1, rule_format]) (simp add: format_eval)
  moreover have "fst (containsPrice freshPriceIndexes (asc ''Soup '' @ asc ''7'' @ asc ''.50'' @ asc '' or salad''))"
    by (rule p[THEN conjunct2, THEN conjunct2, THEN conjunct2, THEN conjunct1, rule_format]) (simp add: format_eval)
  moreover have "fst (containsPrice freshPriceIndexes (asc ''Plat du jour '' @ asc ''18'' @ [] @ asc '' ''))"
    by (rule p[THEN conjunct2, THEN conjunct2, THEN conjunct2, THEN conjunct2, THEN conjunct1, rule_format])
      (simp add: format_eval)
  moreover have "fst (containsAnyPrice freshIndexes (asc ''Lobster '' @ asc ''Market'' @ asc ''  '' @ asc ''Price'' @ asc '' today''))"
    by (rule p[THEN conjunct2, THEN conjunct2, THEN conjunct2, THEN conjunct2, THEN conjunct2, rule_format])
      (simp add: format_eval)
  ultimately show ?thesis by (simp add: asc_def)
qed

subsection \<open>Rounding to doubles\<close>

lemma pow2_powr: "pow2 e = 2 powr (real_of_int e)"
proof (cases "0 \<le> e")
  case True
  have "2 powr real_of_int e = 2 powr real (nat e)" using True by simp
  also have "\<dots> = 2 ^ nat e" by (rule powr_realpow) simp
  finally show ?thesis using True by (simp add: pow2_def)
next
  case False
  have "2 powr real_of_int e = 2 powr (- real (nat (- e)))" using False by simp
  also have "\<dots> = 1 / 2 powr real (nat (- e))" by (rule powr_minus_divide)
  also have "2 powr real (nat (- e)) = 2 ^ nat (- e)" by (rule powr_realpow) simp
  finally show ?thesis using False by (simp add: pow2_def)
qed

lemma pow2_pos: "0 < pow2 e"
  by (simp add: pow2_powr)

lemma pow2_Suc: "pow2 (e + 1) = 2 * pow2 e"
  by (simp add: pow2_powr powr_add)

lemma pow2_pred: "pow2 (e - 1) = pow2 e / 2"
  by (simp add: pow2_powr powr_diff)

lemma pow2_add: "pow2 (a + b) = pow2 a * pow2 b"
  by (simp add: pow2_powr powr_add)

lemma pow2_mono: "a \<le> b \<Longrightarrow> pow2 a \<le> pow2 b"
  by (simp add: pow2_powr)

lemma pow2_less: "pow2 a < pow2 b \<longleftrightarrow> a < b"
  by (simp add: pow2_powr)

lemma pow2_nat: "pow2 (int n) = 2 ^ n"
  by (simp add: pow2_def)

lemma bexp_bounds: "0 < x \<Longrightarrow> pow2 (bexp x) \<le> x \<and> x < 2 * pow2 (bexp x)"
proof (induction x rule: bexp.induct)
  case (1 x)
  show ?case
  proof (cases "2 \<le> x")
    case True
    then have b: "bexp x = bexp (x / 2) + 1" using 1(3) by (subst bexp.simps) simp
    have "0 < x / 2" using 1(3) by simp
    from 1(1)[OF _ True this] 1(3) have "pow2 (bexp (x / 2)) \<le> x / 2 \<and> x / 2 < 2 * pow2 (bexp (x / 2))" by simp
    then show ?thesis by (simp add: b pow2_Suc)
  next
    case False
    show ?thesis
    proof (cases "x < 1")
      case True
      then have b: "bexp x = bexp (2 * x) - 1" using 1(3) False by (subst bexp.simps) simp
      have "0 < 2 * x" using 1(3) by simp
      from 1(2)[OF _ False True this] 1(3) have "pow2 (bexp (2 * x)) \<le> 2 * x \<and> 2 * x < 2 * pow2 (bexp (2 * x))" by simp
      then show ?thesis by (simp add: b pow2_pred)
    next
      case nl: False
      then have "bexp x = 0" using 1(3) False by (subst bexp.simps) simp
      then show ?thesis using False nl by (simp add: pow2_def)
    qed
  qed
qed

lemma bexp_eq:
  assumes "pow2 e \<le> x" and "x < 2 * pow2 e"
  shows "bexp x = e"
proof -
  have x: "0 < x" using assms(1) pow2_pos[of e] by linarith
  from bexp_bounds[OF x] have b: "pow2 (bexp x) \<le> x" "x < pow2 (bexp x + 1)" by (simp_all add: pow2_Suc)
  have "pow2 e < pow2 (bexp x + 1)" using assms(1) b(2) by linarith
  then have 1: "e < bexp x + 1" by (simp add: pow2_less)
  have "pow2 (bexp x) < pow2 (e + 1)" using assms(2) b(1) by (simp add: pow2_Suc)
  then have 2: "bexp x < e + 1" by (simp add: pow2_less)
  from 1 2 show ?thesis by simp
qed

lemma roundEven_eq:
  assumes "real_of_int m - 1 / 2 < y" and "y < real_of_int m + 1 / 2"
  shows "roundEven y = m"
proof -
  have "\<lfloor>y\<rfloor> = m \<or> \<lfloor>y\<rfloor> = m - 1" using assms by linarith
  then show ?thesis
  proof
    assume f: "\<lfloor>y\<rfloor> = m"
    then have "y - real_of_int \<lfloor>y\<rfloor> < 1 / 2" using assms by simp
    then show ?thesis by (simp add: roundEven_def f)
  next
    assume f: "\<lfloor>y\<rfloor> = m - 1"
    then have "1 / 2 < y - real_of_int \<lfloor>y\<rfloor>" using assms by simp
    then show ?thesis by (simp add: roundEven_def f)
  qed
qed

lemma roundEven_int: "roundEven (real_of_int m) = m"
  by (rule roundEven_eq) simp_all

lemma roundEven_ge: "real_of_int m \<le> y \<Longrightarrow> m \<le> roundEven y"
proof -
  assume "real_of_int m \<le> y"
  then have "m \<le> \<lfloor>y\<rfloor>" by (simp add: le_floor_iff)
  then show ?thesis by (auto simp: roundEven_def)
qed

text \<open>Evaluation of a rounding from bounds.\<close>

lemma fl_eval:
  assumes e: "pow2 e \<le> \<bar>x\<bar>" "\<bar>x\<bar> < 2 * pow2 e" and r: "- 1022 \<le> e" "e \<le> 1022"
    and m: "(real_of_int m - 1 / 2) * pow2 (e - 52) < x" "x < (real_of_int m + 1 / 2) * pow2 (e - 52)"
  shows "fl x = Fin (pow2 (e - 52) * real_of_int m)"
proof -
  have b: "bexp \<bar>x\<bar> = e" using e by (rule bexp_eq)
  have u: "ulp x = pow2 (e - 52)" using r by (simp add: ulp_def b)
  have "2 * pow2 e \<le> pow2 1023" using r(2) pow2_mono[of "e + 1" 1023] by (simp add: pow2_Suc)
  also have "\<dots> < 2 ^ 1024 - 2 ^ 970" by (simp add: pow2_def)
  finally have t: "\<not> 2 ^ 1024 - 2 ^ 970 \<le> \<bar>x\<bar>" using e(2) by linarith
  have p: "0 < pow2 (e - 52)" by (rule pow2_pos)
  have "roundEven (x / pow2 (e - 52)) = m"
    using m p by (intro roundEven_eq) (simp_all add: field_simps)
  then show ?thesis using t by (simp add: fl_def u)
qed

lemma fl_nat:
  assumes "n < 2 ^ 53"
  shows "fl (real n) = Fin (real n)"
proof (cases "n = 0")
  case True
  then show ?thesis by (simp add: fl_def roundEven_def)
next
  case False
  then have x: "0 < real n" by simp
  from bexp_bounds[OF x] have b: "pow2 (bexp (real n)) \<le> real n" "real n < pow2 (bexp (real n) + 1)"
    by (simp_all add: pow2_Suc)
  have "real n < pow2 53" using assms by (simp add: pow2_def)
  with b(1) have "pow2 (bexp (real n)) < pow2 53" by linarith
  then have hi: "bexp (real n) < 53" by (simp add: pow2_less)
  have "1 \<le> real n" using False by simp
  then have "pow2 0 < pow2 (bexp (real n) + 1)" using b(2) by (simp add: pow2_def)
  then have lo: "0 \<le> bexp (real n)" by (simp add: pow2_less)
  define k where "k = nat (52 - bexp (real n))"
  have u: "ulp (real n) = 1 / 2 ^ k"
    using lo hi by (simp add: ulp_def pow2_def k_def)
  have q: "real n / ulp (real n) = real_of_int (int (n * 2 ^ k))" by (simp add: u)
  have "roundEven (real n / ulp (real n)) = int (n * 2 ^ k)"
    unfolding q by (rule roundEven_int)
  moreover have "\<not> 2 ^ 1024 - 2 ^ 970 \<le> \<bar>real n\<bar>"
  proof -
    have "real n < 2 ^ 53" using assms by (metis of_nat_less_iff of_nat_numeral of_nat_power)
    moreover have "(2::real) ^ 53 < 2 ^ 1024 - 2 ^ 970" by simp
    ultimately show ?thesis by simp
  qed
  ultimately show ?thesis by (simp add: fl_def u)
qed

lemma fl_ge_one:
  assumes "1 \<le> x" and "x < 2 ^ 1023"
  shows "\<exists>y. fl x = Fin y \<and> 1 \<le> y"
proof -
  have x: "0 < x" using assms by simp
  from bexp_bounds[OF x] have b: "pow2 (bexp x) \<le> x" "x < pow2 (bexp x + 1)" by (simp_all add: pow2_Suc)
  have "pow2 0 < pow2 (bexp x + 1)" using assms(1) b(2) by (simp add: pow2_def)
  then have lo: "0 \<le> bexp x" by (simp add: pow2_less)
  have a: "\<bar>x\<bar> = x" using x by simp
  have u: "ulp x = pow2 (bexp x - 52)" using lo by (simp add: ulp_def a)
  have p: "0 < pow2 (bexp x - 52)" by (rule pow2_pos)
  have "pow2 (bexp x) = pow2 (bexp x - 52) * pow2 52" using pow2_add[of "bexp x - 52" 52] by simp
  then have "real_of_int (2 ^ 52) \<le> x / pow2 (bexp x - 52)"
    using b(1) p by (simp add: field_simps pow2_def)
  then have "2 ^ 52 \<le> roundEven (x / pow2 (bexp x - 52))" by (rule roundEven_ge)
  then have "real_of_int (2 ^ 52) \<le> real_of_int (roundEven (x / pow2 (bexp x - 52)))" by linarith
  then have "pow2 (bexp x - 52) * 2 ^ 52 \<le> pow2 (bexp x - 52) * real_of_int (roundEven (x / pow2 (bexp x - 52)))"
    using p by simp
  moreover have "pow2 (bexp x - 52) * 2 ^ 52 = pow2 (bexp x)"
    using pow2_add[of "bexp x - 52" 52] by (simp add: pow2_def)
  moreover have "1 \<le> pow2 (bexp x)" using pow2_mono[OF lo] by (simp add: pow2_def)
  ultimately have "1 \<le> ulp x * real_of_int (roundEven (x / ulp x))" by (simp add: u)
  moreover have "\<not> 2 ^ 1024 - 2 ^ 970 \<le> \<bar>x\<bar>"
  proof -
    have "(2::real) ^ 1023 < 2 ^ 1024 - 2 ^ 970" by simp
    then show ?thesis using assms(2) a by linarith
  qed
  ultimately show ?thesis by (simp add: fl_def)
qed

lemma fl_sqrt:
  assumes "pow2 e \<le> a" and "0 \<le> a" and "b \<le> 2 * pow2 e" and "- 1022 \<le> e" and "e \<le> 1022"
    and "a = (real_of_int m - 1 / 2) * pow2 (e - 52)" and "b = (real_of_int m + 1 / 2) * pow2 (e - 52)"
    and "a\<^sup>2 < x" and "x < b\<^sup>2" and "0 \<le> b"
  shows "fl (sqrt x) = Fin (pow2 (e - 52) * real_of_int m)"
proof -
  have lo: "a < sqrt x" using assms(8) by (rule real_less_rsqrt)
  have hi: "sqrt x < b" using assms(10) assms(9) by (rule real_less_lsqrt)
  have p: "0 < sqrt x" using lo assms(2) by linarith
  show ?thesis
  proof (rule fl_eval[OF _ _ assms(4) assms(5)])
    show "pow2 e \<le> \<bar>sqrt x\<bar>" using lo assms(1) p by linarith
    show "\<bar>sqrt x\<bar> < 2 * pow2 e" using hi assms(3) p by linarith
    show "(real_of_int m - 1 / 2) * pow2 (e - 52) < sqrt x" using lo assms(6) by simp
    show "sqrt x < (real_of_int m + 1 / 2) * pow2 (e - 52)" using hi assms(7) by simp
  qed
qed

lemma fl_sqrt_2: "fl (sqrt 2) = Fin (6369051672525773 / 4503599627370496)"
  using fl_sqrt[of 0 "(6369051672525773 - 1 / 2) * pow2 (0 - 52)" "(6369051672525773 + 1 / 2) * pow2 (0 - 52)" 6369051672525773 2]
  by (simp add: pow2_def power2_eq_square)

lemma fl_sqrt_3: "fl (sqrt 3) = Fin (7800463371553962 / 4503599627370496)"
  using fl_sqrt[of 0 "(7800463371553962 - 1 / 2) * pow2 (0 - 52)" "(7800463371553962 + 1 / 2) * pow2 (0 - 52)" 7800463371553962 3]
  by (simp add: pow2_def power2_eq_square)

lemma fl_sqrt_5: "fl (sqrt 5) = Fin (5035177455121576 / 2251799813685248)"
  using fl_sqrt[of 1 "(5035177455121576 - 1 / 2) * pow2 (1 - 52)" "(5035177455121576 + 1 / 2) * pow2 (1 - 52)" 5035177455121576 5]
  by (simp add: pow2_def power2_eq_square)


subsection \<open>Word vectors\<close>

lemma map_of_bump:
  "w \<notin> set inheritedMethods \<Longrightarrow>
   map_of (bump v w) k =
     (if k = w then Some (case map_of v w of None \<Rightarrow> Count 1 | Some (Count n) \<Rightarrow> Count (n + 1)
                          | Some NotANumber \<Rightarrow> NotANumber)
      else map_of v k)"
  by (induction v w rule: bump.induct) (auto split: slot.splits)

lemma keys_bump: "fst ` set (bump v w) = insert w (fst ` set v)"
  by (induction v w rule: bump.induct) auto

lemma distinct_bump: "distinct (map fst v) \<Longrightarrow> distinct (map fst (bump v w))"
  by (induction v w rule: bump.induct) (auto simp: keys_bump)

lemma createWordVector_counts:
  assumes "list_all (\<lambda>w. w \<notin> set inheritedMethods \<and> w \<noteq> asc ''__proto__'') ws"
  shows "(\<forall>k. map_of (createWordVector ws) k = (if k \<in> set ws then Some (Count (count_list ws k)) else None))
         \<and> distinct (map fst (createWordVector ws)) \<and> fst ` set (createWordVector ws) = set ws"
  using assms
proof (induction ws rule: rev_induct)
  case Nil
  then show ?case by (simp add: createWordVector_def)
next
  case (snoc w ws)
  let ?V = "createWordVector ws"
  have w: "w \<notin> set inheritedMethods" "w \<noteq> asc ''__proto__''" and ws: "list_all (\<lambda>w. w \<notin> set inheritedMethods \<and> w \<noteq> asc ''__proto__'') ws"
    using snoc.prems by auto
  from snoc.IH[OF ws] have ih: "\<And>k. map_of ?V k = (if k \<in> set ws then Some (Count (count_list ws k)) else None)"
    "distinct (map fst ?V)" "fst ` set ?V = set ws" by auto
  have s: "createWordVector (ws @ [w]) = bump ?V w"
    using w by (simp add: createWordVector_def addWord_def)
  have c: "count_list ws w = 0" if "w \<notin> set ws" using that by (simp add: count_list_0_iff)
  show ?case
    unfolding s using ih w(1) c by (auto simp: map_of_bump keys_bump distinct_bump)
qed

lemma component_counts:
  assumes "list_all (\<lambda>w. w \<notin> set inheritedMethods \<and> w \<noteq> asc ''__proto__'') ws"
    and "k \<notin> set inheritedMethods" and "k \<noteq> asc ''__proto__''"
  shows "component (createWordVector ws) k = ofNat (count_list ws k)"
proof -
  from createWordVector_counts[OF assms(1)]
  have m: "map_of (createWordVector ws) k = (if k \<in> set ws then Some (Count (count_list ws k)) else None)" by simp
  have c: "count_list ws k = 0" if "k \<notin> set ws" using that by (simp add: count_list_0_iff)
  show ?thesis using assms(2,3) c by (simp add: component_def m ofNat_def)
qed

lemma keySet_acc:
  "distinct acc \<Longrightarrow>
   distinct (foldl (\<lambda>seen k. if k \<in> set seen then seen else seen @ [k]) acc ks)
   \<and> set (foldl (\<lambda>seen k. if k \<in> set seen then seen else seen @ [k]) acc ks) = set acc \<union> set ks"
  by (induction ks arbitrary: acc) auto

lemma keySet_props: "distinct (keySet ks)" "set (keySet ks) = set ks"
  using keySet_acc[of "[]" ks] by (simp_all add: keySet_def)

lemma real_nat_less: "n < 2 ^ 53 \<Longrightarrow> real n < 2 ^ 53"
  by (metis of_nat_less_iff of_nat_numeral of_nat_power)

lemma jmul_nat: "a * b < 2 ^ 53 \<Longrightarrow> jmul (ofNat a) (ofNat b) = ofNat (a * b)"
  using fl_nat[of "a * b"] by (simp add: ofNat_def)

lemma jadd_nat: "a + b < 2 ^ 53 \<Longrightarrow> jadd (ofNat a) (ofNat b) = ofNat (a + b)"
  using fl_nat[of "a + b"] by (simp add: ofNat_def)

lemma foldl_exact:
  "acc + sum_list (map (\<lambda>k. f k * g k) ks) < 2 ^ 53 \<Longrightarrow>
   foldl (\<lambda>d k. jadd d (jmul (ofNat (f k)) (ofNat (g k)))) (ofNat acc) ks
     = ofNat (acc + sum_list (map (\<lambda>k. f k * g k) ks))"
proof (induction ks arbitrary: acc)
  case Nil
  then show ?case by simp
next
  case (Cons k ks)
  have a: "f k * g k < 2 ^ 53" and b: "acc + f k * g k < 2 ^ 53"
    and c: "(acc + f k * g k) + sum_list (map (\<lambda>k. f k * g k) ks) < 2 ^ 53"
    using Cons.prems by simp_all
  show ?case using Cons.IH[OF c] by (simp add: jmul_nat[OF a] jadd_nat[OF b] add.assoc)
qed

lemma dot_bound:
  "(\<Sum>w \<in> set ws1 \<union> set ws2. count_list ws1 w * count_list ws2 w) \<le> length ws1 * length ws2"
proof -
  have "(\<Sum>w \<in> set ws1 \<union> set ws2. count_list ws1 w * count_list ws2 w)
      \<le> (\<Sum>w \<in> set ws1 \<union> set ws2. length ws1 * count_list ws2 w)"
    by (rule sum_mono) (simp add: count_le_length)
  also have "\<dots> = length ws1 * (\<Sum>w \<in> set ws1 \<union> set ws2. count_list ws2 w)"
    by (simp add: sum_distrib_left)
  also have "(\<Sum>w \<in> set ws1 \<union> set ws2. count_list ws2 w) = length ws2"
    by (rule sum_count_set) simp_all
  finally show ?thesis .
qed

lemma size_bound: "a < 2 ^ 26 \<Longrightarrow> b < 2 ^ 26 \<Longrightarrow> a * b < (2::nat) ^ 53"
proof -
  assume a: "a < 2 ^ 26" and b: "b < 2 ^ 26"
  have "a * b \<le> 2 ^ 26 * 2 ^ 26" using a b by (intro mult_mono) simp_all
  also have "\<dots> < (2::nat) ^ 53" by simp
  finally show ?thesis .
qed

lemma calculateDotProduct_counts:
  assumes "plainWords ws1" and "plainWords ws2"
  shows "calculateDotProduct (createWordVector ws1) (createWordVector ws2)
       = ofNat (\<Sum>w \<in> set ws1 \<union> set ws2. count_list ws1 w * count_list ws2 w)"
proof -
  let ?ok = "\<lambda>w. w \<notin> set inheritedMethods \<and> w \<noteq> asc ''__proto__''"
  have p1: "list_all ?ok ws1" and p2: "list_all ?ok ws2" and l1: "length ws1 < 2 ^ 26" and l2: "length ws2 < 2 ^ 26"
    using assms by (simp_all add: plainWords_def)
  let ?ks = "keySet (map fst (createWordVector ws1) @ map fst (createWordVector ws2))"
  have s: "set ?ks = set ws1 \<union> set ws2"
    using createWordVector_counts[OF p1] createWordVector_counts[OF p2] by (simp add: keySet_props)
  have d: "distinct ?ks" by (rule keySet_props)
  have ok: "?ok k" if "k \<in> set ?ks" for k
    using that p1 p2 unfolding s by (auto simp: list_all_iff)
  have sm: "sum_list (map (\<lambda>k. count_list ws1 k * count_list ws2 k) ?ks)
      = (\<Sum>w \<in> set ws1 \<union> set ws2. count_list ws1 w * count_list ws2 w)"
    using sum_list_distinct_conv_sum_set[OF d, of "\<lambda>k. count_list ws1 k * count_list ws2 k"] by (simp only: s)
  have b: "0 + sum_list (map (\<lambda>k. count_list ws1 k * count_list ws2 k) ?ks) < 2 ^ 53"
    using dot_bound[of ws1 ws2] size_bound[OF l1 l2] by (simp add: sm)
  have "calculateDotProduct (createWordVector ws1) (createWordVector ws2)
      = foldl (\<lambda>d k. jadd d (jmul (ofNat (count_list ws1 k)) (ofNat (count_list ws2 k)))) (ofNat 0) ?ks"
    unfolding calculateDotProduct_def
    by (rule foldl_cong) (use ok in \<open>simp_all add: component_counts[OF p1] component_counts[OF p2] ofNat_def\<close>)
  also have "\<dots> = ofNat (0 + sum_list (map (\<lambda>k. count_list ws1 k * count_list ws2 k) ?ks))"
    by (rule foldl_exact[OF b])
  finally show ?thesis by (simp add: sm)
qed

lemma slots_by_key:
  assumes "distinct (map fst v)" and "\<And>k. k \<in> fst ` set v \<Longrightarrow> map_of v k = Some (Count (c k))"
  shows "map snd v = map (\<lambda>k. Count (c k)) (map fst v)"
proof -
  have "snd x = Count (c (fst x))" if "x \<in> set v" for x
  proof -
    have "map_of v (fst x) = Some (snd x)" using assms(1) that by (cases x) (simp add: map_of_is_SomeI)
    moreover have "map_of v (fst x) = Some (Count (c (fst x)))" using assms(2) that by simp
    ultimately show ?thesis by simp
  qed
  then show ?thesis by simp
qed

lemma calculateMagnitude_counts:
  assumes "plainWords ws"
  shows "calculateMagnitude (createWordVector ws) = jsqrt (ofNat (\<Sum>w \<in> set ws. count_list ws w * count_list ws w))"
proof -
  let ?ok = "\<lambda>w. w \<notin> set inheritedMethods \<and> w \<noteq> asc ''__proto__''"
  have p: "list_all ?ok ws" and l: "length ws < 2 ^ 26" using assms by (simp_all add: plainWords_def)
  let ?V = "createWordVector ws"
  from createWordVector_counts[OF p] have m: "\<And>k. map_of ?V k = (if k \<in> set ws then Some (Count (count_list ws k)) else None)"
    and d: "distinct (map fst ?V)" and s: "fst ` set ?V = set ws" by auto
  have sn: "map snd ?V = map (\<lambda>k. Count (count_list ws k)) (map fst ?V)"
    by (rule slots_by_key[OF d]) (simp add: m s)
  have ss: "set (map fst ?V) = set ws" using s by simp
  have sm: "sum_list (map (\<lambda>k. count_list ws k * count_list ws k) (map fst ?V))
      = (\<Sum>w \<in> set ws. count_list ws w * count_list ws w)"
    using sum_list_distinct_conv_sum_set[OF d, of "\<lambda>k. count_list ws k * count_list ws k"] by (simp only: ss)
  have "(\<Sum>w \<in> set ws. count_list ws w * count_list ws w) < 2 ^ 53"
    using dot_bound[of ws ws] size_bound[OF l l] by simp
  then have b: "0 + sum_list (map (\<lambda>k. count_list ws k * count_list ws k) (map fst ?V)) < 2 ^ 53"
    by (simp only: sm add_0)
  have "foldl (\<lambda>total v. jadd total (jmul (slotNumber v) (slotNumber v))) (Fin 0) (map snd ?V)
      = foldl (\<lambda>d k. jadd d (jmul (ofNat (count_list ws k)) (ofNat (count_list ws k)))) (ofNat 0) (map fst ?V)"
    by (simp add: sn foldl_map ofNat_def)
  also have "\<dots> = ofNat (0 + sum_list (map (\<lambda>k. count_list ws k * count_list ws k) (map fst ?V)))"
    by (rule foldl_exact[OF b])
  finally show ?thesis by (simp only: calculateMagnitude_def sm add_0)
qed

lemma squares_pos: "ws \<noteq> [] \<Longrightarrow> 1 \<le> (\<Sum>w \<in> set ws. count_list ws w * count_list ws w)"
proof -
  assume "ws \<noteq> []"
  then obtain w where w: "w \<in> set ws" by (cases ws) auto
  then have "count_list ws w \<noteq> 0" by (simp add: count_list_0_iff)
  then have "1 \<le> count_list ws w * count_list ws w" by (simp add: Suc_le_eq)
  also have "\<dots> \<le> (\<Sum>w \<in> set ws. count_list ws w * count_list ws w)"
    using w by (intro member_le_sum) simp_all
  finally show ?thesis .
qed

lemma magnitude_nonzero:
  assumes "plainWords ws" and "ws \<noteq> []"
  shows "\<exists>y. calculateMagnitude (createWordVector ws) = Fin y \<and> 1 \<le> y"
proof -
  define n where "n = (\<Sum>w \<in> set ws. count_list ws w * count_list ws w)"
  have l: "length ws < 2 ^ 26" using assms(1) by (simp add: plainWords_def)
  have n1: "1 \<le> n" unfolding n_def using assms(2) by (rule squares_pos)
  have "n < 2 ^ 53" unfolding n_def using dot_bound[of ws ws] size_bound[OF l l] by simp
  then have n2: "real n < 2 ^ 53" by (rule real_nat_less)
  have r1: "1 \<le> real n" using n1 by simp
  have s1: "1 \<le> sqrt (real n)" using r1 by (rule real_sqrt_ge_one)
  have "real n * 1 \<le> real n * real n" using r1 by (intro mult_left_mono) simp_all
  then have "sqrt (real n) \<le> real n" by (intro real_le_lsqrt) (simp_all add: power2_eq_square)
  moreover have "(2::real) ^ 53 < 2 ^ 1023" by simp
  ultimately have s2: "sqrt (real n) < 2 ^ 1023" using n2 by linarith
  from fl_ge_one[OF s1 s2] show ?thesis
    by (simp only: calculateMagnitude_counts[OF assms(1)] ofNat_def n_def[symmetric] jsqrt.simps) (use r1 in auto)
qed

lemma calculateSimilarity_cosine:
  assumes "plainWords (wordsOf str1)" and "plainWords (wordsOf str2)"
  shows "calculateSimilarity str1 str2 = cosineSimilarity (wordsOf str1) (wordsOf str2)"
proof (cases "wordsOf str1 = [] \<or> wordsOf str2 = []")
  case True
  then show ?thesis
    by (auto simp: calculateSimilarity_def cosineSimilarity_def Let_def wordsOf_def)
next
  case False
  then have n1: "wordsOf str1 \<noteq> []" and n2: "wordsOf str2 \<noteq> []" by simp_all
  from magnitude_nonzero[OF assms(1) n1] obtain y1 where y1: "calculateMagnitude (createWordVector (wordsOf str1)) = Fin y1" "1 \<le> y1" by blast
  from magnitude_nonzero[OF assms(2) n2] obtain y2 where y2: "calculateMagnitude (createWordVector (wordsOf str2)) = Fin y2" "1 \<le> y2" by blast
  have z: "\<not> jeq (calculateMagnitude (createWordVector (wordsOf str1))) (Fin 0)"
    "\<not> jeq (calculateMagnitude (createWordVector (wordsOf str2))) (Fin 0)"
    using y1 y2 by (simp_all add: jeq_def)
  show ?thesis
    using n1 n2 z
    unfolding calculateSimilarity_def Let_def wordsOf_def[symmetric] cosineSimilarity_def
    by (simp add: calculateDotProduct_counts[OF assms] calculateMagnitude_counts[OF assms(1)]
        calculateMagnitude_counts[OF assms(2)])
qed


subsection \<open>Header detector\<close>

lemma headerWords:
  "map wordsOf SECTION_HEADERS =
     [[asc ''entrees''], [asc ''entr'' @ [233] @ asc ''es''], [asc ''mains''], [asc ''main'', asc ''courses''],
      [asc ''main''], [asc ''specialties''], [asc ''specialities''], [asc ''plates''], [asc ''plats''],
      [asc ''platos''], [asc ''secondi''], [asc ''secondi'', asc ''piatti''], [asc ''piatti'', asc ''principali''],
      [asc ''a'', asc ''la'', asc ''carte''], [asc ''a'', asc ''la'', asc ''carte'', asc ''menu''],
      [asc ''from'', asc ''the'', asc ''grill''], [asc ''chef's'', asc ''specials''],
      [asc ''house'', asc ''specialties''], [asc ''signature'', asc ''dishes''], [asc ''featured'', asc ''items''],
      [asc ''plats'', asc ''principaux''], [asc ''plats''], [asc ''sp'' @ [233] @ asc ''cialit'' @ [233] @ asc ''s''],
      [asc ''specialites''], [[224], asc ''la'', asc ''carte''], [asc ''secondi''],
      [asc ''piatti'', asc ''principali''], [asc ''specialit'' @ [224]], [asc ''specialita''],
      [asc ''alla'', asc ''griglia''], [asc ''platos'', asc ''principales''], [asc ''platos''],
      [asc ''especialidades''], [asc ''a'', asc ''la'', asc ''carta'']]"
  by (simp add: SECTION_HEADERS_def wordsOf_def rx_eval)

lemma headers_plain: "list_all plainWords (map wordsOf SECTION_HEADERS)"
  unfolding headerWords by (simp add: plainWords_def inheritedMethods_def asc_def)

lemma header_plain: "h \<in> set SECTION_HEADERS \<Longrightarrow> plainWords (wordsOf h)"
  using headers_plain by (simp add: list_all_iff)

lemma maxSimilarity_loop:
  assumes "plainWords (wordsOf n)"
  shows "foldl (\<lambda>maxSimilarity header. jmax maxSimilarity (calculateSimilarity n header)) (Fin 0) SECTION_HEADERS
       = largest (map (\<lambda>header. cosineSimilarity (wordsOf n) (wordsOf header)) SECTION_HEADERS)"
proof -
  have "foldl (\<lambda>maxSimilarity header. jmax maxSimilarity (calculateSimilarity n header)) (Fin 0) SECTION_HEADERS
      = foldl (\<lambda>m header. jmax m (cosineSimilarity (wordsOf n) (wordsOf header))) (Fin 0) SECTION_HEADERS"
    by (rule foldl_cong) (simp_all add: calculateSimilarity_cosine[OF assms header_plain])
  then show ?thesis by (simp add: largest_def foldl_map)
qed

lemma calculateHeaderConfidence_headerScore:
  assumes "plainWords (wordsOf (normalizeText line))"
  shows "calculateHeaderConfidence line = headerScore line"
  unfolding calculateHeaderConfidence_def headerScore_def maxHeaderSimilarity_def maxSimilarity_loop[OF assms]
    penalties_def wordsOf_def[symmetric]
  by (simp add: not_le)


lemma detectFrom_enumerate:
  "\<forall>l \<in> set ls. ordinaryWords (trim l) \<Longrightarrow>
   detectFrom k ls =
     map headerAt (filter (\<lambda>il. trim (snd il) \<noteq> [] \<and> jgt (headerScore (trim (snd il))) (fl (1 / 2)))
                     (List.enumerate k ls))"
proof (induction ls arbitrary: k)
  case Nil then show ?case by simp
next
  case (Cons l ls)
  have c: "calculateHeaderConfidence (trim l) = headerScore (trim l)"
    using Cons.prems by (intro calculateHeaderConfidence_headerScore) (simp add: ordinaryWords_def)
  have r: "\<forall>l \<in> set ls. ordinaryWords (trim l)" using Cons.prems by simp
  show ?case using Cons.IH[OF r, of "Suc k"] by (simp add: c headerAt_def)
qed

text \<open>
  Claim C6, as the code has it.  For lines whose normalised words are ordinary,
  \<^verbatim>\<open>detectSectionHeaders\<close> returns, in line order, exactly the non-blank lines whose
  header score, computed in double arithmetic from the trimmed line, exceeds the double
  nearest to 0.5, each with its trimmed text, that score and its line index.  The score
  is the largest cosine similarity to a vocabulary entry minus the sum of the penalties
  that apply; the penalty for length counts all the words of the normalised line.
\<close>

theorem detectSectionHeaders_characterised:
  assumes "\<forall>l \<in> set lines. ordinaryWords (trim l)"
  shows "detectSectionHeaders lines =
     map headerAt (filter (\<lambda>il. trim (snd il) \<noteq> [] \<and> jgt (headerScore (trim (snd il))) (fl (1 / 2)))
                     (List.enumerate 0 lines))"
  using assms by (simp add: detectSectionHeaders_def detectFrom_enumerate)

lemma lineIndex_detect_sorted:
  "sorted_wrt (<) (map lineIndex (detectFrom k ls)) \<and> (\<forall>h \<in> set (detectFrom k ls). k \<le> lineIndex h)"
proof (induction ls arbitrary: k)
  case Nil then show ?case by simp
next
  case (Cons l ls)
  from Cons.IH[of "Suc k"] show ?case by (auto simp: Suc_le_eq intro: less_imp_le)
qed

lemma getHeaderContext_first:
  assumes "sorted_wrt (<) (map lineIndex hs)" and "getHeaderContext i hs = Some t"
  shows "\<exists>h \<in> set hs. hdr_text h = t \<and> qualifies i h \<and>
           (\<forall>h' \<in> set hs. qualifies i h' \<longrightarrow> lineIndex h \<le> lineIndex h')"
  using assms
proof (induction hs)
  case Nil then show ?case by simp
next
  case (Cons a hs)
  show ?case
  proof (cases "qualifies i a")
    case True
    with Cons.prems have "hdr_text a = t" by (simp add: qualifies_def)
    moreover have "\<forall>h' \<in> set (a # hs). lineIndex a \<le> lineIndex h'"
      using Cons.prems(1) by (auto simp: less_imp_le)
    ultimately show ?thesis using True by auto
  next
    case False
    with Cons.prems have "getHeaderContext i hs = Some t" by (auto simp: qualifies_def split: if_splits)
    moreover have "sorted_wrt (<) (map lineIndex hs)" using Cons.prems(1) by simp
    ultimately obtain h where "h \<in> set hs" "hdr_text h = t" "qualifies i h"
      "\<forall>h' \<in> set hs. qualifies i h' \<longrightarrow> lineIndex h \<le> lineIndex h'"
      using Cons.IH by blast
    with False show ?thesis by auto
  qed
qed

lemma count_list_distinct: "distinct ws \<Longrightarrow> count_list ws w = (if w \<in> set ws then 1 else 0)"
  by (induction ws) auto

lemma cosine_distinct:
  assumes d1: "distinct ws1" and d2: "distinct ws2" and n: "ws1 \<noteq> []" "ws2 \<noteq> []"
  shows "cosineSimilarity ws1 ws2
     = jdiv (ofNat (length (filter (\<lambda>w. w \<in> set ws2) ws1)))
         (jmul (jsqrt (ofNat (length ws1))) (jsqrt (ofNat (length ws2))))"
proof -
  have a: "(\<Sum>w \<in> set ws1 \<union> set ws2. count_list ws1 w * count_list ws2 w) = card (set ws1 \<inter> set ws2)"
  proof -
    have "(\<Sum>w \<in> set ws1 \<union> set ws2. count_list ws1 w * count_list ws2 w)
        = (\<Sum>w \<in> set ws1 \<union> set ws2. if w \<in> set ws1 \<inter> set ws2 then 1 else 0)"
      by (rule sum.cong) (auto simp: count_list_distinct[OF d1] count_list_distinct[OF d2])
    also have "\<dots> = card ((set ws1 \<union> set ws2) \<inter> {w \<in> set ws1. w \<in> set ws2})"
      by (simp add: sum.If_cases)
    also have "(set ws1 \<union> set ws2) \<inter> {w \<in> set ws1. w \<in> set ws2} = set ws1 \<inter> set ws2"
      by auto
    finally show ?thesis .
  qed
  have b: "card (set ws1 \<inter> set ws2) = length (filter (\<lambda>w. w \<in> set ws2) ws1)"
  proof -
    have e: "set ws1 \<inter> set ws2 = set (filter (\<lambda>w. w \<in> set ws2) ws1)" by auto
    have "card (set (filter (\<lambda>w. w \<in> set ws2) ws1)) = length (filter (\<lambda>w. w \<in> set ws2) ws1)"
      by (rule distinct_card) (simp add: d1)
    then show ?thesis by (simp only: e)
  qed
  have c: "(\<Sum>w \<in> set ws. count_list ws w * count_list ws w) = length ws" if "distinct ws" for ws :: "jsstring list"
    using that by (simp add: count_list_distinct distinct_card)
  show ?thesis
    unfolding cosineSimilarity_def a b c[OF d1] c[OF d2] using n by simp
qed

lemma sqrt_vals:
  "jsqrt (Fin 1) = Fin 1"
  "jsqrt (Fin 2) = Fin (6369051672525773 / 4503599627370496)"
  "jsqrt (Fin 3) = Fin (7800463371553962 / 4503599627370496)"
  "jsqrt (Fin 4) = Fin 2"
  "jsqrt (Fin 5) = Fin (5035177455121576 / 2251799813685248)"
  by (simp_all add: fl_sqrt_2 fl_sqrt_3 fl_sqrt_5) (simp_all add: num_eval)

lemma lineWords:
  "wordsOf (normalizeText (asc ''main courses for two people''))
     = [asc ''main'', asc ''courses'', asc ''for'', asc ''two'', asc ''people'']"
  by (simp add: normalizeText_def wordsOf_def rx_eval)

lemma maxHeaderSimilarity_words:
  "maxHeaderSimilarity line = largest (map (cosineSimilarity (wordsOf (normalizeText line))) (map wordsOf SECTION_HEADERS))"
  by (simp add: maxHeaderSimilarity_def comp_def)

lemma max_main_courses:
  "maxHeaderSimilarity (asc ''main courses for two people'') = Fin (5696652996790543 / 9007199254740992)"
  unfolding maxHeaderSimilarity_words lineWords headerWords
  by (simp add: cosine_distinct asc_def largest_def ofNat_def sqrt_vals del: jsqrt.simps)
     (simp add: num_eval)

lemma words_main_courses_plain:
  "ordinaryWords (asc ''main courses for two people'')"
  unfolding ordinaryWords_def lineWords
  by (simp add: plainWords_def inheritedMethods_def asc_def)

lemma score_main_courses:
  "headerScore (asc ''main courses for two people'') = Fin (5988986440736491 / 18014398509481984)"
  unfolding headerScore_def max_main_courses lineWords
  by (simp add: normalizeText_def headerPrice_def foodWords_def rx_eval)
     (simp add: num_eval)

text \<open>
  The line \<^verbatim>\<open>main courses for two people\<close> has five words, four of them meaningful.
  With the penalty for length as the claim words it the score is 0.6324555320336759
  and exceeds 0.5; the detector subtracts 0.3 and does not return the line.
\<close>

theorem header_length_penalty_counts_all_words:
  "detectSectionHeaders [asc ''main courses for two people''] = []
   \<and> trim (asc ''main courses for two people'') \<noteq> []
   \<and> jgt (claimedHeaderScore (asc ''main courses for two people'')) (fl (1 / 2))"
proof -
  have t: "trim (asc ''main courses for two people'') = asc ''main courses for two people''"
    by (simp add: rx_eval)
  have a: "calculateHeaderConfidence (asc ''main courses for two people'')
             = Fin (5988986440736491 / 18014398509481984)"
    using calculateHeaderConfidence_headerScore[of "asc ''main courses for two people''"]
      words_main_courses_plain score_main_courses by (simp add: ordinaryWords_def)
  have b: "\<not> jgt (Fin (5988986440736491 / 18014398509481984)) (fl (1 / 2))"
    by (simp add: num_eval)
  have c: "countMeaningfulWords (asc ''main courses for two people'') = 4"
    by (simp add: countMeaningfulWords_def STOP_WORDS_def rx_eval)
  have d: "claimedHeaderScore (asc ''main courses for two people'') = Fin (5696652996790543 / 9007199254740992)"
    unfolding claimedHeaderScore_def max_main_courses c
    by (simp add: normalizeText_def headerPrice_def foodWords_def rx_eval)
       (simp add: num_eval)
  have e: "jgt (Fin (5696652996790543 / 9007199254740992)) (fl (1 / 2))"
    by (simp add: num_eval)
  have f: "asc ''main courses for two people'' \<noteq> []" by (simp add: asc_def)
  show ?thesis
    unfolding detectSectionHeaders_def detectFrom.simps t a d
    using b e f by simp
qed

lemma words_examples:
  "wordsOf (normalizeText (asc ''Mains'')) = [asc ''mains'']"
  "wordsOf (normalizeText (asc ''A La Carte'')) = [asc ''a'', asc ''la'', asc ''carte'']"
  "wordsOf (normalizeText (asc ''Grilled Salmon $24'')) = [asc ''grilled'', asc ''salmon'', asc ''24'']"
  by (simp_all add: normalizeText_def wordsOf_def rx_eval)

lemma trim_examples:
  "trim (asc ''Mains'') = asc ''Mains''"
  "trim (asc ''A La Carte'') = asc ''A La Carte''"
  "trim (asc ''Grilled Salmon $24'') = asc ''Grilled Salmon $24''"
  by (simp_all add: rx_eval)

lemma max_examples:
  "maxHeaderSimilarity (asc ''Mains'') = Fin 1"
  "maxHeaderSimilarity (asc ''A La Carte'') = Fin (4503599627370497 / 4503599627370496)"
  "maxHeaderSimilarity (asc ''Grilled Salmon $24'') = Fin 0"
  unfolding maxHeaderSimilarity_words words_examples headerWords
  by (simp_all add: cosine_distinct asc_def largest_def ofNat_def sqrt_vals del: jsqrt.simps)
     (simp_all add: num_eval)

lemma score_examples:
  "headerScore (asc ''Mains'') = Fin 1"
  "headerScore (asc ''A La Carte'') = Fin (4503599627370497 / 4503599627370496)"
  "headerScore (asc ''Grilled Salmon $24'') = Fin 0"
  unfolding headerScore_def max_examples words_examples
  by (simp_all add: normalizeText_def headerPrice_def foodWords_def rx_eval)
     (simp_all add: num_eval)

lemma ordinary_examples:
  "ordinaryWords (asc ''Mains'')" "ordinaryWords (asc ''A La Carte'')"
  "ordinaryWords (asc ''Grilled Salmon $24'')"
  unfolding ordinaryWords_def words_examples
  by (simp_all add: plainWords_def inheritedMethods_def asc_def)

lemma jgt_examples:
  "jgt (Fin 1) (fl (1 / 2))" "jgt (Fin (4503599627370497 / 4503599627370496)) (fl (1 / 2))"
  "\<not> jgt (Fin 0) (fl (1 / 2))"
  by (simp_all add: num_eval)

lemma nonempty_examples:
  "asc ''Mains'' \<noteq> []" "asc ''A La Carte'' \<noteq> []" "asc ''Grilled Salmon $24'' \<noteq> []"
  by (simp_all add: asc_def)

text \<open>
  Three lines: a header, a header of three words, whose score 1.0000000000000002 shows
  the rounding of the square roots, and a dish with a price.
\<close>

theorem detectSectionHeaders_characterised_witness:
  "ordinaryWords (trim (asc ''Mains'')) \<and> ordinaryWords (trim (asc ''A La Carte''))
   \<and> ordinaryWords (trim (asc ''Grilled Salmon $24''))
   \<and> detectSectionHeaders [asc ''Mains'', asc ''A La Carte'', asc ''Grilled Salmon $24'']
       = [\<lparr>hdr_text = asc ''Mains'', hdr_confidence = Fin 1, lineIndex = 0\<rparr>,
          \<lparr>hdr_text = asc ''A La Carte'', hdr_confidence = Fin (4503599627370497 / 4503599627370496),
            lineIndex = 1\<rparr>]"
  using detectSectionHeaders_characterised
          [of "[asc ''Mains'', asc ''A La Carte'', asc ''Grilled Salmon $24'']"]
  by (simp add: trim_examples ordinary_examples score_examples jgt_examples nonempty_examples
        headerAt_def enumerate_eq_zip upt_rec)

subsection \<open>Entree lookup\<close>


subsection \<open>Confidence scorer\<close>

text \<open>
  Claim C4 says that the trained score lies in \<^verbatim>\<open>[0, 1]\<close> for every feature vector and
  every weight mapping.  With the weights \<^verbatim>\<open>{tokenCount: Number.MAX_VALUE, avgTokenLen:
  -Number.MAX_VALUE}\<close> and a candidate of three tokens of average length five, the sum
  \<^verbatim>\<open>0.1 + 3 * MAX_VALUE\<close> is \<^verbatim>\<open>Infinity\<close>, adding \<^verbatim>\<open>5 * -MAX_VALUE\<close> gives \<^verbatim>\<open>NaN\<close>, and
  \<^verbatim>\<open>Math.max(0, Math.min(1, NaN))\<close> is \<^verbatim>\<open>NaN\<close>, which is neither at least 0 nor at most 1.
\<close>

theorem trained_score_is_not_a_number:
  "calculateTrainedConfidenceScore exampleFeatures extremeWeights None = NaN
   \<and> \<not> jle (Fin 0) (calculateTrainedConfidenceScore exampleFeatures extremeWeights None)
   \<and> \<not> jle (calculateTrainedConfidenceScore exampleFeatures extremeWeights None) (Fin 1)"
  by (simp add: calculateTrainedConfidenceScore_def exampleFeatures_def zeroFeatures_def extremeWeights_def
      MAX_VALUE_def baseScore_def featureValue_def orZero_def sigmoid_def asc_def num_eval)

subsection \<open>Candidates of an extraction run\<close>

lemma fl_finite: "\<bar>x\<bar> < 2 ^ 1024 - 2 ^ 970 \<Longrightarrow> \<exists>r. fl x = Fin r"
  by (simp add: fl_def)

lemma thresholds: "\<exists>t. fl (1 / 10) = Fin t" "\<exists>t. fl (3 / 100) = Fin t"
  by (rule fl_finite, simp)+

lemma jmin_one_cases: "jmin (Fin 1) x = NaN \<or> jmin (Fin 1) x = NInf \<or> (\<exists>r. jmin (Fin 1) x = Fin r \<and> r \<le> 1)"
  by (cases x) (auto simp: jmin_def)

lemma clamp_cases:
  "jmax (Fin 0) (jmin (Fin 1) x) = NaN \<or> (\<exists>r. jmax (Fin 0) (jmin (Fin 1) x) = Fin r \<and> 0 \<le> r \<and> r \<le> 1)"
  by (cases x) (auto simp: jmin_def jmax_def)

lemma jgt_Fin: "jgt a (Fin t) \<Longrightarrow> a = PInf \<or> (\<exists>r. a = Fin r)"
  by (cases a) (auto simp: jgt_def)

lemma boosted_finite: "jgt (jmin (Fin 1) x) (Fin t) \<Longrightarrow> \<exists>r. jmin (Fin 1) x = Fin r"
  using jmin_one_cases[of x] by (auto simp: jgt_def)

lemma score_cases:
  "calculateConfidenceScore cache now f m = NaN
   \<or> (\<exists>r. calculateConfidenceScore cache now f m = Fin r \<and> 0 \<le> r \<and> r \<le> 1)"
  unfolding calculateConfidenceScore_def calculateTrainedConfidenceScore_def heuristicScore_def
  by (cases "getTrainedModelWeights cache now") (simp_all add: clamp_cases)

lemma score_finite: "jgt (scoreAt env s f m) (Fin t) \<Longrightarrow> \<exists>r. scoreAt env s f m = Fin r"
  using score_cases[of "env_cache env s" "env_now env s" f m] by (auto simp: scoreAt_def jgt_def)

lemma emitIfValid_Some:
  "emitIfValid st thr c = (Some c', st') \<Longrightarrow>
     c' = c \<and> jgt (cand_confidence c) thr \<and> fst (isValidEntreeName st (cand_text c))"
  by (auto simp: emitIfValid_def split: if_splits prod.splits bool.splits)

lemma makeCandidate_fields [simp]:
  "cand_headerContext (makeCandidate env n p t b h f c m) = h"
  "cand_text (makeCandidate env n p t b h f c m) = t"
  "cand_confidence (makeCandidate env n p t b h f c m) = c"
  by (simp_all add: makeCandidate_def)

lemma emit_boosted:
  assumes "emitIfValid st (fl (1 / 10)) (makeCandidate env n p t b (getHeaderContext i hs) f (jmin (Fin 1) x) m) = (Some c, st')"
  shows "emittedFor i hs c"
proof -
  obtain th where th: "fl (1 / 10) = Fin th" using thresholds(1) by blast
  from emitIfValid_Some[OF assms]
  have c: "c = makeCandidate env n p t b (getHeaderContext i hs) f (jmin (Fin 1) x) m"
    and g: "jgt (jmin (Fin 1) x) (Fin th)" and v: "fst (isValidEntreeName st t)"
    by (simp_all add: th)
  from boosted_finite[OF g] obtain r where "jmin (Fin 1) x = Fin r" ..
  with c v show ?thesis by (auto simp: emittedFor_def)
qed

lemma emit_scored:
  assumes "emitIfValid st (fl (3 / 100)) (makeCandidate env n p t b (getHeaderContext i hs) f (scoreAt env s f m) m) = (Some c, st')"
  shows "emittedFor i hs c"
proof -
  obtain th where th: "fl (3 / 100) = Fin th" using thresholds(2) by blast
  from emitIfValid_Some[OF assms]
  have c: "c = makeCandidate env n p t b (getHeaderContext i hs) f (scoreAt env s f m) m"
    and g: "jgt (scoreAt env s f m) (Fin th)" and v: "fst (isValidEntreeName st t)"
    by (simp_all add: th)
  from score_finite[OF g] obtain r where "scoreAt env s f m = Fin r" ..
  with c v show ?thesis by (auto simp: emittedFor_def)
qed

lemma allCapsPath_emitted:
  "allCapsPath env st n ocrLines allLines hs page i v = NextLine cs st' \<Longrightarrow> \<forall>c \<in> set cs. emittedFor i hs c"
  unfolding allCapsPath_def Let_def
  by (auto split: if_splits prod.splits outcome.splits option.splits dest: emit_boosted)

lemma compoundCandidates_emitted:
  "compoundCandidates env st n ocrLines allLines hs page i v j items = Returned (cs, st')
   \<Longrightarrow> \<forall>c \<in> set cs. emittedFor i hs c"
proof (induction items arbitrary: st n j cs st')
  case Nil
  then show ?case by simp
next
  case (Cons item items)
  show ?case
  proof (cases "length (removeAllPrices item) \<ge> 3")
    case False
    with Cons.prems Cons.IH show ?thesis by simp
  next
    case True
    obtain fs st1 where f: "extractFeatures freshIndexes (removeAllPrices item) allLines i hs ocrLines = (fs, st1)"
      by (cases "extractFeatures freshIndexes (removeAllPrices item) allLines i hs ocrLines")
    show ?thesis
    proof (cases "findEntreeMatch (env_lookup env (i, 1, j)) (removeAllPrices item)")
      case Raised
      with Cons.prems True f show ?thesis by simp
    next
      case (Returned m)
      let ?cand = "makeCandidate env n page (removeAllPrices item) (line_bbox (ocrLines ! i))
                     (getHeaderContext i hs) fs
                     (jmin (Fin 1) (jadd (scoreAt env (i, 1, j) fs m) (jmul v (fl (2 / 5))))) m"
      obtain r st2 where e: "emitIfValid st1 (fl (1 / 10)) ?cand = (r, st2)"
        by (cases "emitIfValid st1 (fl (1 / 10)) ?cand")
      show ?thesis
      proof (cases r)
        case None
        with Cons.prems True f Returned e have
          "compoundCandidates env st2 n ocrLines allLines hs page i v (j + 1) items = Returned (cs, st')"
          by simp
        then show ?thesis by (rule Cons.IH)
      next
        case (Some c)
        with Cons.prems True f Returned e obtain cs' where
          r: "compoundCandidates env st2 (n + 1) ocrLines allLines hs page i v (j + 1) items = Returned (cs', st')"
          and cs: "cs = c # cs'"
          by (auto split: outcome.splits prod.splits)
        have "emittedFor i hs c" using e Some by (auto dest: emit_boosted)
        with Cons.IH[OF r] cs show ?thesis by simp
      qed
    qed
  qed
qed

lemma highVisualPath_emitted:
  "highVisualPath env st n ocrLines allLines hs page i v = NextLine cs st' \<Longrightarrow> \<forall>c \<in> set cs. emittedFor i hs c"
  unfolding highVisualPath_def Let_def
  by (auto split: if_splits prod.splits outcome.splits option.splits
      dest: emit_boosted compoundCandidates_emitted)

lemma partCandidates_emitted:
  "partCandidates env st n ocrLines allLines hs page i j parts = Returned (cs, st')
   \<Longrightarrow> \<forall>c \<in> set cs. emittedFor i hs c"
proof (induction parts arbitrary: st n j cs st')
  case Nil
  then show ?case by simp
next
  case (Cons part parts)
  let ?t = "removeAllPrices (fst part)"
  show ?case
  proof (cases "length ?t < 2 \<or> regexTest False digitsOnly ?t")
    case True
    with Cons.prems have "partCandidates env freshIndexes n ocrLines allLines hs page i (j + 1) parts = Returned (cs, st')"
      by simp
    then show ?thesis by (rule Cons.IH)
  next
    case False
    obtain b st1 where h: "isRestaurantNameOrHeader freshIndexes ?t i hs allLines = (b, st1)"
      by (cases "isRestaurantNameOrHeader freshIndexes ?t i hs allLines")
    show ?thesis
    proof (cases b)
      case True
      with Cons.prems False h have "partCandidates env st1 n ocrLines allLines hs page i (j + 1) parts = Returned (cs, st')"
        by simp
      then show ?thesis by (rule Cons.IH)
    next
      case nb: False
      obtain fs st2 where f: "extractFeatures st1 ?t allLines i hs ocrLines = (fs, st2)"
        by (cases "extractFeatures st1 ?t allLines i hs ocrLines")
      show ?thesis
      proof (cases "findEntreeMatch (env_lookup env (i, 2, j)) ?t")
        case Raised
        with Cons.prems False h nb f show ?thesis by simp
      next
        case (Returned m)
        let ?cand = "makeCandidate env n page ?t (snd part) (getHeaderContext i hs) fs (scoreAt env (i, 2, j) fs m) m"
        let ?st = "tracedBefore st2 ?t (scoreAt env (i, 2, j) fs m)"
        obtain r st3 where e: "emitIfValid ?st (fl (3 / 100)) ?cand = (r, st3)"
          by (cases "emitIfValid ?st (fl (3 / 100)) ?cand")
        show ?thesis
        proof (cases r)
          case None
          with Cons.prems False h nb f Returned e have
            "partCandidates env (tracedAfter st3 ?t) n ocrLines allLines hs page i (j + 1) parts = Returned (cs, st')"
            by simp
          then show ?thesis by (rule Cons.IH)
        next
          case (Some c)
          with Cons.prems False h nb f Returned e obtain cs' where
            r: "partCandidates env st3 (n + 1) ocrLines allLines hs page i (j + 1) parts = Returned (cs', st')"
            and cs: "cs = c # cs'"
            by (auto split: outcome.splits prod.splits)
          have "emittedFor i hs c" using e Some by (auto dest: emit_scored)
          with Cons.IH[OF r] cs show ?thesis by simp
        qed
      qed
    qed
  qed
qed

lemma defaultPath_emitted:
  "defaultPath env st n ocrLines allLines hs page i = Returned (cs, st') \<Longrightarrow> \<forall>c \<in> set cs. emittedFor i hs c"
  unfolding defaultPath_def Let_def
  by (auto split: if_splits prod.splits dest: partCandidates_emitted)

lemma processLine_emitted:
  assumes "processLine env st n ocrLines allLines hs page i = Returned (cs, st')"
  shows "\<forall>c \<in> set cs. emittedFor i hs c"
proof -
  let ?text = "trim (line_text (ocrLines ! i))"
  show ?thesis
  proof (cases "?text = [] \<or> length ?text < 2 \<or> containsBlacklistedTerms ?text \<or> isSectionHeader ?text")
    case True
    with assms show ?thesis by (auto simp: processLine_def Let_def split: if_splits)
  next
    case False
    let ?st0 = "if tracedText ?text then snd (isRestaurantNameOrHeader st ?text i hs allLines) else st"
    obtain b st1 where h: "isRestaurantNameOrHeader ?st0 ?text i hs allLines = (b, st1)"
      by (cases "isRestaurantNameOrHeader ?st0 ?text i hs allLines")
    show ?thesis
    proof (cases b)
      case True
      with assms False h show ?thesis by (simp add: processLine_def Let_def)
    next
      case nb: False
      let ?st1 = "if tracedText ?text then snd (calculateVisualHierarchyScore st1 i ocrLines) else st1"
      obtain v st2 where vh: "calculateVisualHierarchyScore ?st1 i ocrLines = (v, st2)"
        by (cases "calculateVisualHierarchyScore ?st1 i ocrLines")
      show ?thesis
      proof (cases "allCapsPath env st2 n ocrLines allLines hs page i v")
        case (NextLine cs3 st3)
        with assms False h nb vh have "cs = cs3" by (simp add: processLine_def Let_def)
        with allCapsPath_emitted[OF NextLine] show ?thesis by simp
      next
        case LookupRaised
        with assms False h nb vh show ?thesis by (simp add: processLine_def Let_def)
      next
        case (FallThrough st3)
        show ?thesis
        proof (cases "highVisualPath env st3 n ocrLines allLines hs page i v")
          case (NextLine cs4 st4)
          with assms False h nb vh FallThrough have "cs = cs4" by (simp add: processLine_def Let_def)
          with highVisualPath_emitted[OF NextLine] show ?thesis by simp
        next
          case LookupRaised
          with assms False h nb vh FallThrough show ?thesis by (simp add: processLine_def Let_def)
        next
          case ft: (FallThrough st4)
          with assms False h nb vh FallThrough have
            "defaultPath env st4 n ocrLines allLines hs page i = Returned (cs, st')"
            by (simp add: processLine_def Let_def)
          then show ?thesis by (rule defaultPath_emitted)
        qed
      qed
    qed
  qed
qed

lemma linesFrom_emitted:
  "linesFrom env ocrLines page cands st indices = Returned (cs, st') \<Longrightarrow>
   \<forall>c \<in> set cs. c \<in> set cands
      \<or> (\<exists>i \<in> set indices. emittedFor i (detectSectionHeaders (map line_text ocrLines)) c)"
proof (induction indices arbitrary: cands st)
  case Nil
  then show ?case by simp
next
  case (Cons i indices)
  let ?hs = "detectSectionHeaders (map line_text ocrLines)"
  from Cons.prems obtain cs1 st1 where
    p: "processLine env st (length cands) ocrLines (map line_text ocrLines) ?hs page i = Returned (cs1, st1)"
    and r: "linesFrom env ocrLines page (cands @ cs1) st1 indices = Returned (cs, st')"
    by (auto split: outcome.splits prod.splits)
  from processLine_emitted[OF p] Cons.IH[OF r] show ?case by auto
qed

lemma set_sliceTo: "set (sliceTo n xs) \<subseteq> set xs"
  by (auto simp: sliceTo_def dest: in_set_takeD)

lemma extractCandidates_emitted:
  assumes "extractCandidates env st ocrLines page topN = Returned (cs, st')" and "c \<in> set cs"
  shows "\<exists>i < length ocrLines. emittedFor i (detectSectionHeaders (map line_text ocrLines)) c"
proof -
  from assms(1) obtain all where
    a: "linesFrom env ocrLines page [] st [0 ..< length ocrLines] = Returned (all, st')"
    and cs: "cs = sliceTo topN (sortByConfidence all)"
    by (auto simp: extractCandidates_def collectCandidates_def split: outcome.splits prod.splits)
  have "c \<in> set all" using assms(2) cs set_sliceTo[of topN "sortByConfidence all"]
    by (auto simp: sortByConfidence_def)
  with linesFrom_emitted[OF a] obtain i where
    "i \<in> set [0 ..< length ocrLines]" "emittedFor i (detectSectionHeaders (map line_text ocrLines)) c"
    by fastforce
  then show ?thesis by (intro exI[of _ i]) simp
qed

end
